theory Spec2Isabelle
  imports Complex_Main
begin

section \<open>Data model of the DORA dashboard\<close>

text \<open>
  The record store is the JSON snapshot typed by the interface \<open>DoraData\<close>. Every
  timestamp string is read by the code through \<open>new Date(s)\<close> only, so a timestamp
  field holds the instant it denotes, in milliseconds since the epoch. JSON numbers are
  rationals and the arithmetic of the engine is exact, except for the one value whose
  rounding as a double decides a printed digit: the weekly success rate of the trend
  text is computed in binary64 (\<open>roundToDouble\<close> below).
  Fields that no function of the engine reads (\<open>log_url\<close>, \<open>source_fetched_at_utc\<close>,
  \<open>etl_run_id\<close> and the optional references of an event) are left out.
\<close>

record Deployment =
  deployment_id :: int
  environment :: string
  created_at_utc :: int
  finished_at_utc :: int
  state :: string
  actor :: string
  sha :: string
  ref :: string

record PullRequest =
  pr_number :: int
  pr_merged_at_utc :: int
  pr_merge_sha :: string
  author :: string

record Incident =
  incident_id :: string
  title :: string
  created_utc :: int
  closed_utc :: int
  duration_minutes :: rat

record DoraEvent =
  event_id :: int
  event_type :: string
  when_utc :: int

record DailyRollup =
  date :: int
  deploys :: rat
  failed_deploys :: rat
  cfr :: rat
  avg_lt_hours :: rat
  mttr_min :: rat

text \<open>
  \<open>fact_deployment\<close> is a required property of \<open>DoraData\<close>; the other four collections
  are optional (\<open>None\<close> is an absent property, that is \<open>undefined\<close>).
\<close>

record DoraData =
  fact_deployment :: "Deployment list"
  fact_pr :: "PullRequest list option"
  fact_incident :: "Incident list option"
  dora_events :: "DoraEvent list option"
  dora_summary_daily :: "DailyRollup list option"

text \<open>
  The interface \<open>FilteredData\<close> has the five properties of \<open>DoraData\<close> with the very
  same types (each is declared as \<open>DoraData['...']\<close>), so it is the same record.
\<close>

type_synonym FilteredData = DoraData

section \<open>Time-window filter\<close>

text \<open>\<open>xs || []\<close> for an optional array: an array, even an empty one, is truthy.\<close>

definition orEmpty :: "'a list option \<Rightarrow> 'a list" where
  "orEmpty xs = (case xs of None \<Rightarrow> [] | Some ys \<Rightarrow> ys)"

text \<open>\<open>xs && xs.length > 0\<close> for an optional array.\<close>

definition isNonEmpty :: "'a list option \<Rightarrow> bool" where
  "isNonEmpty xs = (case xs of None \<Rightarrow> False | Some ys \<Rightarrow> length ys > 0)"

definition msPerDay :: int where
  "msPerDay = 24 * 60 * 60 * 1000"

text \<open>
  \<open>filterDataByDays(data, days)\<close>; the clock \<open>Date.now()\<close> is the parameter \<open>now\<close>.
  \<open>xs?.filter(p) || []\<close> is \<open>orEmpty (map_option (filter p) xs)\<close>.
\<close>

definition filterDataByDays :: "DoraData \<Rightarrow> int option \<Rightarrow> int \<Rightarrow> FilteredData" where
  "filterDataByDays data days now =
     (case days of
        None \<Rightarrow>
          \<lparr> fact_deployment = fact_deployment data,
            fact_pr = Some (orEmpty (fact_pr data)),
            fact_incident = Some (orEmpty (fact_incident data)),
            dora_events = Some (orEmpty (dora_events data)),
            dora_summary_daily = Some (orEmpty (map_option rev (dora_summary_daily data))) \<rparr>
      | Some n \<Rightarrow>
          (let cutoffDate = now - n * msPerDay in
           \<lparr> fact_deployment = filter (\<lambda>d. created_at_utc d \<ge> cutoffDate) (fact_deployment data),
             fact_pr = Some (orEmpty (map_option
               (filter (\<lambda>pr. pr_merged_at_utc pr \<ge> cutoffDate)) (fact_pr data))),
             fact_incident = Some (orEmpty (map_option
               (filter (\<lambda>incident. created_utc incident \<ge> cutoffDate)) (fact_incident data))),
             dora_events = Some (orEmpty (map_option
               (filter (\<lambda>event. when_utc event \<ge> cutoffDate)) (dora_events data))),
             dora_summary_daily = Some (orEmpty (map_option
               (\<lambda>xs. rev (filter (\<lambda>d. date d \<ge> cutoffDate) xs)) (dora_summary_daily data))) \<rparr>))"

section \<open>Metrics derivation engine\<close>

subsection \<open>JavaScript primitives used by the engine\<close>

text \<open>
  Two operations of the engine can raise. A property read on \<open>undefined\<close> raises
  \<open>TypeError\<close>: an array read out of range produces \<open>undefined\<close>, so \<open>xs[i].p\<close> is
  \<open>prop_of (elemAt xs i) p\<close>, and so does a property that is missing from the parsed
  store. A call with a spread argument list, \<open>Math.max(...xs)\<close>, raises \<open>RangeError\<close>
  when \<open>xs\<close> holds more elements than the engine accepts as arguments.
\<close>

datatype JsError = TypeError | RangeError

definition elemAt :: "'a list \<Rightarrow> int \<Rightarrow> 'a option" where
  "elemAt xs i = (if 0 \<le> i \<and> i < int (length xs) then Some (xs ! nat i) else None)"

definition prop_of :: "'a option \<Rightarrow> ('a \<Rightarrow> 'b) \<Rightarrow> JsError + 'b" where
  "prop_of x p = (case x of None \<Rightarrow> Inl TypeError | Some v \<Rightarrow> Inr (p v))"

text \<open>
  \<open>Array.prototype.sort(cmp)\<close> is a stable sort: an element stays in front of a later
  one unless the comparator puts it strictly after. Insertion from the right is such a
  sort.
\<close>

fun insertBy :: "('a \<Rightarrow> 'a \<Rightarrow> int) \<Rightarrow> 'a \<Rightarrow> 'a list \<Rightarrow> 'a list" where
  "insertBy cmp x [] = [x]"
| "insertBy cmp x (y # ys) = (if cmp x y \<le> 0 then x # y # ys else y # insertBy cmp x ys)"

definition jsSort :: "('a \<Rightarrow> 'a \<Rightarrow> int) \<Rightarrow> 'a list \<Rightarrow> 'a list" where
  "jsSort cmp xs = foldr (insertBy cmp) xs []"

text \<open>\<open>n || d\<close> for an optional number: \<open>undefined\<close> and \<open>0\<close> are falsy.\<close>

definition orNum :: "nat option \<Rightarrow> nat \<Rightarrow> nat" where
  "orNum n d = (case n of None \<Rightarrow> d | Some k \<Rightarrow> if k = 0 then d else k)"

text \<open>The decimal digits of a non-negative integer, as a template literal prints it.\<close>

fun showNat :: "nat \<Rightarrow> string" where
  "showNat n =
     (if n < 10 then [char_of (48 + n)]
      else showNat (n div 10) @ [char_of (48 + n mod 10)])"

declare showNat.simps [simp del]

text \<open>
  \<open>x.toFixed(0)\<close>: the integer nearest to \<open>x\<close>, the larger one of two equally near,
  in decimal digits; the sign is split off first.
\<close>

definition toFixed0 :: "rat \<Rightarrow> string" where
  "toFixed0 x =
     (if x < 0 then ''-'' @ showNat (nat \<lfloor>- x + 1 / 2\<rfloor>)
      else showNat (nat \<lfloor>x + 1 / 2\<rfloor>))"

text \<open>
  The Number value of a real: the nearest binary64 double, a tie going to the even
  significand. A double has 53 significant bits, so \<open>x\<close> is scaled by the power of two
  that brings it into \<open>[2^52, 2^53)\<close>, rounded to an integer and scaled back. The exponent
  range is not bounded: the engine rounds quotients of array lengths only, which are far
  from the subnormal and the overflow thresholds.
\<close>

definition roundHalfEven :: "rat \<Rightarrow> int" where
  "roundHalfEven x =
     (let n = \<lfloor>x\<rfloor>; r = x - of_int n
      in if r < 1 / 2 then n else if 1 / 2 < r then n + 1 else if even n then n else n + 1)"

text \<open>The number of binary digits of a positive integer.\<close>

function bitLength :: "int \<Rightarrow> int" where
  "bitLength n = (if n \<le> 0 then 0 else 1 + bitLength (n div 2))"
  by pat_completeness auto
termination
  by (relation "measure nat") auto

declare bitLength.simps [simp del]

text \<open>The exponent \<open>e\<close> with \<open>2^e \<le> x < 2^(e+1)\<close>, for a positive \<open>x\<close>.\<close>

definition binade :: "rat \<Rightarrow> int" where
  "binade x =
     (let k = bitLength (fst (quotient_of x)) - bitLength (snd (quotient_of x))
      in if 2 powi k \<le> x then k else k - 1)"

definition roundToDouble :: "rat \<Rightarrow> rat" where
  "roundToDouble x =
     (if x = 0 then 0
      else (let e = binade \<bar>x\<bar> - 52
            in sgn x * of_int (roundHalfEven (\<bar>x\<bar> / 2 powi e)) * 2 powi e))"

subsection \<open>Classification of deployments\<close>

text \<open>
  The two predicates the code writes inline at every use:
  \<open>d => d.state === 'success' || d.state === 'inactive'\<close> and
  \<open>d => d.state === 'error' || d.state === 'failure'\<close>.
\<close>

definition isSuccessful :: "Deployment \<Rightarrow> bool" where
  "isSuccessful d \<longleftrightarrow> state d = ''success'' \<or> state d = ''inactive''"

definition isFailed :: "Deployment \<Rightarrow> bool" where
  "isFailed d \<longleftrightarrow> state d = ''error'' \<or> state d = ''failure''"

text \<open>\<open>(finished - created) / (1000 * 60 * 60)\<close>, in hours.\<close>

definition leadTimeHours :: "Deployment \<Rightarrow> rat" where
  "leadTimeHours d = of_int (finished_at_utc d - created_at_utc d) / (1000 * 60 * 60)"

subsection \<open>Weekly trend text and fixed look-back counts\<close>

text \<open>
  \<open>((successfulWeek / weekCount) * 100).toFixed(0)\<close>: the two counts are doubles exactly;
  the quotient is rounded to a double, its product with \<open>100\<close> is rounded again, and
  \<open>toFixed\<close> prints the integer nearest to that double.
\<close>

definition calculateDeploymentTrendText :: "FilteredData \<Rightarrow> DoraData \<Rightarrow> int \<Rightarrow> string" where
  "calculateDeploymentTrendText filteredData originalData now =
     (let lastWeekStart = now - 7 * msPerDay;
          allDeployments = fact_deployment originalData;
          lastWeekDeployments =
            filter (\<lambda>d. created_at_utc d \<ge> lastWeekStart \<and> created_at_utc d \<le> now) allDeployments;
          weekCount = length lastWeekDeployments
      in if weekCount = 0 then ''0 deployments in last week''
         else
           (let successfulWeek = length (filter isSuccessful lastWeekDeployments);
                weekSuccessRate = toFixed0 (roundToDouble
                  (roundToDouble (of_nat successfulWeek / of_nat weekCount) * 100))
            in showNat weekCount @ '' deployments in last week, with '' @ weekSuccessRate
                 @ ''% success rate''))"

record DeploymentCounts =
  yesterday :: nat
  lastWeek :: nat
  lastMonth :: nat

definition calculateDeploymentCounts :: "DoraData \<Rightarrow> int \<Rightarrow> DeploymentCounts" where
  "calculateDeploymentCounts originalData now =
     (let yesterday = now - 1 * msPerDay;
          lastWeek = now - 7 * msPerDay;
          lastMonth = now - 30 * msPerDay;
          deploymentsYesterday = length (filter
            (\<lambda>d. created_at_utc d \<ge> yesterday \<and> created_at_utc d \<le> now)
            (fact_deployment originalData));
          deploymentsLastWeek = length (filter
            (\<lambda>d. created_at_utc d \<ge> lastWeek \<and> created_at_utc d \<le> now)
            (fact_deployment originalData));
          deploymentsLastMonth = length (filter
            (\<lambda>d. created_at_utc d \<ge> lastMonth \<and> created_at_utc d \<le> now)
            (fact_deployment originalData))
      in \<lparr> yesterday = deploymentsYesterday, lastWeek = deploymentsLastWeek,
           lastMonth = deploymentsLastMonth \<rparr>)"

subsection \<open>Change-failure-rate trend status\<close>

datatype TrendStatus = good | bad

definition calculateCFRTrendStatus ::
  "FilteredData \<Rightarrow> DoraData \<Rightarrow> int option \<Rightarrow> int \<Rightarrow> TrendStatus" where
  "calculateCFRTrendStatus filteredData originalData timeFilterDays now =
     (case timeFilterDays of
        None \<Rightarrow>
          (let totalDeployments = length (fact_deployment originalData);
               failedDeployments = length (filter isFailed (fact_deployment originalData));
               cfrPercentage =
                 (if totalDeployments > 0
                  then (of_nat failedDeployments / of_nat totalDeployments) * (100 :: rat)
                  else 0)
           in if cfrPercentage < 20 then good else bad)
      | Some days \<Rightarrow>
          (let currentFailures = length (filter isFailed (fact_deployment filteredData));
               currentPeriodStart = now - days * msPerDay;
               previousPeriodStart = currentPeriodStart - days * msPerDay;
               previousFailures = length (filter
                 (\<lambda>d. created_at_utc d \<ge> previousPeriodStart
                    \<and> created_at_utc d < currentPeriodStart \<and> isFailed d)
                 (fact_deployment originalData))
           in if currentFailures \<le> previousFailures then good else bad))"

subsection \<open>The snapshot\<close>

record DoraMetrics =
  deploymentFrequency :: rat
  deploymentFrequencyTrend :: rat
  deploymentFrequencyTrendText :: string
  deploymentsYesterday :: nat
  deploymentsLastWeek :: nat
  deploymentsLastMonth :: nat
  leadTime :: rat
  leadTimeTrend :: rat
  maxLeadTime :: rat
  minLeadTime :: rat
  lastDeploymentLeadTime :: rat
  cfr :: rat
  cfrTrend :: rat
  cfrTrendStatus :: TrendStatus
  failedDeployments :: nat
  successfulDeployments :: nat
  mttr :: rat
  mttrTrend :: rat
  maxMTTR :: rat
  minMTTR :: rat
  lastIncidentMTTR :: rat
  totalDeployments :: nat
  successRate :: rat
  totalIncidents :: nat
  totalPRs :: nat

text \<open>The four mutable locals \<open>avgDeploymentFreq\<close>, \<open>avgLeadTime\<close>, \<open>avgCFR\<close>, \<open>avgMTTR\<close>.\<close>

record Averages =
  avgDeploymentFreq :: rat
  avgLeadTime :: rat
  avgCFR :: rat
  avgMTTR :: rat

definition bindE :: "JsError + 'a \<Rightarrow> ('a \<Rightarrow> JsError + 'b) \<Rightarrow> JsError + 'b" where
  "bindE m f = (case m of Inl e \<Rightarrow> Inl e | Inr v \<Rightarrow> f v)"

text \<open>
  The branch \<open>if (summary && summary.length > 0)\<close>: the averages are taken over the rows
  with \<open>deploys > 0\<close>; all four locals, \<open>avgMTTR\<close> included, are assigned only inside
  \<open>if (validData.length > 0)\<close> and keep their initial value \<open>0\<close> otherwise.
\<close>

definition summaryAverages :: "DailyRollup list \<Rightarrow> Averages" where
  "summaryAverages summary =
     (let validData = filter (\<lambda>d. deploys d > 0) summary in
      if length validData > 0 then
        \<lparr> avgDeploymentFreq =
            foldl (\<lambda>sum d. sum + deploys d) 0 validData / of_nat (length validData),
          avgLeadTime =
            foldl (\<lambda>sum d. sum + avg_lt_hours d) 0 validData / of_nat (length validData),
          avgCFR =
            (foldl (\<lambda>sum d. sum + DailyRollup.cfr d) 0 validData / of_nat (length validData)) * 100,
          avgMTTR = foldl (\<lambda>sum d. sum + mttr_min d / 60) 0 summary \<rparr>
      else \<lparr> avgDeploymentFreq = 0, avgLeadTime = 0, avgCFR = 0, avgMTTR = 0 \<rparr>)"

text \<open>The \<open>else\<close> branch: the averages from the raw deployments, incidents and events.\<close>

definition rawAverages :: "FilteredData \<Rightarrow> int \<Rightarrow> JsError + Averages" where
  "rawAverages filteredData now =
     (let deployments = fact_deployment filteredData;
          totalDeployments = length deployments
      in bindE
           (if length deployments > 0
            then bindE
              (prop_of (elemAt deployments (int (length deployments) - 1)) created_at_utc)
              (\<lambda>created. Inr (of_int (now - created) / (1000 * 60 * 60 * 24)))
            else Inr (1 :: rat))
           (\<lambda>days.
             (let avgDeploymentFreq = of_nat totalDeployments / max 1 (of_int \<lceil>days\<rceil>);
                  leadTimes = filter (\<lambda>time. time > 0) (map leadTimeHours deployments);
                  avgLeadTime =
                    (if length leadTimes > 0
                     then foldl (\<lambda>sum time. sum + time) 0 leadTimes / of_nat (length leadTimes)
                     else 0);
                  failedDeployments = length (filter isFailed deployments);
                  avgCFR =
                    (if totalDeployments > 0
                     then (of_nat failedDeployments / of_nat totalDeployments) * 100
                     else 0);
                  avgMTTR0 = (0 :: rat);
                  avgMTTR =
                    (if avgMTTR0 = 0 \<and> isNonEmpty (fact_incident filteredData)
                     then
                       (let totalRecoveryMinutes =
                              foldl (\<lambda>sum incident. sum + duration_minutes incident) 0
                                (orEmpty (fact_incident filteredData))
                        in totalRecoveryMinutes / 60)
                     else if avgMTTR0 = 0 \<and> isNonEmpty (dora_events filteredData)
                     then
                       (let incidents =
                              filter (\<lambda>event. event_type event = ''incident'')
                                (orEmpty (dora_events filteredData))
                        in if length incidents > 0
                           then (let estimatedHoursPerIncident = 3
                                 in of_nat (length incidents) * estimatedHoursPerIncident)
                           else avgMTTR0)
                     else avgMTTR0)
              in Inr \<lparr> avgDeploymentFreq = avgDeploymentFreq, avgLeadTime = avgLeadTime,
                       avgCFR = avgCFR, avgMTTR = avgMTTR \<rparr>)))"

text \<open>
  The recovery-time insights: \<open>maxMTTR\<close>, \<open>minMTTR\<close> and \<open>lastIncidentMTTR\<close>, all \<open>0\<close>
  unless \<open>fact_incident\<close> is present and not empty. \<open>Math.max(...xs)\<close> of a non-empty
  list that the engine accepts as arguments is \<open>foldl max\<close> from its first element.
\<close>

definition incidentInsights :: "Incident list option \<Rightarrow> JsError + rat \<times> rat \<times> rat" where
  "incidentInsights fact_incident_opt =
     (case fact_incident_opt of
        None \<Rightarrow> Inr (0, 0, 0)
      | Some incidents \<Rightarrow>
          (case map (\<lambda>incident. duration_minutes incident / 60) incidents of
             [] \<Rightarrow> Inr (0, 0, 0)
           | t # ts \<Rightarrow>
               (let maxMTTR = foldl max t ts;
                    minMTTR = foldl min t ts;
                    sortedIncidents = jsSort (\<lambda>a b. created_utc b - created_utc a) incidents
                in bindE
                     (if length sortedIncidents > 0
                      then prop_of (elemAt sortedIncidents 0) (\<lambda>i. duration_minutes i / 60)
                      else Inr 0)
                     (\<lambda>lastIncidentMTTR. Inr (maxMTTR, minMTTR, lastIncidentMTTR)))))"

text \<open>The inner function \<open>getTrend(current, previous)\<close>.\<close>

definition getTrend :: "rat list \<Rightarrow> rat list \<Rightarrow> rat" where
  "getTrend current previous =
     (if length previous = 0 \<or> length current = 0 then 0
      else
        (let currentAvg = foldl (\<lambda>sum d. sum + d) 0 current / of_nat (length current);
             previousAvg = foldl (\<lambda>sum d. sum + d) 0 previous / of_nat (length previous)
         in if previousAvg = 0 then 0
            else ((currentAvg - previousAvg) / previousAvg) * 100))"

text \<open>
  \<open>summary?.slice(0, midPoint) || []\<close> and \<open>summary?.slice(midPoint) || []\<close> with
  \<open>midPoint = Math.floor((summary?.length || 0) / 2)\<close>.
\<close>

definition midPoint :: "DailyRollup list option \<Rightarrow> nat" where
  "midPoint summary = orNum (map_option length summary) 0 div 2"

definition recentPeriod :: "DailyRollup list option \<Rightarrow> DailyRollup list" where
  "recentPeriod summary = orEmpty (map_option (take (midPoint summary)) summary)"

definition previousPeriod :: "DailyRollup list option \<Rightarrow> DailyRollup list" where
  "previousPeriod summary = orEmpty (map_option (drop (midPoint summary)) summary)"

text \<open>
  \<open>calculateDoraMetrics(filteredData, originalData, timeFilterDays)\<close>. Every read of the
  clock within one call is the same instant \<open>now\<close>. The in-place sorts only reorder the
  arrays of the view; every value computed after them counts elements, so the arrays
  are read here as they were passed (the store-level model below carries the
  reordering). This is the function on inputs of the declared types whose arrays the
  engine accepts as argument lists; \<open>calculateDoraMetrics_js\<close> below adds what happens
  outside them.
\<close>

definition calculateDoraMetrics ::
  "FilteredData \<Rightarrow> DoraData \<Rightarrow> int option \<Rightarrow> int \<Rightarrow> JsError + DoraMetrics" where
  "calculateDoraMetrics filteredData originalData timeFilterDays now =
     (let deployments = fact_deployment filteredData;
          summary = dora_summary_daily filteredData;
          deploymentCounts = calculateDeploymentCounts originalData now;
          totalDeployments = length deployments;
          successfulDeployments = length (filter isSuccessful deployments);
          failedDeployments = length (filter isFailed deployments);
          successRate =
            (if totalDeployments > 0
             then (of_nat successfulDeployments / of_nat totalDeployments) * (100 :: rat)
             else 0)
      in bindE
           (if isNonEmpty summary then Inr (summaryAverages (orEmpty summary))
            else rawAverages filteredData now)
           (\<lambda>avg.
             (let allLeadTimes = filter (\<lambda>time. time > 0) (map leadTimeHours deployments);
                  maxLeadTime = (case allLeadTimes of [] \<Rightarrow> 0 | t # ts \<Rightarrow> foldl max t ts);
                  minLeadTime = (case allLeadTimes of [] \<Rightarrow> 0 | t # ts \<Rightarrow> foldl min t ts);
                  sortedDeployments =
                    jsSort (\<lambda>a b. created_at_utc b - created_at_utc a) deployments
              in bindE
                   (if length sortedDeployments > 0
                    then prop_of (elemAt sortedDeployments 0) leadTimeHours
                    else Inr 0)
                   (\<lambda>lastDeploymentLeadTime.
                     bindE (incidentInsights (fact_incident filteredData))
                       (\<lambda>(maxMTTR, minMTTR, lastIncidentMTTR).
                         Inr \<lparr> deploymentFrequency = avgDeploymentFreq avg,
                               deploymentFrequencyTrend = getTrend
                                 (map deploys (recentPeriod summary))
                                 (map deploys (previousPeriod summary)),
                               deploymentFrequencyTrendText =
                                 calculateDeploymentTrendText filteredData originalData now,
                               deploymentsYesterday = yesterday deploymentCounts,
                               deploymentsLastWeek = lastWeek deploymentCounts,
                               deploymentsLastMonth = lastMonth deploymentCounts,
                               leadTime = avgLeadTime avg,
                               leadTimeTrend = getTrend
                                 (map avg_lt_hours (recentPeriod summary))
                                 (map avg_lt_hours (previousPeriod summary)),
                               maxLeadTime = maxLeadTime,
                               minLeadTime = minLeadTime,
                               lastDeploymentLeadTime = lastDeploymentLeadTime,
                               cfr = avgCFR avg,
                               cfrTrend = getTrend
                                 (map DailyRollup.cfr (recentPeriod summary))
                                 (map DailyRollup.cfr (previousPeriod summary)),
                               cfrTrendStatus = calculateCFRTrendStatus
                                 filteredData originalData timeFilterDays now,
                               failedDeployments = failedDeployments,
                               successfulDeployments = successfulDeployments,
                               mttr = avgMTTR avg,
                               mttrTrend = getTrend
                                 (map (\<lambda>d. mttr_min d / 60) (recentPeriod summary))
                                 (map (\<lambda>d. mttr_min d / 60) (previousPeriod summary)),
                               maxMTTR = maxMTTR,
                               minMTTR = minMTTR,
                               lastIncidentMTTR = lastIncidentMTTR,
                               totalDeployments = totalDeployments,
                               successRate = successRate,
                               totalIncidents =
                                 orNum (map_option length (fact_incident filteredData))
                                   (orNum (map_option
                                      (\<lambda>events. length
                                         (filter (\<lambda>event. event_type event = ''incident'') events))
                                      (dora_events filteredData)) 0),
                               totalPRs = orNum (map_option length (fact_pr filteredData)) 0
                             \<rparr>)))))"

text \<open>\<open>getDeploymentStatusCounts\<close>: the two buckets as (name, count, colour).\<close>

definition getDeploymentStatusCounts :: "Deployment list \<Rightarrow> (string \<times> nat \<times> string) list" where
  "getDeploymentStatusCounts deployments =
     (let success = length (filter isSuccessful deployments);
          failed = length (filter isFailed deployments)
      in [(''Success'', success, ''hsl(142, 76%, 36%)''),
          (''Failed'', failed, ''hsl(0, 84%, 60%)'')])"

subsection \<open>The engine on parsed JSON\<close>

text \<open>
  The declared types are not checked at run time: the store is the result of
  \<open>response.json()\<close>, in which \<open>fact_deployment\<close> can be missing like any other property.
\<close>

record JsonData =
  json_fact_deployment :: "Deployment list option"
  json_fact_pr :: "PullRequest list option"
  json_fact_incident :: "Incident list option"
  json_dora_events :: "DoraEvent list option"
  json_dora_summary_daily :: "DailyRollup list option"

definition typed :: "JsonData \<Rightarrow> DoraData" where
  "typed j =
     \<lparr> fact_deployment = orEmpty (json_fact_deployment j), fact_pr = json_fact_pr j,
       fact_incident = json_fact_incident j, dora_events = json_dora_events j,
       dora_summary_daily = json_dora_summary_daily j \<rparr>"

definition untyped :: "DoraData \<Rightarrow> JsonData" where
  "untyped d =
     \<lparr> json_fact_deployment = Some (fact_deployment d), json_fact_pr = fact_pr d,
       json_fact_incident = fact_incident d, json_dora_events = dora_events d,
       json_dora_summary_daily = dora_summary_daily d \<rparr>"

text \<open>
  \<open>calculateDoraMetrics\<close> on such objects, in the order of the code. The first statement
  that reads a property of \<open>fact_deployment\<close> is \<open>originalData.fact_deployment.filter\<close> in
  \<open>calculateDeploymentCounts\<close>, the next is \<open>deployments.length\<close>; neither is guarded.
  Then \<open>Math.max(...allLeadTimes)\<close> and \<open>Math.min(...allLeadTimes)\<close> spread the positive
  lead times, and \<open>Math.max(...incidentDurations)\<close> and \<open>Math.min(...incidentDurations)\<close>
  the incidents of the view. \<open>argLimit\<close> is the number of arguments the engine accepts,
  a constant of the engine that the language does not fix.
\<close>

definition calculateDoraMetrics_js ::
  "nat \<Rightarrow> JsonData \<Rightarrow> JsonData \<Rightarrow> int option \<Rightarrow> int \<Rightarrow> JsError + DoraMetrics" where
  "calculateDoraMetrics_js argLimit filteredData originalData timeFilterDays now =
     (case json_fact_deployment originalData of
        None \<Rightarrow> Inl TypeError
      | Some _ \<Rightarrow>
          (case json_fact_deployment filteredData of
             None \<Rightarrow> Inl TypeError
           | Some deployments \<Rightarrow>
               if argLimit < length (filter (\<lambda>time. time > 0) (map leadTimeHours deployments))
               then Inl RangeError
               else if argLimit < length (orEmpty (json_fact_incident filteredData))
               then Inl RangeError
               else calculateDoraMetrics (typed filteredData) (typed originalData)
                      timeFilterDays now))"

section \<open>Repository-summary feed\<close>

text \<open>
  \<open>parseCSV\<close> of the repository-summary pages. A string is a list of code units, here
  restricted to 8 bits; \<open>trim\<close> and \<open>parseInt\<close> skip the white space and line
  terminators of that range. A parsed number is an \<open>int option\<close>: \<open>None\<close> is \<open>NaN\<close>.
\<close>

definition isWhiteSpace :: "char \<Rightarrow> bool" where
  "isWhiteSpace c \<longleftrightarrow> (of_char c :: nat) \<in> {9, 10, 11, 12, 13, 32, 160}"

definition trim :: "string \<Rightarrow> string" where
  "trim s = rev (dropWhile isWhiteSpace (rev (dropWhile isWhiteSpace s)))"

text \<open>\<open>s.split(sep)\<close> for a separator of one character; the empty string gives \<open>['''']\<close>.\<close>

fun split :: "char \<Rightarrow> string \<Rightarrow> string list" where
  "split sep [] = [[]]"
| "split sep (c # cs) =
     (if c = sep then [] # split sep cs
      else (case split sep cs of [] \<Rightarrow> [[c]] | r # rs \<Rightarrow> (c # r) # rs))"

definition isDigit :: "char \<Rightarrow> bool" where
  "isDigit c \<longleftrightarrow> 48 \<le> (of_char c :: nat) \<and> (of_char c :: nat) \<le> 57"

text \<open>
  \<open>parseInt(s, 10)\<close>: leading white space is skipped, one sign is read, then the longest
  run of decimal digits; with no digit the result is \<open>NaN\<close>, and whatever follows the
  digits is ignored.
\<close>

definition parseInt :: "string \<Rightarrow> int option" where
  "parseInt s =
     (let s1 = dropWhile isWhiteSpace s;
          sign = (case s1 of c # _ \<Rightarrow> if c = CHR ''-'' then - 1 else 1 | [] \<Rightarrow> (1 :: int));
          s2 = (case s1 of c # cs \<Rightarrow> if c = CHR ''-'' \<or> c = CHR ''+'' then cs else s1 | [] \<Rightarrow> []);
          z = takeWhile isDigit s2
      in if z = [] then None
         else Some (sign * int (foldl (\<lambda>n c. 10 * n + (of_char c - 48)) 0 z)))"

text \<open>\<open>s || d\<close> for an optional string: \<open>undefined\<close> and the empty string are falsy.\<close>

definition orStr :: "string option \<Rightarrow> string \<Rightarrow> string" where
  "orStr s d = (case s of None \<Rightarrow> d | Some v \<Rightarrow> if v = [] then d else v)"

text \<open>
  The object \<open>row\<close> after \<open>headers.forEach((header, index) => row[header.trim()] =
  values[index]?.trim() || "")\<close>: a later header with the same trimmed name overwrites
  an earlier one.
\<close>

definition setCell :: "string list \<Rightarrow> (string \<rightharpoonup> string) \<Rightarrow> string \<times> nat \<Rightarrow> (string \<rightharpoonup> string)" where
  "setCell values row hi =
     row(trim (fst hi) \<mapsto> orStr (map_option trim (elemAt values (int (snd hi)))) [])"

definition buildRow :: "string list \<Rightarrow> string list \<Rightarrow> (string \<rightharpoonup> string)" where
  "buildRow headers values =
     foldl (setCell values) Map.empty (zip headers [0..<length headers])"

text \<open>
  The four counters are also the shape of the \<open>totals\<close> accumulator of \<open>SummaryCard\<close>;
  \<open>RepoMetrics\<close> has them and three strings, and the dashboard's \<open>RepoMetrics\<close> has
  \<open>daysSinceLastRelease\<close> (\<open>number | null\<close>) in addition.
\<close>

record Counters =
  prsOpened :: "int option"
  prsMerged :: "int option"
  issuesReadyForQA :: "int option"
  issuesQACompleted :: "int option"

record RepoMetrics = Counters +
  repoName :: string
  displayName :: string
  fetchedAt :: string

record RepoMetricsRelease = RepoMetrics +
  daysSinceLastRelease :: "int option option"

text \<open>The record pushed for one line, given the \<open>row\<close> object.\<close>

definition rowMetrics :: "(string \<rightharpoonup> string) \<Rightarrow> RepoMetrics" where
  "rowMetrics row =
     \<lparr> prsOpened = parseInt (orStr (row ''prs_opened'') ''0''),
       prsMerged = parseInt (orStr (row ''prs_merged'') ''0''),
       issuesReadyForQA = parseInt (orStr (row ''issues_ready_for_qa'') ''0''),
       issuesQACompleted = parseInt (orStr (row ''issues_qa_completed'') ''0''),
       repoName = orStr (row ''repo_name'') [],
       displayName = orStr (row ''display_name'') [],
       fetchedAt = orStr (row ''fetched_at'') [] \<rparr>"

definition rowMetricsRelease :: "(string \<rightharpoonup> string) \<Rightarrow> RepoMetricsRelease" where
  "rowMetricsRelease row =
     RepoMetrics.extend (rowMetrics row)
       (RepoMetricsRelease.fields
          (if orStr (row ''days_since_last_release'') [] \<noteq> []
           then Some (parseInt (orStr (row ''days_since_last_release'') []))
           else None))"

text \<open>\<open>parseCSV(csvText)\<close> of the repository-summary page.\<close>

definition parseCSV :: "string \<Rightarrow> RepoMetrics list" where
  "parseCSV csvText =
     (let lines = split (CHR 0x0A) (trim csvText) in
      if length lines < 2 then []
      else (case lines of
              [] \<Rightarrow> []
            | line0 # rest \<Rightarrow>
                (let headers = split (CHR '','') line0
                 in map (\<lambda>line. rowMetrics (buildRow headers (split (CHR '','') line))) rest)))"

text \<open>\<open>parseCSV(csvText)\<close> of the dashboard page, with \<open>daysSinceLastRelease\<close>.\<close>

definition parseCSVRelease :: "string \<Rightarrow> RepoMetricsRelease list" where
  "parseCSVRelease csvText =
     (let lines = split (CHR 0x0A) (trim csvText) in
      if length lines < 2 then []
      else (case lines of
              [] \<Rightarrow> []
            | line0 # rest \<Rightarrow>
                (let headers = split (CHR '','') line0
                 in map (\<lambda>line. rowMetricsRelease (buildRow headers (split (CHR '','') line))) rest)))"

text \<open>\<open>a + b\<close> on numbers: \<open>NaN\<close> is absorbing.\<close>

definition addNum :: "int option \<Rightarrow> int option \<Rightarrow> int option" where
  "addNum a b = (case a of None \<Rightarrow> None | Some x \<Rightarrow> (case b of None \<Rightarrow> None | Some y \<Rightarrow> Some (x + y)))"

text \<open>The \<open>totals\<close> of \<open>SummaryCard\<close>: \<open>metrics.reduce\<close> from four zeros.\<close>

definition totals :: "'a RepoMetrics_scheme list \<Rightarrow> Counters" where
  "totals metrics =
     foldl (\<lambda>acc repo.
         \<lparr> prsOpened = addNum (prsOpened acc) (prsOpened repo),
           prsMerged = addNum (prsMerged acc) (prsMerged repo),
           issuesReadyForQA = addNum (issuesReadyForQA acc) (issuesReadyForQA repo),
           issuesQACompleted = addNum (issuesQACompleted acc) (issuesQACompleted repo) \<rparr>)
       \<lparr> prsOpened = Some 0, prsMerged = Some 0, issuesReadyForQA = Some 0,
         issuesQACompleted = Some 0 \<rparr>
       metrics"

text \<open>The recognised column names.\<close>

definition recognised :: "string set" where
  "recognised =
     {''repo_name'', ''display_name'', ''prs_opened'', ''prs_merged'', ''issues_ready_for_qa'',
      ''issues_qa_completed'', ''days_since_last_release'', ''fetched_at''}"

text \<open>The numeric columns and the fields of \<open>RepoMetrics\<close> they fill.\<close>

definition numericFields :: "(string \<times> (RepoMetrics \<Rightarrow> int option)) list" where
  "numericFields =
     [(''prs_opened'', prsOpened), (''prs_merged'', prsMerged),
      (''issues_ready_for_qa'', issuesReadyForQA), (''issues_qa_completed'', issuesQACompleted)]"

section \<open>Sample records\<close>

text \<open>Records for the concrete instances below; only the fields the engine reads vary.\<close>

definition deploymentAt :: "int \<Rightarrow> int \<Rightarrow> string \<Rightarrow> Deployment" where
  "deploymentAt created finished st =
     \<lparr> deployment_id = created, environment = ''production'', created_at_utc = created,
       finished_at_utc = finished, state = st, actor = ''dev'', sha = ''abc'', ref = ''main'' \<rparr>"

definition rollupRow :: "int \<Rightarrow> rat \<Rightarrow> rat \<Rightarrow> rat \<Rightarrow> rat \<Rightarrow> DailyRollup" where
  "rollupRow day n c lt m =
     \<lparr> date = day, deploys = n, failed_deploys = 0, cfr = c, avg_lt_hours = lt, mttr_min = m \<rparr>"

definition incidentAt :: "int \<Rightarrow> rat \<Rightarrow> Incident" where
  "incidentAt created minutes =
     \<lparr> incident_id = ''i'', title = ''outage'', created_utc = created, closed_utc = created,
       duration_minutes = minutes \<rparr>"

definition prAt :: "int \<Rightarrow> PullRequest" where
  "prAt merged =
     \<lparr> pr_number = merged, pr_merged_at_utc = merged, pr_merge_sha = ''abc'', author = ''dev'' \<rparr>"

definition eventAt :: "int \<Rightarrow> string \<Rightarrow> DoraEvent" where
  "eventAt t ty = \<lparr> event_id = t, event_type = ty, when_utc = t \<rparr>"

definition emptyStore :: DoraData where
  "emptyStore =
     \<lparr> fact_deployment = [], fact_pr = None, fact_incident = None, dora_events = None,
       dora_summary_daily = None \<rparr>"

definition windowStore :: DoraData where
  "windowStore =
     emptyStore
       \<lparr> fact_deployment :=
           [deploymentAt (99 * msPerDay) (99 * msPerDay) ''success'',
            deploymentAt (50 * msPerDay) (50 * msPerDay) ''error''],
         dora_summary_daily :=
           Some [rollupRow (99 * msPerDay) 1 0 1 0, rollupRow (98 * msPerDay) 2 0 1 0,
                 rollupRow (50 * msPerDay) 1 1 1 0] \<rparr>"

definition cfrStore :: DoraData where
  "cfrStore =
     emptyStore
       \<lparr> fact_deployment :=
           [deploymentAt (99 * msPerDay) (99 * msPerDay) ''success'',
            deploymentAt (95 * msPerDay) (95 * msPerDay) ''error'',
            deploymentAt (90 * msPerDay) (90 * msPerDay) ''failure'',
            deploymentAt (60 * msPerDay) (60 * msPerDay) ''failure'',
            deploymentAt (55 * msPerDay) (55 * msPerDay) ''error'',
            deploymentAt (45 * msPerDay) (45 * msPerDay) ''error'',
            deploymentAt (10 * msPerDay) (10 * msPerDay) ''error''] \<rparr>"

definition weekStore :: DoraData where
  "weekStore =
     emptyStore
       \<lparr> fact_deployment :=
           [deploymentAt (99 * msPerDay) (99 * msPerDay) ''success'',
            deploymentAt (97 * msPerDay) (97 * msPerDay) ''error'',
            deploymentAt (95 * msPerDay) (95 * msPerDay) ''inactive'',
            deploymentAt (80 * msPerDay) (80 * msPerDay) ''success''] \<rparr>"

definition tieStore :: DoraData where
  "tieStore =
     emptyStore
       \<lparr> fact_deployment :=
           replicate 23 (deploymentAt (99 * msPerDay) (99 * msPerDay) ''success'')
           @ replicate 17 (deploymentAt (98 * msPerDay) (98 * msPerDay) ''failure'') \<rparr>"

definition absentData :: JsonData where
  "absentData =
     \<lparr> json_fact_deployment = None, json_fact_pr = None, json_fact_incident = None,
       json_dora_events = None, json_dora_summary_daily = None \<rparr>"

definition msPerHour :: int where
  "msPerHour = 1000 * 60 * 60"

definition leadStore :: "int \<Rightarrow> DoraData" where
  "leadStore finished =
     emptyStore
       \<lparr> fact_deployment :=
           [deploymentAt (10 * msPerHour) (12 * msPerHour) ''success'',
            deploymentAt (20 * msPerHour) finished ''success''] \<rparr>"

definition bigStore :: DoraData where
  "bigStore =
     emptyStore
       \<lparr> fact_deployment := replicate 200000 (deploymentAt 0 (1 * msPerHour) ''success'') \<rparr>"

definition idleStore :: DoraData where
  "idleStore = emptyStore \<lparr> dora_summary_daily := Some [rollupRow 0 0 0 0 60] \<rparr>"

definition scenarioA :: DoraData where
  "scenarioA =
     emptyStore
       \<lparr> dora_summary_daily :=
           Some [rollupRow (1 * msPerDay) 2 (1 / 2) 4 60, rollupRow (2 * msPerDay) 4 0 2 0] \<rparr>"


definition uniformStore :: DoraData where
  "uniformStore =
     emptyStore
       \<lparr> dora_summary_daily :=
           Some [rollupRow (3 * msPerDay) 2 0 6 30, rollupRow (2 * msPerDay) 0 0 0 30,
                 rollupRow (1 * msPerDay) 1 1 3 30] \<rparr>"

definition incidentOnlyStore :: DoraData where
  "incidentOnlyStore =
     emptyStore \<lparr> fact_pr := Some [prAt 0], fact_incident := Some [incidentAt 0 120] \<rparr>"

definition trendStore :: DoraData where
  "trendStore =
     emptyStore
       \<lparr> dora_summary_daily :=
           Some [rollupRow (4 * msPerDay) 5 0 1 0, rollupRow (3 * msPerDay) 3 0 1 0,
                 rollupRow (2 * msPerDay) 3 0 1 0, rollupRow (1 * msPerDay) 1 0 1 0] \<rparr>"

definition chronoStore :: DoraData where
  "chronoStore =
     emptyStore
       \<lparr> dora_summary_daily :=
           Some [rollupRow (1 * msPerDay) 1 0 1 0, rollupRow (2 * msPerDay) 3 0 1 0,
                 rollupRow (3 * msPerDay) 3 0 1 0, rollupRow (4 * msPerDay) 5 0 1 0] \<rparr>"

definition feedMalformed :: string where
  "feedMalformed = ''repo_name,prs_opened'' @ [CHR 0x0A] @ ''r1,abc'' @ [CHR 0x0A] @ ''r2,4''"

definition feedHeaders :: "string list" where
  "feedHeaders = [''repo_name'', '' display_name'', ''prs_merged'', ''stars'']"

section \<open>Arrays as shared objects\<close>

text \<open>
  In the running program the store and a view are objects whose properties refer to
  arrays, and \<open>sort\<close> reorders an array in place. The store below keeps the arrays of
  each element type in a list indexed by address; a new array gets the next address,
  \<open>filter\<close> and \<open>slice\<close> make new arrays, and \<open>xs || []\<close> passes the array \<open>xs\<close> itself
  on when it is there.
\<close>

type_synonym addr = nat

record Heap =
  deploymentArrays :: "Deployment list list"
  prArrays :: "PullRequest list list"
  incidentArrays :: "Incident list list"
  eventArrays :: "DoraEvent list list"
  rollupArrays :: "DailyRollup list list"

record DoraDataRef =
  fact_deployment_ref :: addr
  fact_pr_ref :: "addr option"
  fact_incident_ref :: "addr option"
  dora_events_ref :: "addr option"
  dora_summary_daily_ref :: "addr option"

definition arrayAt :: "'a list list \<Rightarrow> addr \<Rightarrow> 'a list" where
  "arrayAt arrays a = (if a < length arrays then arrays ! a else [])"

text \<open>The value of a store or view object: each reference replaced by the array it names.\<close>

definition load :: "Heap \<Rightarrow> DoraDataRef \<Rightarrow> DoraData" where
  "load h r =
     \<lparr> fact_deployment = arrayAt (deploymentArrays h) (fact_deployment_ref r),
       fact_pr = map_option (arrayAt (prArrays h)) (fact_pr_ref r),
       fact_incident = map_option (arrayAt (incidentArrays h)) (fact_incident_ref r),
       dora_events = map_option (arrayAt (eventArrays h)) (dora_events_ref r),
       dora_summary_daily = map_option (arrayAt (rollupArrays h)) (dora_summary_daily_ref r) \<rparr>"

text \<open>A new array with the given elements; \<open>xs || []\<close>; \<open>xs?.filter(p) || []\<close>.\<close>

definition fresh :: "'a list list \<Rightarrow> 'a list \<Rightarrow> addr \<times> 'a list list" where
  "fresh arrays xs = (length arrays, arrays @ [xs])"

definition orFresh :: "'a list list \<Rightarrow> addr option \<Rightarrow> addr \<times> 'a list list" where
  "orFresh arrays r = (case r of None \<Rightarrow> fresh arrays [] | Some a \<Rightarrow> (a, arrays))"

definition filterFresh :: "('a \<Rightarrow> bool) \<Rightarrow> 'a list list \<Rightarrow> addr option \<Rightarrow> addr \<times> 'a list list" where
  "filterFresh p arrays r =
     (case r of None \<Rightarrow> fresh arrays [] | Some a \<Rightarrow> fresh arrays (filter p (arrayAt arrays a)))"

text \<open>\<open>filterDataByDays\<close> on objects: the view it builds and the store after the call.\<close>

definition filterDataByDays_heap ::
  "Heap \<Rightarrow> DoraDataRef \<Rightarrow> int option \<Rightarrow> int \<Rightarrow> DoraDataRef \<times> Heap" where
  "filterDataByDays_heap h data days now =
     (case days of
        None \<Rightarrow>
          (let (s, rollups) =
                 (case dora_summary_daily_ref data of
                    None \<Rightarrow> fresh (rollupArrays h) []
                  | Some a \<Rightarrow> fresh (rollupArrays h) (rev (arrayAt (rollupArrays h) a)));
               (p, prs) = orFresh (prArrays h) (fact_pr_ref data);
               (i, incidents) = orFresh (incidentArrays h) (fact_incident_ref data);
               (e, events) = orFresh (eventArrays h) (dora_events_ref data)
           in (\<lparr> fact_deployment_ref = fact_deployment_ref data, fact_pr_ref = Some p,
                 fact_incident_ref = Some i, dora_events_ref = Some e,
                 dora_summary_daily_ref = Some s \<rparr>,
               h \<lparr> prArrays := prs, incidentArrays := incidents, eventArrays := events,
                   rollupArrays := rollups \<rparr>))
      | Some n \<Rightarrow>
          (let cutoffDate = now - n * msPerDay;
               (d, deployments) =
                 fresh (deploymentArrays h)
                   (filter (\<lambda>d. created_at_utc d \<ge> cutoffDate)
                      (arrayAt (deploymentArrays h) (fact_deployment_ref data)));
               (s, rollups) =
                 (case dora_summary_daily_ref data of
                    None \<Rightarrow> fresh (rollupArrays h) []
                  | Some a \<Rightarrow>
                      fresh (rollupArrays h)
                        (rev (filter (\<lambda>d. date d \<ge> cutoffDate) (arrayAt (rollupArrays h) a))));
               (p, prs) =
                 filterFresh (\<lambda>pr. pr_merged_at_utc pr \<ge> cutoffDate) (prArrays h) (fact_pr_ref data);
               (i, incidents) =
                 filterFresh (\<lambda>incident. created_utc incident \<ge> cutoffDate) (incidentArrays h)
                   (fact_incident_ref data);
               (e, events) =
                 filterFresh (\<lambda>event. when_utc event \<ge> cutoffDate) (eventArrays h)
                   (dora_events_ref data)
           in (\<lparr> fact_deployment_ref = d, fact_pr_ref = Some p, fact_incident_ref = Some i,
                 dora_events_ref = Some e, dora_summary_daily_ref = Some s \<rparr>,
               h \<lparr> deploymentArrays := deployments, prArrays := prs, incidentArrays := incidents,
                   eventArrays := events, rollupArrays := rollups \<rparr>)))"

text \<open>
  \<open>calculateDoraMetrics\<close> on objects. Everything up to the lead-time extremes reads the
  arrays as passed; then \<open>deployments.sort(...)\<close> and, when \<open>fact_incident\<close> is present and
  not empty, \<open>filteredData.fact_incident.sort(...)\<close> reorder the arrays of the view in
  place; the trend text, the status and the two totals of the returned object are
  computed after that.
\<close>

definition calculateDoraMetrics_heap ::
  "Heap \<Rightarrow> DoraDataRef \<Rightarrow> DoraDataRef \<Rightarrow> int option \<Rightarrow> int \<Rightarrow> (JsError + DoraMetrics) \<times> Heap" where
  "calculateDoraMetrics_heap h filteredData originalData timeFilterDays now =
     (let early = calculateDoraMetrics (load h filteredData) (load h originalData) timeFilterDays now;
          h1 = h \<lparr> deploymentArrays :=
                 (deploymentArrays h)
                   [fact_deployment_ref filteredData :=
                      jsSort (\<lambda>a b. created_at_utc b - created_at_utc a)
                        (arrayAt (deploymentArrays h) (fact_deployment_ref filteredData))] \<rparr>;
          h2 = (case fact_incident_ref filteredData of
                  None \<Rightarrow> h1
                | Some a \<Rightarrow>
                    if length (arrayAt (incidentArrays h1) a) > 0
                    then h1 \<lparr> incidentArrays :=
                           (incidentArrays h1)
                             [a := jsSort (\<lambda>a b. created_utc b - created_utc a)
                                     (arrayAt (incidentArrays h1) a)] \<rparr>
                    else h1);
          f = load h2 filteredData;
          od = load h2 originalData
      in (bindE early
            (\<lambda>m. Inr (m \<lparr> deploymentFrequencyTrendText := calculateDeploymentTrendText f od now,
                        cfrTrendStatus := calculateCFRTrendStatus f od timeFilterDays now,
                        totalIncidents :=
                          orNum (map_option length (fact_incident f))
                            (orNum (map_option
                               (\<lambda>events. length
                                  (filter (\<lambda>event. event_type event = ''incident'') events))
                               (dora_events f)) 0),
                        totalPRs := orNum (map_option length (fact_pr f)) 0 \<rparr>)),
          h2))"

text \<open>A store object and its arrays, for the instance below.\<close>

definition sharedHeap :: Heap where
  "sharedHeap =
     \<lparr> deploymentArrays = [[deploymentAt 1 1 ''success'', deploymentAt 2 2 ''success'']],
       prArrays = [],
       incidentArrays = [[incidentAt 1 10, incidentAt 2 20]],
       eventArrays = [],
       rollupArrays = [] \<rparr>"

definition sharedStore :: DoraDataRef where
  "sharedStore =
     \<lparr> fact_deployment_ref = 0, fact_pr_ref = None, fact_incident_ref = Some 0,
       dora_events_ref = None, dora_summary_daily_ref = None \<rparr>"

text \<open>Every reference of the object names an array of the store.\<close>

definition validRef :: "Heap \<Rightarrow> DoraDataRef \<Rightarrow> bool" where
  "validRef h r \<longleftrightarrow>
     fact_deployment_ref r < length (deploymentArrays h)
     \<and> (case fact_pr_ref r of None \<Rightarrow> True | Some a \<Rightarrow> a < length (prArrays h))
     \<and> (case fact_incident_ref r of None \<Rightarrow> True | Some a \<Rightarrow> a < length (incidentArrays h))
     \<and> (case dora_events_ref r of None \<Rightarrow> True | Some a \<Rightarrow> a < length (eventArrays h))
     \<and> (case dora_summary_daily_ref r of None \<Rightarrow> True | Some a \<Rightarrow> a < length (rollupArrays h))"

text \<open>The store after the in-place sorts of one call; it does not depend on the other arguments.\<close>

definition afterSorts :: "Heap \<Rightarrow> DoraDataRef \<Rightarrow> Heap" where
  "afterSorts h filteredData =
     snd (calculateDoraMetrics_heap h filteredData filteredData None 0)"

section \<open>Properties of the time-window filter\<close>

lemma orEmpty_simps:
  "orEmpty None = []" "orEmpty (Some xs) = xs"
  by (simp_all add: orEmpty_def)

lemma filterDataByDays_None:
  "fact_deployment (filterDataByDays data None now) = fact_deployment data"
  "fact_pr (filterDataByDays data None now) = Some (orEmpty (fact_pr data))"
  "fact_incident (filterDataByDays data None now) = Some (orEmpty (fact_incident data))"
  "dora_events (filterDataByDays data None now) = Some (orEmpty (dora_events data))"
  "dora_summary_daily (filterDataByDays data None now)
     = Some (rev (orEmpty (dora_summary_daily data)))"
  by (simp_all add: filterDataByDays_def orEmpty_def split: option.splits)

lemma filterDataByDays_Some:
  "fact_deployment (filterDataByDays data (Some n) now)
     = filter (\<lambda>d. created_at_utc d \<ge> now - n * msPerDay) (fact_deployment data)"
  "fact_pr (filterDataByDays data (Some n) now)
     = Some (filter (\<lambda>p. pr_merged_at_utc p \<ge> now - n * msPerDay) (orEmpty (fact_pr data)))"
  "fact_incident (filterDataByDays data (Some n) now)
     = Some (filter (\<lambda>i. created_utc i \<ge> now - n * msPerDay) (orEmpty (fact_incident data)))"
  "dora_events (filterDataByDays data (Some n) now)
     = Some (filter (\<lambda>e. when_utc e \<ge> now - n * msPerDay) (orEmpty (dora_events data)))"
  "dora_summary_daily (filterDataByDays data (Some n) now)
     = Some (rev (filter (\<lambda>r. date r \<ge> now - n * msPerDay)
         (orEmpty (dora_summary_daily data))))"
  by (simp_all add: filterDataByDays_def orEmpty_def Let_def split: option.splits)

lemma view_rollups:
  "orEmpty (dora_summary_daily (filterDataByDays store w now))
     = rev (case w of None \<Rightarrow> orEmpty (dora_summary_daily store)
            | Some n \<Rightarrow> filter (\<lambda>r. date r \<ge> now - n * msPerDay)
                (orEmpty (dora_summary_daily store)))"
  by (cases w) (simp_all add: filterDataByDays_None filterDataByDays_Some orEmpty_simps)

lemma view_rollups_newest_first:
  assumes "sorted (rev (map date (orEmpty (dora_summary_daily store))))"
  shows "sorted (map date (orEmpty (dora_summary_daily (filterDataByDays store w now))))"
proof (cases w)
  case None
  then show ?thesis using assms by (simp add: view_rollups rev_map)
next
  case (Some n)
  have "sorted (map date (filter (\<lambda>r. date r \<ge> now - n * msPerDay)
      (rev (orEmpty (dora_summary_daily store)))))"
    using assms by (intro sorted_filter) (simp add: rev_map)
  then show ?thesis using Some by (simp add: view_rollups rev_filter)
qed

lemma view_rollups_oldest_first:
  assumes "sorted (map date (orEmpty (dora_summary_daily store)))"
  shows "sorted (rev (map date (orEmpty (dora_summary_daily (filterDataByDays store w now)))))"
proof (cases w)
  case None
  then show ?thesis using assms by (simp add: view_rollups rev_map)
next
  case (Some n)
  have "sorted (map date (filter (\<lambda>r. date r \<ge> now - n * msPerDay)
      (orEmpty (dora_summary_daily store))))"
    using assms by (rule sorted_filter)
  then show ?thesis using Some by (simp add: view_rollups rev_map)
qed

text \<open>
  Claim C3. With no window the view holds every record of every collection, the daily
  rollups in reversed order (an absent optional collection is the empty one). With a
  window of \<open>N\<close> days every collection of the view is the corresponding collection of the
  unbounded view restricted to the records whose governing timestamp is at least
  \<open>now - N\<close> days, hence a subset of it. The reversed rollups are in chronological order
  when the store lists them newest first.
\<close>

theorem filterDataByDays_null_and_window:
  "fact_deployment (filterDataByDays store None now) = fact_deployment store
   \<and> fact_pr (filterDataByDays store None now) = Some (orEmpty (fact_pr store))
   \<and> fact_incident (filterDataByDays store None now) = Some (orEmpty (fact_incident store))
   \<and> dora_events (filterDataByDays store None now) = Some (orEmpty (dora_events store))
   \<and> dora_summary_daily (filterDataByDays store None now)
       = Some (rev (orEmpty (dora_summary_daily store)))
   \<and> fact_deployment (filterDataByDays store (Some N) now)
       = filter (\<lambda>d. created_at_utc d \<ge> now - N * msPerDay)
           (fact_deployment (filterDataByDays store None now))
   \<and> orEmpty (fact_pr (filterDataByDays store (Some N) now))
       = filter (\<lambda>p. pr_merged_at_utc p \<ge> now - N * msPerDay)
           (orEmpty (fact_pr (filterDataByDays store None now)))
   \<and> orEmpty (fact_incident (filterDataByDays store (Some N) now))
       = filter (\<lambda>i. created_utc i \<ge> now - N * msPerDay)
           (orEmpty (fact_incident (filterDataByDays store None now)))
   \<and> orEmpty (dora_events (filterDataByDays store (Some N) now))
       = filter (\<lambda>e. when_utc e \<ge> now - N * msPerDay)
           (orEmpty (dora_events (filterDataByDays store None now)))
   \<and> orEmpty (dora_summary_daily (filterDataByDays store (Some N) now))
       = filter (\<lambda>r. date r \<ge> now - N * msPerDay)
           (orEmpty (dora_summary_daily (filterDataByDays store None now)))
   \<and> set (fact_deployment (filterDataByDays store (Some N) now))
       = {d \<in> set (fact_deployment store). created_at_utc d \<ge> now - N * msPerDay}
   \<and> set (orEmpty (fact_pr (filterDataByDays store (Some N) now)))
       = {p \<in> set (orEmpty (fact_pr store)). pr_merged_at_utc p \<ge> now - N * msPerDay}
   \<and> set (orEmpty (fact_incident (filterDataByDays store (Some N) now)))
       = {i \<in> set (orEmpty (fact_incident store)). created_utc i \<ge> now - N * msPerDay}
   \<and> set (orEmpty (dora_events (filterDataByDays store (Some N) now)))
       = {e \<in> set (orEmpty (dora_events store)). when_utc e \<ge> now - N * msPerDay}
   \<and> set (orEmpty (dora_summary_daily (filterDataByDays store (Some N) now)))
       = {r \<in> set (orEmpty (dora_summary_daily store)). date r \<ge> now - N * msPerDay}
   \<and> (sorted (rev (map date (orEmpty (dora_summary_daily store)))) \<longrightarrow>
        sorted (map date (orEmpty (dora_summary_daily (filterDataByDays store None now))))
        \<and> sorted (map date (orEmpty (dora_summary_daily (filterDataByDays store (Some N) now)))))"
  using view_rollups_newest_first [of store None now]
    view_rollups_newest_first [of store "Some N" now]
  by (simp add: filterDataByDays_None filterDataByDays_Some orEmpty_simps rev_filter)

theorem filterDataByDays_null_and_window_witness:
  "fact_deployment (filterDataByDays windowStore (Some 7) (100 * msPerDay))
     = [deploymentAt (99 * msPerDay) (99 * msPerDay) ''success'']
   \<and> fact_deployment (filterDataByDays windowStore None (100 * msPerDay))
     = [deploymentAt (99 * msPerDay) (99 * msPerDay) ''success'',
        deploymentAt (50 * msPerDay) (50 * msPerDay) ''error'']
   \<and> dora_summary_daily (filterDataByDays windowStore (Some 7) (100 * msPerDay))
     = Some [rollupRow (98 * msPerDay) 2 0 1 0, rollupRow (99 * msPerDay) 1 0 1 0]
   \<and> dora_summary_daily (filterDataByDays windowStore None (100 * msPerDay))
     = Some [rollupRow (50 * msPerDay) 1 1 1 0, rollupRow (98 * msPerDay) 2 0 1 0,
             rollupRow (99 * msPerDay) 1 0 1 0]
   \<and> fact_pr (filterDataByDays windowStore (Some 7) (100 * msPerDay)) = Some []
   \<and> sorted (rev (map date (orEmpty (dora_summary_daily windowStore))))
   \<and> sorted (map date (orEmpty (dora_summary_daily
         (filterDataByDays windowStore (Some 7) (100 * msPerDay)))))"
proof -
  have newest: "sorted (rev (map date (orEmpty (dora_summary_daily windowStore))))"
    by (simp add: windowStore_def emptyStore_def orEmpty_simps rollupRow_def msPerDay_def)
  note inst = filterDataByDays_null_and_window [of windowStore "100 * msPerDay" 7]
  have chrono: "sorted (map date (orEmpty (dora_summary_daily
         (filterDataByDays windowStore (Some 7) (100 * msPerDay)))))"
    using inst newest by blast
  have rows: "fact_deployment (filterDataByDays windowStore (Some 7) (100 * msPerDay))
     = [deploymentAt (99 * msPerDay) (99 * msPerDay) ''success'']
   \<and> fact_deployment (filterDataByDays windowStore None (100 * msPerDay))
     = [deploymentAt (99 * msPerDay) (99 * msPerDay) ''success'',
        deploymentAt (50 * msPerDay) (50 * msPerDay) ''error'']
   \<and> dora_summary_daily (filterDataByDays windowStore (Some 7) (100 * msPerDay))
     = Some [rollupRow (98 * msPerDay) 2 0 1 0, rollupRow (99 * msPerDay) 1 0 1 0]
   \<and> dora_summary_daily (filterDataByDays windowStore None (100 * msPerDay))
     = Some [rollupRow (50 * msPerDay) 1 1 1 0, rollupRow (98 * msPerDay) 2 0 1 0,
             rollupRow (99 * msPerDay) 1 0 1 0]
   \<and> fact_pr (filterDataByDays windowStore (Some 7) (100 * msPerDay)) = Some []"
    by (simp add: filterDataByDays_None filterDataByDays_Some orEmpty_simps windowStore_def
        emptyStore_def deploymentAt_def rollupRow_def msPerDay_def)
  show ?thesis using rows newest chrono by blast
qed

section \<open>Basic facts about the engine\<close>

lemma insertBy_insort_key:
  "insertBy (\<lambda>a b. f b - f a) x ys = insort_key (\<lambda>d. - f d) x ys"
  by (induction ys) auto

lemma jsSort_sort_key: "jsSort (\<lambda>a b. f b - f a) xs = sort_key (\<lambda>d. - (f d :: int)) xs"
  by (induction xs) (simp_all add: jsSort_def insertBy_insort_key)

lemma length_jsSort: "length (jsSort (\<lambda>a b. f b - f a) xs) = length xs"
  by (simp add: jsSort_sort_key)

lemma elemAt_0: "elemAt xs 0 = (case xs of [] \<Rightarrow> None | x # _ \<Rightarrow> Some x)"
  by (cases xs) (simp_all add: elemAt_def)

lemma elemAt_last: "xs \<noteq> [] \<Longrightarrow> elemAt xs (int (length xs) - 1) = Some (last xs)"
  by (simp add: elemAt_def last_conv_nth nat_diff_distrib')

lemma foldl_add_sum_list: "foldl (\<lambda>sum d. sum + g d) (a::rat) xs = a + sum_list (map g xs)"
  by (induction xs arbitrary: a) (simp_all add: add.assoc)

lemma lastLead_eq:
  "(if length (jsSort (\<lambda>a b. f b - f a) ds) > 0
    then prop_of (elemAt (jsSort (\<lambda>a b. f b - f a) ds) 0) g else Inr 0)
   = Inr (case jsSort (\<lambda>a b. f b - f a) ds of [] \<Rightarrow> 0 | d # _ \<Rightarrow> g d)"
  by (cases "jsSort (\<lambda>a b. f b - f a) ds") (simp_all add: elemAt_0 prop_of_def)

lemma incidentInsights_eq:
  "incidentInsights fi = Inr
     (case map (\<lambda>i. duration_minutes i / 60) (orEmpty fi) of [] \<Rightarrow> (0, 0, 0)
      | t # ts \<Rightarrow> (foldl max t ts, foldl min t ts,
          (case jsSort (\<lambda>a b. created_utc b - created_utc a) (orEmpty fi) of [] \<Rightarrow> 0
           | i # _ \<Rightarrow> duration_minutes i / 60)))"
  unfolding incidentInsights_def
  apply (cases fi; simp add: orEmpty_simps)
  subgoal for incs
    apply (cases incs; simp add: Let_def bindE_def)
    apply (cases "jsSort (\<lambda>a b. created_utc b - created_utc a) incs")
     apply (simp_all add: elemAt_0 prop_of_def orEmpty_simps)
    done
  done

lemma rawAverages_Inr: "\<exists>a. rawAverages f now = Inr a"
  unfolding rawAverages_def
  by (cases "fact_deployment f = []") (simp_all add: Let_def bindE_def elemAt_last prop_of_def)

lemma averages_Inr:
  "\<exists>a. (if isNonEmpty s then Inr (summaryAverages (orEmpty s)) else rawAverages f now) = Inr a"
  using rawAverages_Inr by simp

lemma calculateDoraMetrics_result:
  "\<exists>m avg. calculateDoraMetrics f od t now = Inr m
     \<and> (if isNonEmpty (dora_summary_daily f)
          then Inr (summaryAverages (orEmpty (dora_summary_daily f)))
          else rawAverages f now) = Inr avg
     \<and> deploymentFrequency m = avgDeploymentFreq avg
     \<and> leadTime m = avgLeadTime avg
     \<and> DoraMetrics.cfr m = avgCFR avg
     \<and> mttr m = avgMTTR avg
     \<and> deploymentFrequencyTrend m = getTrend
           (map deploys (recentPeriod (dora_summary_daily f)))
           (map deploys (previousPeriod (dora_summary_daily f)))
     \<and> leadTimeTrend m = getTrend
           (map avg_lt_hours (recentPeriod (dora_summary_daily f)))
           (map avg_lt_hours (previousPeriod (dora_summary_daily f)))
     \<and> cfrTrend m = getTrend
           (map DailyRollup.cfr (recentPeriod (dora_summary_daily f)))
           (map DailyRollup.cfr (previousPeriod (dora_summary_daily f)))
     \<and> mttrTrend m = getTrend
           (map (\<lambda>d. mttr_min d / 60) (recentPeriod (dora_summary_daily f)))
           (map (\<lambda>d. mttr_min d / 60) (previousPeriod (dora_summary_daily f)))
     \<and> deploymentFrequencyTrendText m = calculateDeploymentTrendText f od now
     \<and> deploymentsYesterday m = yesterday (calculateDeploymentCounts od now)
     \<and> deploymentsLastWeek m = lastWeek (calculateDeploymentCounts od now)
     \<and> deploymentsLastMonth m = lastMonth (calculateDeploymentCounts od now)
     \<and> maxLeadTime m =
           (case filter (\<lambda>time. time > 0) (map leadTimeHours (fact_deployment f)) of
              [] \<Rightarrow> 0 | t # ts \<Rightarrow> foldl max t ts)
     \<and> minLeadTime m =
           (case filter (\<lambda>time. time > 0) (map leadTimeHours (fact_deployment f)) of
              [] \<Rightarrow> 0 | t # ts \<Rightarrow> foldl min t ts)
     \<and> lastDeploymentLeadTime m =
           (case jsSort (\<lambda>a b. created_at_utc b - created_at_utc a) (fact_deployment f) of
              [] \<Rightarrow> 0 | d # _ \<Rightarrow> leadTimeHours d)
     \<and> (maxMTTR m, minMTTR m, lastIncidentMTTR m) =
           (case map (\<lambda>i. duration_minutes i / 60) (orEmpty (fact_incident f)) of
              [] \<Rightarrow> (0, 0, 0)
            | t # ts \<Rightarrow> (foldl max t ts, foldl min t ts,
                (case jsSort (\<lambda>a b. created_utc b - created_utc a) (orEmpty (fact_incident f)) of
                   [] \<Rightarrow> 0 | i # _ \<Rightarrow> duration_minutes i / 60)))
     \<and> cfrTrendStatus m = calculateCFRTrendStatus f od t now
     \<and> totalDeployments m = length (fact_deployment f)
     \<and> successfulDeployments m = length (filter isSuccessful (fact_deployment f))
     \<and> failedDeployments m = length (filter isFailed (fact_deployment f))
     \<and> successRate m =
           (if length (fact_deployment f) > 0
            then (of_nat (length (filter isSuccessful (fact_deployment f)))
                    / of_nat (length (fact_deployment f))) * 100
            else 0)
     \<and> totalIncidents m =
           orNum (map_option length (fact_incident f))
             (orNum (map_option
                (\<lambda>events. length (filter (\<lambda>event. event_type event = ''incident'') events))
                (dora_events f)) 0)
     \<and> totalPRs m = orNum (map_option length (fact_pr f)) 0"
proof -
  obtain avg where avg:
    "(if isNonEmpty (dora_summary_daily f)
      then Inr (summaryAverages (orEmpty (dora_summary_daily f)))
      else rawAverages f now) = Inr avg"
    using averages_Inr by blast
  show ?thesis
    unfolding calculateDoraMetrics_def Let_def avg lastLead_eq incidentInsights_eq
    by (simp add: bindE_def split: prod.split list.split)
qed

section \<open>Classification of deployments and success rate\<close>

lemma two_filters_le:
  assumes "\<And>x. \<not> (P x \<and> Q x)"
  shows "length (filter P xs) + length (filter Q xs) \<le> length xs"
  using assms by (induction xs) auto

lemma two_filters_eq:
  assumes "\<And>x. \<not> (P x \<and> Q x)"
  shows "length (filter P xs) + length (filter Q xs) = length xs \<longleftrightarrow> (\<forall>x\<in>set xs. P x \<or> Q x)"
proof (induction xs)
  case Nil
  show ?case by simp
next
  case (Cons x xs)
  have le: "length (filter P xs) + length (filter Q xs) \<le> length xs"
    using assms by (rule two_filters_le)
  show ?case using Cons assms[of x] le by auto
qed

lemma not_successful_and_failed: "\<not> (isSuccessful d \<and> isFailed d)"
  by (auto simp: isSuccessful_def isFailed_def)

lemma filter_le_ratio:
  assumes "length xs > 0"
  shows "(of_nat (length (filter P xs)) / of_nat (length xs)) * (100::rat) \<le> 100"
proof -
  have le: "(of_nat (length (filter P xs)) :: rat) \<le> of_nat (length xs)"
    by (simp add: of_nat_le_iff)
  have pos: "(0::rat) < of_nat (length xs)"
    using assms by simp
  have "(of_nat (length (filter P xs)) :: rat) / of_nat (length xs) \<le> 1"
    using le pos by (simp add: divide_le_eq_1)
  then have "(of_nat (length (filter P xs)) :: rat) / of_nat (length xs) * 100 \<le> 1 * 100"
    by (rule mult_right_mono) simp
  then show ?thesis by (simp only: mult_1)
qed

text \<open>
  Claim C5. In the snapshot a deployment counts as successful iff its state is
  \<open>success\<close> or \<open>inactive\<close> and as failed iff its state is \<open>error\<close> or \<open>failure\<close>;
  the two counts together never exceed the total and reach it exactly when no state lies
  outside these four; the success rate is successful / total * 100, lies between 0 and
  100, and is 0 for an empty collection. \<open>getDeploymentStatusCounts\<close> reports the same
  two counts.
\<close>

theorem deployment_classification:
  "\<exists>m. calculateDoraMetrics f od t now = Inr m
     \<and> totalDeployments m = length (fact_deployment f)
     \<and> successfulDeployments m
         = length (filter (\<lambda>d. state d = ''success'' \<or> state d = ''inactive'') (fact_deployment f))
     \<and> failedDeployments m
         = length (filter (\<lambda>d. state d = ''error'' \<or> state d = ''failure'') (fact_deployment f))
     \<and> successfulDeployments m + failedDeployments m \<le> totalDeployments m
     \<and> (successfulDeployments m + failedDeployments m = totalDeployments m
          \<longleftrightarrow> set (map state (fact_deployment f))
                \<subseteq> {''success'', ''inactive'', ''error'', ''failure''})
     \<and> successRate m
         = (if totalDeployments m = 0 then 0
            else of_nat (successfulDeployments m) / of_nat (totalDeployments m) * 100)
     \<and> 0 \<le> successRate m \<and> successRate m \<le> 100
     \<and> map (\<lambda>(name, count, fill). (name, count)) (getDeploymentStatusCounts (fact_deployment f))
         = [(''Success'', successfulDeployments m), (''Failed'', failedDeployments m)]"
proof -
  obtain m where m: "calculateDoraMetrics f od t now = Inr m"
    and tot: "totalDeployments m = length (fact_deployment f)"
    and suc: "successfulDeployments m = length (filter isSuccessful (fact_deployment f))"
    and fai: "failedDeployments m = length (filter isFailed (fact_deployment f))"
    and rate: "successRate m =
           (if length (fact_deployment f) > 0
            then (of_nat (length (filter isSuccessful (fact_deployment f)))
                    / of_nat (length (fact_deployment f))) * 100
            else 0)"
    using calculateDoraMetrics_result [of f od t now] by blast
  have le: "successfulDeployments m + failedDeployments m \<le> totalDeployments m"
    unfolding tot suc fai by (rule two_filters_le) (rule not_successful_and_failed)
  have eq: "successfulDeployments m + failedDeployments m = totalDeployments m
      \<longleftrightarrow> set (map state (fact_deployment f)) \<subseteq> {''success'', ''inactive'', ''error'', ''failure''}"
    unfolding tot suc fai two_filters_eq [of isSuccessful isFailed, OF not_successful_and_failed]
    by (auto simp: isSuccessful_def isFailed_def)
  have r0: "0 \<le> successRate m" unfolding rate by simp
  have r100: "successRate m \<le> 100"
    unfolding rate using filter_le_ratio [of "fact_deployment f" isSuccessful]
    by (simp only: split: if_splits) simp
  show ?thesis
    apply (rule exI [of _ m])
    apply (intro conjI m tot le eq r0 r100)
       apply (simp add: suc isSuccessful_def [abs_def])
      apply (simp add: fai isFailed_def [abs_def])
     apply (simp add: rate tot suc)
    apply (simp add: getDeploymentStatusCounts_def suc fai)
    done
qed

theorem deployment_classification_witness:
  "\<exists>m. calculateDoraMetrics (filterDataByDays windowStore None (100 * msPerDay)) windowStore None
         (100 * msPerDay) = Inr m
     \<and> totalDeployments m = 2 \<and> successfulDeployments m = 1 \<and> failedDeployments m = 1
     \<and> successRate m = 50"
proof -
  have ds: "fact_deployment (filterDataByDays windowStore None (100 * msPerDay))
      = [deploymentAt (99 * msPerDay) (99 * msPerDay) ''success'',
         deploymentAt (50 * msPerDay) (50 * msPerDay) ''error'']"
    by (simp add: filterDataByDays_None windowStore_def emptyStore_def)
  obtain m where m: "calculateDoraMetrics (filterDataByDays windowStore None (100 * msPerDay))
        windowStore None (100 * msPerDay) = Inr m"
    and tot: "totalDeployments m
        = length (fact_deployment (filterDataByDays windowStore None (100 * msPerDay)))"
    and suc: "successfulDeployments m
        = length (filter (\<lambda>d. state d = ''success'' \<or> state d = ''inactive'')
            (fact_deployment (filterDataByDays windowStore None (100 * msPerDay))))"
    and fai: "failedDeployments m
        = length (filter (\<lambda>d. state d = ''error'' \<or> state d = ''failure'')
            (fact_deployment (filterDataByDays windowStore None (100 * msPerDay))))"
    and rate: "successRate m
         = (if totalDeployments m = 0 then 0
            else of_nat (successfulDeployments m) / of_nat (totalDeployments m) * 100)"
    using deployment_classification
      [of "filterDataByDays windowStore None (100 * msPerDay)" windowStore None "100 * msPerDay"]
    by blast
  have t2: "totalDeployments m = 2" by (simp add: tot ds)
  have s1: "successfulDeployments m = 1" by (simp add: suc ds deploymentAt_def)
  have f1: "failedDeployments m = 1" by (simp add: fai ds deploymentAt_def)
  have "successRate m = 50" by (simp add: rate t2 s1)
  with m t2 s1 f1 show ?thesis by blast
qed

section \<open>Change-failure-rate trend status\<close>

text \<open>
  Claim C7. With no window the status is \<open>good\<close> iff failed / total * 100 < 20 over the
  whole store, the rate being 0 for a store without deployments. With a window of \<open>N\<close>
  days it is \<open>good\<close> iff the failed deployments of the filtered view are at most the
  failed deployments of the store created in [now - 2N days, now - N days); so 2 current
  failures against 3 previous ones give \<open>good\<close>. The snapshot carries this status.
\<close>

theorem calculateCFRTrendStatus_policy:
  "(calculateCFRTrendStatus f od None now = good \<longleftrightarrow>
      (if length (fact_deployment od) = 0 then 0
       else of_nat (length (filter (\<lambda>d. state d = ''error'' \<or> state d = ''failure'')
              (fact_deployment od))) / of_nat (length (fact_deployment od)) * 100) < (20 :: rat))
   \<and> (calculateCFRTrendStatus f od (Some N) now = good \<longleftrightarrow>
        length (filter (\<lambda>d. state d = ''error'' \<or> state d = ''failure'') (fact_deployment f))
        \<le> length (filter
             (\<lambda>d. now - 2 * N * msPerDay \<le> created_at_utc d \<and> created_at_utc d < now - N * msPerDay
                \<and> (state d = ''error'' \<or> state d = ''failure''))
             (fact_deployment od)))
   \<and> (length (filter (\<lambda>d. state d = ''error'' \<or> state d = ''failure'') (fact_deployment f)) = 2
        \<and> length (filter
             (\<lambda>d. now - 2 * 30 * msPerDay \<le> created_at_utc d \<and> created_at_utc d < now - 30 * msPerDay
                \<and> (state d = ''error'' \<or> state d = ''failure''))
             (fact_deployment od)) = 3
        \<longrightarrow> calculateCFRTrendStatus f od (Some 30) now = good)
   \<and> (\<exists>m. calculateDoraMetrics f od t now = Inr m
          \<and> cfrTrendStatus m = calculateCFRTrendStatus f od t now)"
proof -
  have a: "now - N * msPerDay - N * msPerDay = now - 2 * N * msPerDay" for N
    by (simp add: algebra_simps)
  have 1: "calculateCFRTrendStatus f od None now = good \<longleftrightarrow>
      (if length (fact_deployment od) = 0 then 0
       else of_nat (length (filter (\<lambda>d. state d = ''error'' \<or> state d = ''failure'')
              (fact_deployment od))) / of_nat (length (fact_deployment od)) * 100) < (20 :: rat)"
    by (simp add: calculateCFRTrendStatus_def Let_def isFailed_def [abs_def])
  have 2: "calculateCFRTrendStatus f od (Some N) now = good \<longleftrightarrow>
        length (filter (\<lambda>d. state d = ''error'' \<or> state d = ''failure'') (fact_deployment f))
        \<le> length (filter
             (\<lambda>d. now - 2 * N * msPerDay \<le> created_at_utc d \<and> created_at_utc d < now - N * msPerDay
                \<and> (state d = ''error'' \<or> state d = ''failure''))
             (fact_deployment od))" for N
    by (simp add: calculateCFRTrendStatus_def Let_def isFailed_def [abs_def] a)
  have 3: "\<exists>m. calculateDoraMetrics f od t now = Inr m
          \<and> cfrTrendStatus m = calculateCFRTrendStatus f od t now"
    using calculateDoraMetrics_result [of f od t now] by blast
  show ?thesis
    using 1 2 [of N] 2 [of 30] 3 by simp
qed

theorem calculateCFRTrendStatus_policy_witness:
  "calculateCFRTrendStatus (filterDataByDays cfrStore (Some 30) (100 * msPerDay)) cfrStore
       (Some 30) (100 * msPerDay) = good
   \<and> length (filter (\<lambda>d. state d = ''error'' \<or> state d = ''failure'')
         (fact_deployment (filterDataByDays cfrStore (Some 30) (100 * msPerDay)))) = 2
   \<and> length (filter
         (\<lambda>d. 100 * msPerDay - 2 * 30 * msPerDay \<le> created_at_utc d
            \<and> created_at_utc d < 100 * msPerDay - 30 * msPerDay
            \<and> (state d = ''error'' \<or> state d = ''failure''))
         (fact_deployment cfrStore)) = 3
   \<and> calculateCFRTrendStatus (filterDataByDays cfrStore None (100 * msPerDay)) cfrStore
       None (100 * msPerDay) = bad"
proof -
  have cur: "length (filter (\<lambda>d. state d = ''error'' \<or> state d = ''failure'')
         (fact_deployment (filterDataByDays cfrStore (Some 30) (100 * msPerDay)))) = 2"
    by (simp add: filterDataByDays_Some cfrStore_def emptyStore_def deploymentAt_def msPerDay_def)
  have prev: "length (filter
         (\<lambda>d. 100 * msPerDay - 2 * 30 * msPerDay \<le> created_at_utc d
            \<and> created_at_utc d < 100 * msPerDay - 30 * msPerDay
            \<and> (state d = ''error'' \<or> state d = ''failure''))
         (fact_deployment cfrStore)) = 3"
    by (simp add: cfrStore_def emptyStore_def deploymentAt_def msPerDay_def)
  have all: "\<not> (if length (fact_deployment cfrStore) = 0 then 0
       else of_nat (length (filter (\<lambda>d. state d = ''error'' \<or> state d = ''failure'')
              (fact_deployment cfrStore))) / of_nat (length (fact_deployment cfrStore)) * 100)
       < (20 :: rat)"
    by (simp add: cfrStore_def emptyStore_def deploymentAt_def)
  note inst = calculateCFRTrendStatus_policy
    [of "filterDataByDays cfrStore (Some 30) (100 * msPerDay)" cfrStore "100 * msPerDay" 30 None]
  note inst0 = calculateCFRTrendStatus_policy
    [of "filterDataByDays cfrStore None (100 * msPerDay)" cfrStore "100 * msPerDay" 30 None]
  have g: "calculateCFRTrendStatus (filterDataByDays cfrStore (Some 30) (100 * msPerDay)) cfrStore
       (Some 30) (100 * msPerDay) = good"
    using inst cur prev by blast
  have "calculateCFRTrendStatus (filterDataByDays cfrStore None (100 * msPerDay)) cfrStore
       None (100 * msPerDay) \<noteq> good"
    using inst0 all by blast
  then have b: "calculateCFRTrendStatus (filterDataByDays cfrStore None (100 * msPerDay)) cfrStore
       None (100 * msPerDay) = bad"
    by (cases "calculateCFRTrendStatus (filterDataByDays cfrStore None (100 * msPerDay)) cfrStore
       None (100 * msPerDay)") simp_all
  show ?thesis using g cur prev b by blast
qed

section \<open>Rounding to a double\<close>

text \<open>
  The relative error of \<open>roundToDouble\<close> is at most \<open>2^-53\<close>: the significand is rounded
  by at most one half and is at least \<open>2^52\<close>.
\<close>

lemma bitLength_bounds:
  "0 < n \<Longrightarrow> 0 < bitLength n \<and> 2 ^ nat (bitLength n - 1) \<le> n \<and> n < 2 ^ nat (bitLength n)"
proof (induction n rule: bitLength.induct)
  case (1 n)
  then have npos: "\<not> n \<le> 0" by simp
  have bl: "bitLength n = 1 + bitLength (n div 2)" using npos by (simp add: bitLength.simps[of n])
  show ?case
  proof (cases "n div 2 = 0")
    case True
    with 1 have "n = 1" by presburger
    then show ?thesis by (simp add: bitLength.simps[of 1] bitLength.simps[of 0])
  next
    case False
    with 1(2) have pos: "0 < n div 2" by presburger
    from 1(1)[OF npos pos] have ih: "0 < bitLength (n div 2)"
      "2 ^ nat (bitLength (n div 2) - 1) \<le> n div 2" "n div 2 < 2 ^ nat (bitLength (n div 2))"
      by simp_all
    define k where "k = nat (bitLength (n div 2) - 1)"
    have k1: "nat (bitLength (n div 2)) = Suc k" using ih(1) by (simp add: k_def)
    have k2: "nat (bitLength n - 1) = Suc k" using ih(1) bl by (simp add: k_def)
    have k3: "nat (bitLength n) = Suc (Suc k)" using ih(1) bl by (simp add: k_def)
    from ih(2) have "2 * 2 ^ k \<le> 2 * (n div 2)" by (simp add: k_def)
    also have "\<dots> \<le> n" by presburger
    finally have lo: "2 ^ nat (bitLength n - 1) \<le> n" by (simp add: k2)
    have "n < 2 * (n div 2 + 1)" by presburger
    also have "\<dots> \<le> 2 * 2 ^ nat (bitLength (n div 2))" using ih(3) by simp
    finally have hi: "n < 2 ^ nat (bitLength n)" by (simp add: k1 k3)
    from lo hi bl ih(1) show ?thesis by simp
  qed
qed

lemma bitLength_powi:
  assumes "0 < n"
  shows "(2 :: rat) powi (bitLength n - 1) \<le> of_int n" and "of_int n < (2 :: rat) powi bitLength n"
proof -
  from bitLength_bounds[OF assms] have b: "0 < bitLength n" "2 ^ nat (bitLength n - 1) \<le> n"
    "n < 2 ^ nat (bitLength n)" by simp_all
  have "(of_int (2 ^ nat (bitLength n - 1)) :: rat) \<le> of_int n" using b(2) by (simp only: of_int_le_iff)
  then show "(2 :: rat) powi (bitLength n - 1) \<le> of_int n" using b(1) by (simp add: power_int_def)
  have "(of_int n :: rat) < of_int (2 ^ nat (bitLength n))" using b(3) by (simp only: of_int_less_iff)
  then show "of_int n < (2 :: rat) powi bitLength n" using b(1) by (simp add: power_int_def)
qed

lemma binade_bounds:
  assumes "0 < x"
  shows "2 powi binade x \<le> x" and "x < 2 powi (binade x + 1)"
proof -
  obtain a b where q: "quotient_of x = (a, b)" by (cases "quotient_of x")
  have bpos: "0 < b" using q by (rule quotient_of_denom_pos)
  have x: "x = of_int a / of_int b" using q by (rule quotient_of_div)
  have apos: "0 < a" using assms bpos x by (simp add: zero_less_divide_iff)
  define k where "k = bitLength a - bitLength b"
  note A = bitLength_powi[OF apos] and B = bitLength_powi[OF bpos]
  have bq: "(0 :: rat) < of_int b" using bpos by simp
  have p0: "\<And>i. (0 :: rat) < 2 powi i" by simp
  have up: "x < 2 powi (k + 1)"
  proof -
    have "x * of_int b = of_int a" using x bq by simp
    also have "\<dots> < 2 powi bitLength a" by (rule A(2))
    also have "\<dots> = (2 :: rat) powi (k + 1) * 2 powi (bitLength b - 1)"
      by (simp add: k_def flip: power_int_add)
    also have "\<dots> \<le> (2 :: rat) powi (k + 1) * of_int b"
      using B(1) by (intro mult_left_mono) simp_all
    finally show ?thesis using bq by simp
  qed
  have lo: "2 powi (k - 1) \<le> x"
  proof -
    have "(2 :: rat) powi (k - 1) * of_int b \<le> 2 powi (k - 1) * 2 powi bitLength b"
      using B(2) by (intro mult_left_mono less_imp_le) simp_all
    also have "\<dots> = 2 powi (bitLength a - 1)" by (simp add: k_def flip: power_int_add)
    also have "\<dots> \<le> of_int a" by (rule A(1))
    also have "\<dots> = x * of_int b" using x bq by simp
    finally show ?thesis using bq by simp
  qed
  have bin: "binade x = (if 2 powi k \<le> x then k else k - 1)"
    by (simp add: binade_def q k_def Let_def)
  show "2 powi binade x \<le> x" using lo by (simp add: bin)
  show "x < 2 powi (binade x + 1)" using up by (auto simp add: bin not_le)
qed

lemma roundHalfEven_error: "\<bar>of_int (roundHalfEven y) - y\<bar> \<le> 1 / 2"
proof -
  have "of_int \<lfloor>y\<rfloor> \<le> y" "y < of_int \<lfloor>y\<rfloor> + 1" by linarith+
  then show ?thesis by (auto simp add: roundHalfEven_def Let_def abs_le_iff)
qed

lemma roundToDouble_error:
  assumes "0 < x"
  shows "\<bar>roundToDouble x - x\<bar> \<le> x / 2 ^ 53"
proof -
  define e where "e = binade x - 52"
  define y where "y = x / 2 powi e"
  have p: "(0 :: rat) < 2 powi e" by simp
  have r: "roundToDouble x = of_int (roundHalfEven y) * 2 powi e"
    using assms by (simp add: roundToDouble_def e_def y_def Let_def)
  have xy: "x = y * 2 powi e" using p by (simp add: y_def)
  have "\<bar>roundToDouble x - x\<bar> = \<bar>(of_int (roundHalfEven y) - y) * 2 powi e\<bar>"
    by (simp add: r algebra_simps flip: xy)
  also have "\<dots> = \<bar>of_int (roundHalfEven y) - y\<bar> * 2 powi e"
    using p by (simp add: abs_mult)
  also have "\<dots> \<le> (1 / 2) * 2 powi e"
    using roundHalfEven_error[of y] p by (intro mult_right_mono) simp_all
  also have "\<dots> = 2 powi binade x / 2 ^ 53"
  proof -
    have "(2 :: rat) powi (e + 52) = 2 powi e * 2 powi 52"
      by (rule power_int_add) simp
    moreover have "e + 52 = binade x" by (simp add: e_def)
    ultimately show ?thesis by simp
  qed
  also have "\<dots> \<le> x / 2 ^ 53"
    using binade_bounds(1)[OF assms] by (simp add: divide_right_mono)
  finally show ?thesis .
qed

lemma roundToDouble_nonneg: "0 \<le> x \<Longrightarrow> 0 \<le> roundToDouble x"
proof (cases "x = 0")
  case True
  then show ?thesis by (simp add: roundToDouble_def)
next
  case False
  assume "0 \<le> x"
  with False have pos: "0 < x" by simp
  have "x / 2 ^ 53 \<le> x" using pos by (simp add: field_simps)
  with roundToDouble_error[OF pos] show ?thesis by linarith
qed

text \<open>
  The double computed for \<open>(s / w) * 100\<close> is within \<open>2^-45\<close> of the exact rate.
\<close>

lemma rate_close:
  assumes "0 < w" "s \<le> w"
  shows "\<bar>roundToDouble (roundToDouble (of_nat s / of_nat w) * 100) - of_nat s / of_nat w * 100\<bar>
           \<le> 1 / 2 ^ 45"
proof (cases "s = 0")
  case True
  then show ?thesis by (simp add: roundToDouble_def)
next
  case False
  define r :: rat where "r = of_nat s / of_nat w"
  define q where "q = roundToDouble r"
  have rpos: "0 < r" using False assms by (simp add: r_def)
  have rle: "r \<le> 1" using assms by (simp add: r_def)
  have e1: "\<bar>q - r\<bar> \<le> r / 2 ^ 53" unfolding q_def by (rule roundToDouble_error[OF rpos])
  have "r / 2 ^ 53 < r" using rpos by (simp add: field_simps)
  with e1 have qpos: "0 < q" by linarith
  have "r / 2 ^ 53 \<le> 1 / 2 ^ 53" using rle by (simp add: divide_right_mono)
  with e1 rle have qle: "q \<le> 1 + 1 / 2 ^ 53" and d1: "\<bar>q - r\<bar> \<le> 1 / 2 ^ 53" by linarith+
  have q100: "0 < q * 100" using qpos by simp
  have e2: "\<bar>roundToDouble (q * 100) - q * 100\<bar> \<le> q * 100 / 2 ^ 53"
    by (rule roundToDouble_error[OF q100])
  have "q * 100 / 2 ^ 53 \<le> (1 + 1 / 2 ^ 53) * 100 / 2 ^ 53"
    using qle by (intro divide_right_mono mult_right_mono) simp_all
  with e2 have d2: "\<bar>roundToDouble (q * 100) - q * 100\<bar> \<le> (1 + 1 / 2 ^ 53) * 100 / 2 ^ 53"
    by linarith
  have "\<bar>roundToDouble (q * 100) - r * 100\<bar> \<le> (1 + 1 / 2 ^ 53) * 100 / 2 ^ 53 + 100 / 2 ^ 53"
    using d1 d2 by linarith
  also have "\<dots> \<le> 1 / 2 ^ 45" by simp
  finally show ?thesis by (simp add: q_def r_def)
qed

text \<open>
  An array holds fewer than \<open>2^32\<close> elements, so an exact rate that is not half-way
  between two integers is further than \<open>2^-33\<close> from the half-way points: the integer
  nearest to the double is an integer nearest to the exact rate.
\<close>

lemma rate_nearest:
  assumes w: "0 < w" "w < 2 ^ 32" and s: "s \<le> w"
  shows "\<bar>of_int \<lfloor>roundToDouble (roundToDouble (of_nat s / of_nat w) * 100) + 1 / 2\<rfloor>
            - (of_nat s :: rat) / of_nat w * 100\<bar> \<le> 1 / 2"
proof -
  define x where "x = roundToDouble (roundToDouble (of_nat s / of_nat w) * 100)"
  define r :: rat where "r = of_nat s / of_nat w * 100"
  define n where "n = \<lfloor>x + 1 / 2\<rfloor>"
  have close: "\<bar>x - r\<bar> \<le> 1 / 2 ^ 45" unfolding x_def r_def by (rule rate_close[OF w(1) s])
  have fl: "of_int n \<le> x + 1 / 2" "x + 1 / 2 < of_int n + 1" unfolding n_def by linarith+
  have wq: "(0 :: rat) < of_nat w" using w by simp
  have wlt: "(of_nat w :: rat) < 2 ^ 32"
  proof -
    have "(of_nat w :: rat) < of_nat (2 ^ 32)" using w(2) by (simp only: of_nat_less_iff)
    then show ?thesis by simp
  qed
  have gap: "(1 :: rat) / 2 ^ 33 < of_int d / (2 * of_nat w)"
    if "0 < (of_int d :: rat) / (2 * of_nat w)" for d :: int
  proof -
    from that have "(0 :: rat) < of_int d" using wq by (simp add: zero_less_divide_iff)
    then have "1 \<le> d" by simp
    then have d1: "(1 :: rat) \<le> of_int d" by simp
    have "(1 :: rat) / 2 ^ 33 < 1 / (2 * of_nat w)" using wq wlt by (simp add: field_simps)
    also have "\<dots> \<le> of_int d / (2 * of_nat w)" using d1 wq by (intro divide_right_mono) simp_all
    finally show ?thesis .
  qed
  have up: "r \<le> of_int n + 1 / 2"
  proof (rule ccontr)
    assume "\<not> r \<le> of_int n + 1 / 2"
    then have pos: "0 < r - (of_int n + 1 / 2)" by simp
    have eq: "r - (of_int n + 1 / 2) = of_int (200 * int s - (2 * n + 1) * int w) / (2 * of_nat w)"
      using wq by (simp add: r_def field_simps)
    from gap[of "200 * int s - (2 * n + 1) * int w"] pos eq
    have "(1 :: rat) / 2 ^ 33 < r - (of_int n + 1 / 2)" by simp
    moreover have "r - (of_int n + 1 / 2) \<le> 1 / 2 ^ 45" using close fl by linarith
    ultimately show False by simp
  qed
  have lo: "of_int n - 1 / 2 \<le> r"
  proof (rule ccontr)
    assume "\<not> of_int n - 1 / 2 \<le> r"
    then have pos: "0 < (of_int n - 1 / 2) - r" by simp
    have eq: "(of_int n - 1 / 2) - r = of_int ((2 * n - 1) * int w - 200 * int s) / (2 * of_nat w)"
      using wq by (simp add: r_def field_simps)
    from gap[of "(2 * n - 1) * int w - 200 * int s"] pos eq
    have "(1 :: rat) / 2 ^ 33 < (of_int n - 1 / 2) - r" by simp
    moreover have "(of_int n - 1 / 2) - r \<le> 1 / 2 ^ 45" using close fl by linarith
    ultimately show False by simp
  qed
  from up lo have "\<bar>of_int n - r\<bar> \<le> 1 / 2" by linarith
  then show ?thesis unfolding n_def x_def r_def .
qed

lemma nearest_is_round:
  fixes r :: rat
  assumes "\<bar>of_int n - r\<bar> \<le> 1 / 2" and "r - of_int \<lfloor>r\<rfloor> \<noteq> 1 / 2"
  shows "n = round r"
proof -
  have le: "of_int n \<le> r + 1 / 2" and ge: "r - 1 / 2 \<le> of_int n" using assms(1) by linarith+
  have "r - 1 / 2 \<noteq> of_int n"
  proof
    assume e: "r - 1 / 2 = of_int n"
    then have "r = of_int n + 1 / 2" by simp
    then have "\<lfloor>r\<rfloor> = n" by (simp add: floor_unique)
    with e assms(2) show False by simp
  qed
  with ge have "r + 1 / 2 < of_int n + 1" by linarith
  with le have "\<lfloor>r + 1 / 2\<rfloor> = n" by (simp add: floor_unique)
  then show ?thesis by (simp add: round_def)
qed

section \<open>Fixed look-back counts and the weekly trend text\<close>

lemma showNat_0: "showNat 0 = ''0''"
  by code_simp

lemma toFixed0_nonneg: "0 \<le> x \<Longrightarrow> toFixed0 x = showNat (nat \<lfloor>x + 1 / 2\<rfloor>)"
  by (simp add: toFixed0_def)

text \<open>
  With 23 successful deployments of 40 in the last week the exact rate is 57.5, the
  double computed for it is just below, and the text shows 57.
\<close>

lemma trend_text_of_23_in_40:
  "calculateDeploymentTrendText f tieStore (100 * msPerDay)
     = ''40 deployments in last week, with 57% success rate''"
proof -
  have r: "toFixed0 (roundToDouble (roundToDouble (23 / 40) * 100)) = ''57''" by code_simp
  have s40: "showNat 40 = ''40''" by code_simp
  show ?thesis
    by (simp add: calculateDeploymentTrendText_def Let_def tieStore_def emptyStore_def
        deploymentAt_def msPerDay_def isSuccessful_def r s40)
qed

text \<open>
  Claim C9. The counts of deployments created in the last 1, 7 and 30 days and the
  weekly trend text are functions of the full store and the clock alone: two snapshots
  taken from the same store at the same instant agree on these four fields whatever
  the filtered views and the window values are. The text is the last-7-days count
  followed by \<open>deployments in last week\<close>; when the count is not 0 it continues with the
  success rate of those deployments as an integer: the integer nearest to the double
  computed for \<open>(successful / count) * 100\<close>. For every array the language allows (fewer
  than \<open>2^32\<close> elements) that integer is a nearest integer of the exact rate, and it is
  \<open>round\<close> of the exact rate unless the exact rate lies half-way between two integers.
\<close>

theorem fixed_lookback_independent_of_window:
  "\<exists>m1 m2 exact rate.
       calculateDoraMetrics f1 od t1 now = Inr m1
     \<and> calculateDoraMetrics f2 od t2 now = Inr m2
     \<and> deploymentsYesterday m1 = deploymentsYesterday m2
     \<and> deploymentsLastWeek m1 = deploymentsLastWeek m2
     \<and> deploymentsLastMonth m1 = deploymentsLastMonth m2
     \<and> deploymentFrequencyTrendText m1 = deploymentFrequencyTrendText m2
     \<and> deploymentsYesterday m1 = length (filter
           (\<lambda>d. now - 1 * msPerDay \<le> created_at_utc d \<and> created_at_utc d \<le> now)
           (fact_deployment od))
     \<and> deploymentsLastWeek m1 = length (filter
           (\<lambda>d. now - 7 * msPerDay \<le> created_at_utc d \<and> created_at_utc d \<le> now)
           (fact_deployment od))
     \<and> deploymentsLastMonth m1 = length (filter
           (\<lambda>d. now - 30 * msPerDay \<le> created_at_utc d \<and> created_at_utc d \<le> now)
           (fact_deployment od))
     \<and> exact = of_nat (length (filter
           (\<lambda>d. (state d = ''success'' \<or> state d = ''inactive'')
              \<and> now - 7 * msPerDay \<le> created_at_utc d \<and> created_at_utc d \<le> now)
           (fact_deployment od))) / of_nat (deploymentsLastWeek m1) * (100 :: rat)
     \<and> rate = roundToDouble (roundToDouble (of_nat (length (filter
           (\<lambda>d. (state d = ''success'' \<or> state d = ''inactive'')
              \<and> now - 7 * msPerDay \<le> created_at_utc d \<and> created_at_utc d \<le> now)
           (fact_deployment od))) / of_nat (deploymentsLastWeek m1)) * 100)
     \<and> deploymentFrequencyTrendText m1 =
           (if deploymentsLastWeek m1 = 0
            then showNat (deploymentsLastWeek m1) @ '' deployments in last week''
            else showNat (deploymentsLastWeek m1) @ '' deployments in last week, with ''
              @ showNat (nat \<lfloor>rate + 1 / 2\<rfloor>) @ ''% success rate'')
     \<and> (0 < deploymentsLastWeek m1 \<and> deploymentsLastWeek m1 < 2 ^ 32 \<longrightarrow>
           0 \<le> \<lfloor>rate + 1 / 2\<rfloor>
         \<and> \<bar>of_int \<lfloor>rate + 1 / 2\<rfloor> - exact\<bar> \<le> 1 / 2
         \<and> (exact - of_int \<lfloor>exact\<rfloor> \<noteq> 1 / 2 \<longrightarrow> \<lfloor>rate + 1 / 2\<rfloor> = round exact))"
proof -
  obtain m1 where m1: "calculateDoraMetrics f1 od t1 now = Inr m1"
    and y1: "deploymentsYesterday m1 = yesterday (calculateDeploymentCounts od now)"
    and w1: "deploymentsLastWeek m1 = lastWeek (calculateDeploymentCounts od now)"
    and l1: "deploymentsLastMonth m1 = lastMonth (calculateDeploymentCounts od now)"
    and x1: "deploymentFrequencyTrendText m1 = calculateDeploymentTrendText f1 od now"
    using calculateDoraMetrics_result [of f1 od t1 now] by blast
  obtain m2 where m2: "calculateDoraMetrics f2 od t2 now = Inr m2"
    and y2: "deploymentsYesterday m2 = yesterday (calculateDeploymentCounts od now)"
    and w2: "deploymentsLastWeek m2 = lastWeek (calculateDeploymentCounts od now)"
    and l2: "deploymentsLastMonth m2 = lastMonth (calculateDeploymentCounts od now)"
    and x2: "deploymentFrequencyTrendText m2 = calculateDeploymentTrendText f2 od now"
    using calculateDoraMetrics_result [of f2 od t2 now] by blast
  have same_text: "calculateDeploymentTrendText f1 od now = calculateDeploymentTrendText f2 od now"
    by (simp add: calculateDeploymentTrendText_def)
  have y: "yesterday (calculateDeploymentCounts od now) = length (filter
           (\<lambda>d. now - 1 * msPerDay \<le> created_at_utc d \<and> created_at_utc d \<le> now)
           (fact_deployment od))"
    by (simp add: calculateDeploymentCounts_def Let_def)
  have w: "lastWeek (calculateDeploymentCounts od now) = length (filter
           (\<lambda>d. now - 7 * msPerDay \<le> created_at_utc d \<and> created_at_utc d \<le> now)
           (fact_deployment od))"
    by (simp add: calculateDeploymentCounts_def Let_def)
  have l: "lastMonth (calculateDeploymentCounts od now) = length (filter
           (\<lambda>d. now - 30 * msPerDay \<le> created_at_utc d \<and> created_at_utc d \<le> now)
           (fact_deployment od))"
    by (simp add: calculateDeploymentCounts_def Let_def)
  define week where "week = filter
           (\<lambda>d. now - 7 * msPerDay \<le> created_at_utc d \<and> created_at_utc d \<le> now)
           (fact_deployment od)"
  define s where "s = length (filter
           (\<lambda>d. (state d = ''success'' \<or> state d = ''inactive'')
              \<and> now - 7 * msPerDay \<le> created_at_utc d \<and> created_at_utc d \<le> now)
           (fact_deployment od))"
  have s_week: "s = length (filter isSuccessful week)"
    by (simp add: s_def week_def isSuccessful_def [abs_def] conj_ac)
  have wk: "deploymentsLastWeek m1 = length week" by (simp add: w1 w week_def)
  have sw: "s \<le> length week" unfolding s_week by (rule length_filter_le)
  define exact :: rat where "exact = of_nat s / of_nat (length week) * 100"
  define rate where "rate = roundToDouble (roundToDouble (of_nat s / of_nat (length week)) * 100)"
  have rate_pos: "0 \<le> rate" unfolding rate_def
    by (intro roundToDouble_nonneg mult_nonneg_nonneg) simp_all
  have fix0: "toFixed0 rate = showNat (nat \<lfloor>rate + 1 / 2\<rfloor>)"
    using rate_pos by (rule toFixed0_nonneg)
  have text_week: "calculateDeploymentTrendText f1 od now =
           (if length week = 0 then ''0 deployments in last week''
            else showNat (length week) @ '' deployments in last week, with ''
              @ toFixed0 rate @ ''% success rate'')"
    by (simp add: calculateDeploymentTrendText_def Let_def rate_def s_week week_def conj_ac)
  have text_form: "deploymentFrequencyTrendText m1 =
           (if deploymentsLastWeek m1 = 0
            then showNat (deploymentsLastWeek m1) @ '' deployments in last week''
            else showNat (deploymentsLastWeek m1) @ '' deployments in last week, with ''
              @ showNat (nat \<lfloor>rate + 1 / 2\<rfloor>) @ ''% success rate'')"
    unfolding x1 text_week wk fix0 by (simp add: showNat_0)
  have near: "0 \<le> \<lfloor>rate + 1 / 2\<rfloor> \<and> \<bar>of_int \<lfloor>rate + 1 / 2\<rfloor> - exact\<bar> \<le> 1 / 2
         \<and> (exact - of_int \<lfloor>exact\<rfloor> \<noteq> 1 / 2 \<longrightarrow> \<lfloor>rate + 1 / 2\<rfloor> = round exact)"
    if "0 < length week" "length week < 2 ^ 32"
  proof -
    have a: "\<bar>of_int \<lfloor>rate + 1 / 2\<rfloor> - exact\<bar> \<le> 1 / 2"
      unfolding rate_def exact_def by (rule rate_nearest[OF that sw])
    have b: "0 \<le> \<lfloor>rate + 1 / 2\<rfloor>" using rate_pos by simp
    from a b nearest_is_round[OF a] show ?thesis by blast
  qed
  show ?thesis
    apply (rule exI [of _ m1], rule exI [of _ m2], rule exI [of _ exact], rule exI [of _ rate])
    apply (intro conjI m1 m2)
              apply (simp add: y1 y2)
             apply (simp add: w1 w2)
            apply (simp add: l1 l2)
           apply (simp add: x1 x2 same_text)
          apply (simp add: y1 y)
         apply (simp add: w1 w)
        apply (simp add: l1 l)
       apply (simp only: exact_def s_def wk)
      apply (simp only: rate_def s_def wk)
     apply (rule text_form)
    apply (simp only: wk)
    apply (rule impI)
    apply (rule near)
     apply simp_all
    done
qed

theorem fixed_lookback_independent_of_window_witness:
  "\<exists>m1 m2.
     calculateDoraMetrics (filterDataByDays weekStore None (100 * msPerDay)) weekStore None
       (100 * msPerDay) = Inr m1
     \<and> calculateDoraMetrics (filterDataByDays weekStore (Some 7) (100 * msPerDay)) weekStore (Some 7)
       (100 * msPerDay) = Inr m2
     \<and> deploymentsYesterday m1 = 1 \<and> deploymentsYesterday m2 = 1
     \<and> deploymentsLastWeek m1 = 3 \<and> deploymentsLastWeek m2 = 3
     \<and> deploymentsLastMonth m1 = 4 \<and> deploymentsLastMonth m2 = 4
     \<and> deploymentFrequencyTrendText m1 = ''3 deployments in last week, with 67% success rate''
     \<and> deploymentFrequencyTrendText m2 = ''3 deployments in last week, with 67% success rate''
     \<and> \<bar>67 - (200 :: rat) / 3\<bar> \<le> 1 / 2 \<and> round ((200 :: rat) / 3) = 67"
proof -
  obtain m1 m2 exact rate where
    m1: "calculateDoraMetrics (filterDataByDays weekStore None (100 * msPerDay)) weekStore None
       (100 * msPerDay) = Inr m1"
    and m2: "calculateDoraMetrics (filterDataByDays weekStore (Some 7) (100 * msPerDay)) weekStore
       (Some 7) (100 * msPerDay) = Inr m2"
    and y: "deploymentsYesterday m1 = deploymentsYesterday m2"
    and w: "deploymentsLastWeek m1 = deploymentsLastWeek m2"
    and l: "deploymentsLastMonth m1 = deploymentsLastMonth m2"
    and x: "deploymentFrequencyTrendText m1 = deploymentFrequencyTrendText m2"
    and y1: "deploymentsYesterday m1 = length (filter
           (\<lambda>d. 100 * msPerDay - 1 * msPerDay \<le> created_at_utc d
              \<and> created_at_utc d \<le> 100 * msPerDay)
           (fact_deployment weekStore))"
    and w1: "deploymentsLastWeek m1 = length (filter
           (\<lambda>d. 100 * msPerDay - 7 * msPerDay \<le> created_at_utc d
              \<and> created_at_utc d \<le> 100 * msPerDay)
           (fact_deployment weekStore))"
    and l1: "deploymentsLastMonth m1 = length (filter
           (\<lambda>d. 100 * msPerDay - 30 * msPerDay \<le> created_at_utc d
              \<and> created_at_utc d \<le> 100 * msPerDay)
           (fact_deployment weekStore))"
    and ex: "exact = of_nat (length (filter
           (\<lambda>d. (state d = ''success'' \<or> state d = ''inactive'')
              \<and> 100 * msPerDay - 7 * msPerDay \<le> created_at_utc d
              \<and> created_at_utc d \<le> 100 * msPerDay)
           (fact_deployment weekStore))) / of_nat (deploymentsLastWeek m1) * (100 :: rat)"
    and ra: "rate = roundToDouble (roundToDouble (of_nat (length (filter
           (\<lambda>d. (state d = ''success'' \<or> state d = ''inactive'')
              \<and> 100 * msPerDay - 7 * msPerDay \<le> created_at_utc d
              \<and> created_at_utc d \<le> 100 * msPerDay)
           (fact_deployment weekStore))) / of_nat (deploymentsLastWeek m1)) * 100)"
    and x1: "deploymentFrequencyTrendText m1 =
           (if deploymentsLastWeek m1 = 0
            then showNat (deploymentsLastWeek m1) @ '' deployments in last week''
            else showNat (deploymentsLastWeek m1) @ '' deployments in last week, with ''
              @ showNat (nat \<lfloor>rate + 1 / 2\<rfloor>) @ ''% success rate'')"
    and nr: "0 < deploymentsLastWeek m1 \<and> deploymentsLastWeek m1 < 2 ^ 32 \<longrightarrow>
           0 \<le> \<lfloor>rate + 1 / 2\<rfloor>
         \<and> \<bar>of_int \<lfloor>rate + 1 / 2\<rfloor> - exact\<bar> \<le> 1 / 2
         \<and> (exact - of_int \<lfloor>exact\<rfloor> \<noteq> 1 / 2 \<longrightarrow> \<lfloor>rate + 1 / 2\<rfloor> = round exact)"
    using fixed_lookback_independent_of_window
      [of "filterDataByDays weekStore None (100 * msPerDay)" weekStore None "100 * msPerDay"
          "filterDataByDays weekStore (Some 7) (100 * msPerDay)" "Some 7"]
    by blast
  have y1': "deploymentsYesterday m1 = 1"
    unfolding y1 by (simp add: weekStore_def emptyStore_def deploymentAt_def msPerDay_def)
  have w1': "deploymentsLastWeek m1 = 3"
    unfolding w1 by (simp add: weekStore_def emptyStore_def deploymentAt_def msPerDay_def)
  have l1': "deploymentsLastMonth m1 = 4"
    unfolding l1 by (simp add: weekStore_def emptyStore_def deploymentAt_def msPerDay_def)
  have ex': "exact = 200 / 3"
    unfolding ex w1' by (simp add: weekStore_def emptyStore_def deploymentAt_def msPerDay_def)
  have ra': "rate = roundToDouble (roundToDouble (2 / 3) * 100)"
    unfolding ra w1' by (simp add: weekStore_def emptyStore_def deploymentAt_def msPerDay_def)
  have fl: "\<lfloor>roundToDouble (roundToDouble (2 / 3) * 100) + 1 / 2\<rfloor> = 67" by code_simp
  have s3: "showNat 3 = ''3''" by code_simp
  have s67: "showNat 67 = ''67''" by code_simp
  have f66: "\<lfloor>(200 :: rat) / 3\<rfloor> = 66" by (rule floor_unique) simp_all
  have tie: "(200 :: rat) / 3 - of_int \<lfloor>(200 :: rat) / 3\<rfloor> \<noteq> 1 / 2"
    unfolding f66 by simp
  have x1': "deploymentFrequencyTrendText m1 = ''3 deployments in last week, with 67% success rate''"
    unfolding x1 w1' ra' fl by (simp add: s3 s67)
  from nr w1' have "\<bar>of_int \<lfloor>rate + 1 / 2\<rfloor> - exact\<bar> \<le> 1 / 2"
    and "exact - of_int \<lfloor>exact\<rfloor> \<noteq> 1 / 2 \<longrightarrow> \<lfloor>rate + 1 / 2\<rfloor> = round exact" by simp_all
  then have n1: "\<bar>67 - (200 :: rat) / 3\<bar> \<le> 1 / 2" and n2: "round ((200 :: rat) / 3) = 67"
    using tie unfolding ex' ra' fl by simp_all
  show ?thesis
    using m1 m2 y1' w1' l1' x1' y w l x n1 n2 by auto
qed

section \<open>Lead-time extremes and the last deployment\<close>

lemma foldl_max_Max: "foldl max t ts = Max (set (t # ts))" for t :: "'a :: linorder"
proof -
  have "(\<lambda>x s. max s x) = (max :: 'a \<Rightarrow> 'a \<Rightarrow> 'a)"
    by (intro ext) (rule max.commute)
  then show ?thesis
    by (simp only: foldl_conv_fold Max.set_eq_fold)
qed

lemma foldl_min_Min: "foldl min t ts = Min (set (t # ts))" for t :: "'a :: linorder"
proof -
  have "(\<lambda>x s. min s x) = (min :: 'a \<Rightarrow> 'a \<Rightarrow> 'a)"
    by (intro ext) (rule min.commute)
  then show ?thesis
    by (simp only: foldl_conv_fold Min.set_eq_fold)
qed

lemma hd_sort_key_least:
  assumes "xs \<noteq> []"
  shows "hd (sort_key f xs) \<in> set xs \<and> (\<forall>e\<in>set xs. f (hd (sort_key f xs)) \<le> f e)"
proof -
  obtain y ys where ys: "sort_key f xs = y # ys"
    using assms by (cases "sort_key f xs") (auto dest: arg_cong [where f = length])
  have "sorted (map f (y # ys))"
    using sorted_sort_key [of f xs] by (simp add: ys)
  then have le: "\<forall>z\<in>set (y # ys). f y \<le> f z"
    by auto
  have eq: "set xs = set (y # ys)"
    using set_sort [of f xs] by (simp add: ys)
  show ?thesis
    using le by (simp add: ys eq)
qed

lemma hd_sort_key_first:
  assumes "xs \<noteq> []"
  shows "hd (sort_key f xs) = hd (filter (\<lambda>y. \<forall>e\<in>set xs. f y \<le> f e) xs)"
proof -
  define k where "k = f (hd (sort_key f xs))"
  have least: "hd (sort_key f xs) \<in> set xs" "\<forall>e\<in>set xs. k \<le> f e"
    using hd_sort_key_least [OF assms, of f] by (simp_all add: k_def)
  have same: "filter (\<lambda>y. \<forall>e\<in>set xs. f y \<le> f e) xs = filter (\<lambda>y. f y = k) xs"
  proof (rule filter_cong [OF refl])
    fix y assume "y \<in> set xs"
    then show "(\<forall>e\<in>set xs. f y \<le> f e) = (f y = k)"
      using least by (auto simp: k_def intro: antisym)
  qed
  obtain y ys where ys: "sort_key f xs = y # ys"
    using assms by (cases "sort_key f xs") (auto dest: arg_cong [where f = length])
  have "hd (filter (\<lambda>y. f y = k) (sort_key f xs)) = hd (sort_key f xs)"
    by (simp add: ys k_def)
  then show ?thesis
    by (simp add: same sort_key_stable)
qed

lemma leadTimeHours_pos: "0 < leadTimeHours d \<longleftrightarrow> created_at_utc d < finished_at_utc d"
  by (simp add: leadTimeHours_def zero_less_divide_iff)

lemma leadStore_snapshot:
  assumes "finished \<le> 20 * msPerHour"
  shows "\<exists>m. calculateDoraMetrics (leadStore finished) (leadStore finished) None 0 = Inr m
     \<and> minLeadTime m = 2 \<and> maxLeadTime m = 2
     \<and> lastDeploymentLeadTime m = of_int (finished - 20 * msPerHour) / (1000 * 60 * 60)"
proof -
  obtain m where m: "calculateDoraMetrics (leadStore finished) (leadStore finished) None 0 = Inr m"
    and mx: "maxLeadTime m =
           (case filter (\<lambda>time. time > 0) (map leadTimeHours (fact_deployment (leadStore finished))) of
              [] \<Rightarrow> 0 | t # ts \<Rightarrow> foldl max t ts)"
    and mn: "minLeadTime m =
           (case filter (\<lambda>time. time > 0) (map leadTimeHours (fact_deployment (leadStore finished))) of
              [] \<Rightarrow> 0 | t # ts \<Rightarrow> foldl min t ts)"
    and la: "lastDeploymentLeadTime m =
           (case jsSort (\<lambda>a b. created_at_utc b - created_at_utc a)
                   (fact_deployment (leadStore finished)) of
              [] \<Rightarrow> 0 | d # _ \<Rightarrow> leadTimeHours d)"
    using calculateDoraMetrics_result [of "leadStore finished" "leadStore finished" None 0] by blast
  have pos: "filter (\<lambda>time. time > 0) (map leadTimeHours (fact_deployment (leadStore finished))) = [2]"
    using assms
    by (simp add: leadStore_def emptyStore_def deploymentAt_def leadTimeHours_def msPerHour_def
        zero_less_divide_iff)
  have srt: "jsSort (\<lambda>a b. created_at_utc b - created_at_utc a)
       (fact_deployment (leadStore finished))
     = [deploymentAt (20 * msPerHour) finished ''success'',
        deploymentAt (10 * msPerHour) (12 * msPerHour) ''success'']"
    by (simp add: leadStore_def emptyStore_def deploymentAt_def jsSort_def msPerHour_def)
  show ?thesis
    apply (rule exI [of _ m])
    apply (simp add: m mx mn la pos srt)
    apply (simp add: deploymentAt_def leadTimeHours_def)
    done
qed

text \<open>
  Claim C10. In every snapshot \<open>0 \<le> minLeadTime \<le> maxLeadTime\<close>: the two are the least
  and the greatest lead time among the deployments of the view that finished after they
  were created, and both are 0 when there is none. \<open>lastDeploymentLeadTime\<close> is the raw
  duration, in hours, of the deployment created last (the first such one in the array
  when several share that instant), whatever its sign: the store \<open>leadStore\<close> has
  extremes 2 and 2 with a last lead time of -1, or of 0.
\<close>

theorem lead_time_extremes:
  "\<exists>m. calculateDoraMetrics f od t now = Inr m
     \<and> 0 \<le> minLeadTime m \<and> minLeadTime m \<le> maxLeadTime m
     \<and> (if \<exists>d\<in>set (fact_deployment f). created_at_utc d < finished_at_utc d
         then 0 < minLeadTime m
           \<and> minLeadTime m = Min (leadTimeHours `
                 {d \<in> set (fact_deployment f). created_at_utc d < finished_at_utc d})
           \<and> maxLeadTime m = Max (leadTimeHours `
                 {d \<in> set (fact_deployment f). created_at_utc d < finished_at_utc d})
         else minLeadTime m = 0 \<and> maxLeadTime m = 0)
     \<and> lastDeploymentLeadTime m =
         (if fact_deployment f = [] then 0
          else of_int
             (finished_at_utc (hd (filter
                  (\<lambda>d. \<forall>e\<in>set (fact_deployment f). created_at_utc e \<le> created_at_utc d)
                  (fact_deployment f)))
              - created_at_utc (hd (filter
                  (\<lambda>d. \<forall>e\<in>set (fact_deployment f). created_at_utc e \<le> created_at_utc d)
                  (fact_deployment f))))
            / (1000 * 60 * 60))
     \<and> (\<exists>m'. calculateDoraMetrics (leadStore (19 * msPerHour)) (leadStore (19 * msPerHour)) None 0
            = Inr m'
          \<and> minLeadTime m' = 2 \<and> maxLeadTime m' = 2 \<and> lastDeploymentLeadTime m' = - 1)
     \<and> (\<exists>m'. calculateDoraMetrics (leadStore (20 * msPerHour)) (leadStore (20 * msPerHour)) None 0
            = Inr m'
          \<and> minLeadTime m' = 2 \<and> maxLeadTime m' = 2 \<and> lastDeploymentLeadTime m' = 0)"
proof -
  define ds where "ds = fact_deployment f"
  define ps where "ps = filter (\<lambda>time. time > 0) (map leadTimeHours ds)"
  obtain m where m: "calculateDoraMetrics f od t now = Inr m"
    and mx: "maxLeadTime m = (case ps of [] \<Rightarrow> 0 | t # ts \<Rightarrow> foldl max t ts)"
    and mn: "minLeadTime m = (case ps of [] \<Rightarrow> 0 | t # ts \<Rightarrow> foldl min t ts)"
    and la: "lastDeploymentLeadTime m =
           (case jsSort (\<lambda>a b. created_at_utc b - created_at_utc a) ds of
              [] \<Rightarrow> 0 | d # _ \<Rightarrow> leadTimeHours d)"
    unfolding ds_def ps_def using calculateDoraMetrics_result [of f od t now] by blast
  have set_ps: "set ps = leadTimeHours ` {d \<in> set ds. created_at_utc d < finished_at_utc d}"
    by (auto simp: ps_def leadTimeHours_pos)
  have ps_pos: "\<forall>x\<in>set ps. 0 < x"
    by (simp add: ps_def)
  have ex_iff: "(\<exists>d\<in>set ds. created_at_utc d < finished_at_utc d) \<longleftrightarrow> ps \<noteq> []"
    using set_ps by (metis (no_types, lifting) empty_iff image_is_empty mem_Collect_eq set_empty
        all_not_in_conv)
  have bounds: "0 \<le> minLeadTime m \<and> minLeadTime m \<le> maxLeadTime m"
  proof (cases ps)
    case Nil
    then show ?thesis by (simp add: mx mn)
  next
    case (Cons t ts)
    have a: "0 < Min (set ps)" using ps_pos Cons by simp
    have "Min (set ps) \<le> t" using Cons by (intro Min_le) simp_all
    moreover have "t \<le> Max (set ps)" using Cons by (intro Max_ge) simp_all
    ultimately have b: "Min (set ps) \<le> Max (set ps)" by (rule order_trans)
    have mn': "minLeadTime m = Min (set ps)" by (simp only: mn Cons list.case foldl_min_Min)
    have mx': "maxLeadTime m = Max (set ps)" by (simp only: mx Cons list.case foldl_max_Max)
    show ?thesis unfolding mn' mx' using a b by linarith
  qed
  have extremes: "if \<exists>d\<in>set ds. created_at_utc d < finished_at_utc d
         then 0 < minLeadTime m
           \<and> minLeadTime m = Min (leadTimeHours ` {d \<in> set ds. created_at_utc d < finished_at_utc d})
           \<and> maxLeadTime m = Max (leadTimeHours ` {d \<in> set ds. created_at_utc d < finished_at_utc d})
         else minLeadTime m = 0 \<and> maxLeadTime m = 0"
  proof (cases ps)
    case Nil
    then show ?thesis using ex_iff by (simp add: mx mn)
  next
    case (Cons t ts)
    have a: "0 < Min (set ps)" using ps_pos Cons by simp
    have mn': "minLeadTime m = Min (set ps)" by (simp only: mn Cons list.case foldl_min_Min)
    have mx': "maxLeadTime m = Max (set ps)" by (simp only: mx Cons list.case foldl_max_Max)
    have ex: "\<exists>d\<in>set ds. created_at_utc d < finished_at_utc d"
      using ex_iff Cons by simp
    show ?thesis
      unfolding mn' mx' set_ps [symmetric] using a ex by (simp only: if_True simp_thms)
  qed
  have last_eq: "lastDeploymentLeadTime m =
         (if ds = [] then 0
          else of_int
             (finished_at_utc (hd (filter
                  (\<lambda>d. \<forall>e\<in>set ds. created_at_utc e \<le> created_at_utc d) ds))
              - created_at_utc (hd (filter
                  (\<lambda>d. \<forall>e\<in>set ds. created_at_utc e \<le> created_at_utc d) ds)))
            / (1000 * 60 * 60))"
  proof (cases "ds = []")
    case True
    then show ?thesis by (simp add: la jsSort_def)
  next
    case False
    then obtain y ys where ys: "sort_key (\<lambda>d. - created_at_utc d) ds = y # ys"
      by (cases "sort_key (\<lambda>d. - created_at_utc d) ds") (auto dest: arg_cong [where f = length])
    have "y = hd (filter (\<lambda>d. \<forall>e\<in>set ds. created_at_utc e \<le> created_at_utc d) ds)"
      using hd_sort_key_first [OF False, of "\<lambda>d. - created_at_utc d"] by (simp add: ys)
    then show ?thesis
      using False by (simp add: la jsSort_sort_key ys leadTimeHours_def)
  qed
  have neg: "\<exists>m'. calculateDoraMetrics (leadStore (19 * msPerHour)) (leadStore (19 * msPerHour)) None 0
            = Inr m'
          \<and> minLeadTime m' = 2 \<and> maxLeadTime m' = 2 \<and> lastDeploymentLeadTime m' = - 1"
    using leadStore_snapshot [of "19 * msPerHour"] by (simp add: msPerHour_def)
  have zero: "\<exists>m'. calculateDoraMetrics (leadStore (20 * msPerHour)) (leadStore (20 * msPerHour)) None 0
            = Inr m'
          \<and> minLeadTime m' = 2 \<and> maxLeadTime m' = 2 \<and> lastDeploymentLeadTime m' = 0"
    using leadStore_snapshot [of "20 * msPerHour"] by (simp add: msPerHour_def)
  show ?thesis
    apply (rule exI [of _ m])
    apply (intro conjI m neg zero)
       apply (rule bounds [THEN conjunct1])
      apply (rule bounds [THEN conjunct2])
     apply (rule extremes [unfolded ds_def])
    apply (rule last_eq [unfolded ds_def])
    done
qed

theorem lead_time_extremes_witness:
  "\<exists>m. calculateDoraMetrics (leadStore (19 * msPerHour)) (leadStore (19 * msPerHour)) None 0 = Inr m
     \<and> 0 < minLeadTime m \<and> minLeadTime m = 2 \<and> maxLeadTime m = 2
     \<and> lastDeploymentLeadTime m = - 1"
proof -
  define ds where "ds = fact_deployment (leadStore (19 * msPerHour))"
  have ds: "ds = [deploymentAt (10 * msPerHour) (12 * msPerHour) ''success'',
                  deploymentAt (20 * msPerHour) (19 * msPerHour) ''success'']"
    by (simp add: ds_def leadStore_def emptyStore_def)
  have pos: "{d \<in> set ds. created_at_utc d < finished_at_utc d}
      = {deploymentAt (10 * msPerHour) (12 * msPerHour) ''success''}"
    by (auto simp: ds deploymentAt_def msPerHour_def)
  have ex: "\<exists>d\<in>set ds. created_at_utc d < finished_at_utc d"
    by (simp add: ds deploymentAt_def msPerHour_def)
  have recent: "filter (\<lambda>d. \<forall>e\<in>set ds. created_at_utc e \<le> created_at_utc d) ds
      = [deploymentAt (20 * msPerHour) (19 * msPerHour) ''success'']"
    by (simp add: ds deploymentAt_def msPerHour_def)
  obtain m where m: "calculateDoraMetrics (leadStore (19 * msPerHour)) (leadStore (19 * msPerHour))
        None 0 = Inr m"
    and ext: "if \<exists>d\<in>set ds. created_at_utc d < finished_at_utc d
         then 0 < minLeadTime m
           \<and> minLeadTime m = Min (leadTimeHours ` {d \<in> set ds. created_at_utc d < finished_at_utc d})
           \<and> maxLeadTime m = Max (leadTimeHours ` {d \<in> set ds. created_at_utc d < finished_at_utc d})
         else minLeadTime m = 0 \<and> maxLeadTime m = 0"
    and la: "lastDeploymentLeadTime m =
         (if ds = [] then 0
          else of_int
             (finished_at_utc (hd (filter
                  (\<lambda>d. \<forall>e\<in>set ds. created_at_utc e \<le> created_at_utc d) ds))
              - created_at_utc (hd (filter
                  (\<lambda>d. \<forall>e\<in>set ds. created_at_utc e \<le> created_at_utc d) ds)))
            / (1000 * 60 * 60))"
    unfolding ds_def
    using lead_time_extremes [of "leadStore (19 * msPerHour)" "leadStore (19 * msPerHour)" None 0]
    by blast
  have mm: "0 < minLeadTime m \<and> minLeadTime m = 2 \<and> maxLeadTime m = 2"
    using ext ex unfolding pos
    by (simp add: leadTimeHours_def deploymentAt_def msPerHour_def)
  have "lastDeploymentLeadTime m = - 1"
    unfolding la recent by (simp add: ds deploymentAt_def msPerHour_def)
  with m mm show ?thesis by blast
qed

section \<open>Aggregates from the daily rollups\<close>

lemma summaryAverages_sums:
  "summaryAverages rows =
     (if \<exists>d\<in>set rows. 0 < deploys d then
        \<lparr> avgDeploymentFreq =
            sum_list (map deploys (filter (\<lambda>d. 0 < deploys d) rows))
              / of_nat (length (filter (\<lambda>d. 0 < deploys d) rows)),
          avgLeadTime =
            sum_list (map avg_lt_hours (filter (\<lambda>d. 0 < deploys d) rows))
              / of_nat (length (filter (\<lambda>d. 0 < deploys d) rows)),
          avgCFR =
            sum_list (map DailyRollup.cfr (filter (\<lambda>d. 0 < deploys d) rows))
              / of_nat (length (filter (\<lambda>d. 0 < deploys d) rows)) * 100,
          avgMTTR = sum_list (map (\<lambda>d. mttr_min d / 60) rows) \<rparr>
      else \<lparr> avgDeploymentFreq = 0, avgLeadTime = 0, avgCFR = 0, avgMTTR = 0 \<rparr>)"
proof -
  have "(\<exists>d\<in>set rows. 0 < deploys d) \<longleftrightarrow> 0 < length (filter (\<lambda>d. 0 < deploys d) rows)"
    by (simp add: filter_empty_conv)
  then show ?thesis
    by (simp add: summaryAverages_def Let_def foldl_add_sum_list)
qed

lemma sum_list_const: "(\<forall>x\<in>set xs. g x = c) \<Longrightarrow> sum_list (map g xs) = of_nat (length xs) * (c :: rat)"
  by (induction xs) (simp_all add: algebra_simps)

text \<open>
  Claim C1, for the sequences on which the code computes the aggregates. When the rollup
  sequence of the view has a row with \<open>deploys > 0\<close>, the frequency, the lead time and
  the change-failure rate are the arithmetic means of \<open>deploys\<close>, \<open>avg_lt_hours\<close> and
  \<open>cfr\<close> (times 100) over the rows with \<open>deploys > 0\<close>, and the recovery time is the sum
  of \<open>mttr_min / 60\<close> over all rows, so \<open>K\<close> rows with the same \<open>mttr_min = v\<close> give
  \<open>K * (v / 60)\<close>. When the sequence is not empty and no row has \<open>deploys > 0\<close>, the
  three means are 0.
\<close>

theorem rollup_aggregates:
  "\<exists>m. calculateDoraMetrics f od t now = Inr m
     \<and> (dora_summary_daily f = Some rows \<and> (\<exists>d\<in>set rows. 0 < deploys d) \<longrightarrow>
          deploymentFrequency m
            = sum_list (map deploys (filter (\<lambda>d. 0 < deploys d) rows))
                / of_nat (length (filter (\<lambda>d. 0 < deploys d) rows))
          \<and> leadTime m
            = sum_list (map avg_lt_hours (filter (\<lambda>d. 0 < deploys d) rows))
                / of_nat (length (filter (\<lambda>d. 0 < deploys d) rows))
          \<and> DoraMetrics.cfr m
            = sum_list (map DailyRollup.cfr (filter (\<lambda>d. 0 < deploys d) rows))
                / of_nat (length (filter (\<lambda>d. 0 < deploys d) rows)) * 100
          \<and> mttr m = sum_list (map (\<lambda>d. mttr_min d / 60) rows)
          \<and> ((\<forall>d\<in>set rows. mttr_min d = v) \<longrightarrow> mttr m = of_nat (length rows) * (v / 60)))
     \<and> (dora_summary_daily f = Some rows \<and> rows \<noteq> [] \<and> \<not> (\<exists>d\<in>set rows. 0 < deploys d) \<longrightarrow>
          deploymentFrequency m = 0 \<and> leadTime m = 0 \<and> DoraMetrics.cfr m = 0)"
proof -
  obtain m avg where m: "calculateDoraMetrics f od t now = Inr m"
    and avg: "(if isNonEmpty (dora_summary_daily f)
          then Inr (summaryAverages (orEmpty (dora_summary_daily f)))
          else rawAverages f now) = Inr avg"
    and fields: "deploymentFrequency m = avgDeploymentFreq avg" "leadTime m = avgLeadTime avg"
      "DoraMetrics.cfr m = avgCFR avg" "mttr m = avgMTTR avg"
    using calculateDoraMetrics_result [of f od t now] by blast
  have valid: "deploymentFrequency m
            = sum_list (map deploys (filter (\<lambda>d. 0 < deploys d) rows))
                / of_nat (length (filter (\<lambda>d. 0 < deploys d) rows))
          \<and> leadTime m
            = sum_list (map avg_lt_hours (filter (\<lambda>d. 0 < deploys d) rows))
                / of_nat (length (filter (\<lambda>d. 0 < deploys d) rows))
          \<and> DoraMetrics.cfr m
            = sum_list (map DailyRollup.cfr (filter (\<lambda>d. 0 < deploys d) rows))
                / of_nat (length (filter (\<lambda>d. 0 < deploys d) rows)) * 100
          \<and> mttr m = sum_list (map (\<lambda>d. mttr_min d / 60) rows)
          \<and> ((\<forall>d\<in>set rows. mttr_min d = v) \<longrightarrow> mttr m = of_nat (length rows) * (v / 60))"
    if rows: "dora_summary_daily f = Some rows" and ex: "\<exists>d\<in>set rows. 0 < deploys d"
  proof -
    have ne: "rows \<noteq> []" using ex by auto
    have a: "avg = summaryAverages rows"
      using avg ne by (simp add: rows isNonEmpty_def orEmpty_simps)
    have mt: "mttr m = sum_list (map (\<lambda>d. mttr_min d / 60) rows)"
      using ex by (simp add: fields a summaryAverages_sums)
    have "mttr m = of_nat (length rows) * (v / 60)" if "\<forall>d\<in>set rows. mttr_min d = v"
      unfolding mt using that by (intro sum_list_const) simp
    then show ?thesis
      using ex mt by (simp add: fields a summaryAverages_sums)
  qed
  have idle: "deploymentFrequency m = 0 \<and> leadTime m = 0 \<and> DoraMetrics.cfr m = 0"
    if rows: "dora_summary_daily f = Some rows" and ne: "rows \<noteq> []"
      and no: "\<not> (\<exists>d\<in>set rows. 0 < deploys d)"
  proof -
    have a: "avg = summaryAverages rows"
      using avg ne by (simp add: rows isNonEmpty_def orEmpty_simps)
    show ?thesis
      using no by (simp add: fields a summaryAverages_sums)
  qed
  show ?thesis
    using m valid idle by blast
qed

theorem rollup_aggregates_witness:
  "(\<exists>m. calculateDoraMetrics (filterDataByDays scenarioA None 0) scenarioA None 0 = Inr m
      \<and> deploymentFrequency m = 3 \<and> leadTime m = 3 \<and> DoraMetrics.cfr m = 25 \<and> mttr m = 1)
   \<and> (\<exists>m. calculateDoraMetrics (filterDataByDays uniformStore None 0) uniformStore None 0 = Inr m
      \<and> deploymentFrequency m = 3 / 2 \<and> leadTime m = 9 / 2 \<and> DoraMetrics.cfr m = 50
      \<and> mttr m = 3 * (30 / 60))
   \<and> (\<exists>m. calculateDoraMetrics (filterDataByDays idleStore None 0) idleStore None 0 = Inr m
      \<and> deploymentFrequency m = 0 \<and> leadTime m = 0 \<and> DoraMetrics.cfr m = 0)"
proof -
  have rowsA: "dora_summary_daily (filterDataByDays scenarioA None 0)
      = Some [rollupRow (2 * msPerDay) 4 0 2 0, rollupRow (1 * msPerDay) 2 (1 / 2) 4 60]"
    by (simp add: filterDataByDays_None scenarioA_def emptyStore_def orEmpty_simps)
  have rowsU: "dora_summary_daily (filterDataByDays uniformStore None 0)
      = Some [rollupRow (1 * msPerDay) 1 1 3 30, rollupRow (2 * msPerDay) 0 0 0 30,
              rollupRow (3 * msPerDay) 2 0 6 30]"
    by (simp add: filterDataByDays_None uniformStore_def emptyStore_def orEmpty_simps)
  have rowsI: "dora_summary_daily (filterDataByDays idleStore None 0) = Some [rollupRow 0 0 0 0 60]"
    by (simp add: filterDataByDays_None idleStore_def emptyStore_def orEmpty_simps)
  have A: "\<exists>m. calculateDoraMetrics (filterDataByDays scenarioA None 0) scenarioA None 0 = Inr m
      \<and> deploymentFrequency m = 3 \<and> leadTime m = 3 \<and> DoraMetrics.cfr m = 25 \<and> mttr m = 1"
    using rollup_aggregates [of "filterDataByDays scenarioA None 0" scenarioA None 0
        "[rollupRow (2 * msPerDay) 4 0 2 0, rollupRow (1 * msPerDay) 2 (1 / 2) 4 60]" 0]
    by (elim exE conjE) (auto simp: rowsA rollupRow_def)
  have U: "\<exists>m. calculateDoraMetrics (filterDataByDays uniformStore None 0) uniformStore None 0 = Inr m
      \<and> deploymentFrequency m = 3 / 2 \<and> leadTime m = 9 / 2 \<and> DoraMetrics.cfr m = 50
      \<and> mttr m = 3 * (30 / 60)"
    using rollup_aggregates [of "filterDataByDays uniformStore None 0" uniformStore None 0
        "[rollupRow (1 * msPerDay) 1 1 3 30, rollupRow (2 * msPerDay) 0 0 0 30,
          rollupRow (3 * msPerDay) 2 0 6 30]" 30]
    by (elim exE conjE) (auto simp: rowsU rollupRow_def)
  have I: "\<exists>m. calculateDoraMetrics (filterDataByDays idleStore None 0) idleStore None 0 = Inr m
      \<and> deploymentFrequency m = 0 \<and> leadTime m = 0 \<and> DoraMetrics.cfr m = 0"
    using rollup_aggregates [of "filterDataByDays idleStore None 0" idleStore None 0
        "[rollupRow 0 0 0 0 60]" 60]
    by (elim exE conjE) (auto simp: rowsI rollupRow_def)
  show ?thesis using A U I by blast
qed

text \<open>
  The claim as stated fails for a sequence without a deploy day: the sum is assigned
  under the guard \<open>validData.length > 0\<close>, so one row with \<open>deploys = 0\<close> and
  \<open>mttr_min = 60\<close> gives a recovery time of 0, not 1 * 60 / 60.
\<close>

theorem rollup_mttr_counterexample:
  "dora_summary_daily (filterDataByDays idleStore None 0) = Some [rollupRow 0 0 0 0 60]
   \<and> mttr_min (rollupRow 0 0 0 0 60) = 60
   \<and> map_sum id mttr (calculateDoraMetrics (filterDataByDays idleStore None 0) idleStore None 0)
       = Inr 0"
proof -
  have rows: "dora_summary_daily (filterDataByDays idleStore None 0) = Some [rollupRow 0 0 0 0 60]"
    by (simp add: filterDataByDays_None idleStore_def emptyStore_def orEmpty_simps)
  obtain m avg where m: "calculateDoraMetrics (filterDataByDays idleStore None 0) idleStore None 0
      = Inr m"
    and avg: "(if isNonEmpty (dora_summary_daily (filterDataByDays idleStore None 0))
          then Inr (summaryAverages (orEmpty (dora_summary_daily (filterDataByDays idleStore None 0))))
          else rawAverages (filterDataByDays idleStore None 0) 0) = Inr avg"
    and mt: "mttr m = avgMTTR avg"
    using calculateDoraMetrics_result [of "filterDataByDays idleStore None 0" idleStore None 0]
    by blast
  have "avg = summaryAverages [rollupRow 0 0 0 0 60]"
    using avg by (simp add: rows isNonEmpty_def orEmpty_simps)
  then have "mttr m = 0"
    by (simp add: mt summaryAverages_def rollupRow_def)
  then show ?thesis
    by (simp add: rows m rollupRow_def)
qed

section \<open>Totality and the empty store\<close>

lemma rawAverages_empty:
  assumes "fact_deployment f = []" "\<not> isNonEmpty (fact_incident f)" "\<not> isNonEmpty (dora_events f)"
  shows "rawAverages f now = Inr \<lparr> avgDeploymentFreq = 0, avgLeadTime = 0, avgCFR = 0, avgMTTR = 0 \<rparr>"
  using assms by (simp add: rawAverages_def Let_def bindE_def)

lemma periods_empty:
  assumes "\<not> isNonEmpty s"
  shows "recentPeriod s = []" "previousPeriod s = []"
  using assms
  by (cases s; simp add: recentPeriod_def previousPeriod_def isNonEmpty_def orEmpty_def)+

lemma getTrend_Nil: "getTrend [] ys = 0" "getTrend xs [] = 0"
  by (simp_all add: getTrend_def)

lemma orNum_length_empty: "\<not> isNonEmpty xs \<Longrightarrow> orNum (map_option length xs) d = d"
  by (cases xs) (simp_all add: orNum_def isNonEmpty_def)

lemma orNum_count_empty: "\<not> isNonEmpty xs \<Longrightarrow> orNum (map_option (\<lambda>ys. length (filter P ys)) xs) d = d"
  by (cases xs) (simp_all add: orNum_def isNonEmpty_def)

text \<open>
  On every view and store of the declared types \<open>calculateDoraMetrics\<close> returns a
  snapshot: none of its array reads is out of range. With no deployment in the view the
  counts, the success rate and the lead-time values are 0; with no deployment in the
  store the three look-back counts are 0 and the text is \<open>0 deployments in last week\<close>;
  with neither the status is \<open>good\<close>. The other values are derived from the rollups,
  incidents, events and pull requests of the view and are 0 when those are empty or
  absent as well.
\<close>

lemma calculateDoraMetrics_typed_total:
  "\<exists>m. calculateDoraMetrics f od t now = Inr m
     \<and> (fact_deployment f = [] \<longrightarrow>
          totalDeployments m = 0 \<and> successfulDeployments m = 0 \<and> failedDeployments m = 0
          \<and> successRate m = 0 \<and> minLeadTime m = 0 \<and> maxLeadTime m = 0
          \<and> lastDeploymentLeadTime m = 0)
     \<and> (fact_deployment od = [] \<longrightarrow>
          deploymentsYesterday m = 0 \<and> deploymentsLastWeek m = 0 \<and> deploymentsLastMonth m = 0
          \<and> deploymentFrequencyTrendText m = ''0 deployments in last week'')
     \<and> (fact_deployment f = [] \<and> fact_deployment od = [] \<longrightarrow> cfrTrendStatus m = good)
     \<and> (fact_deployment f = [] \<and> \<not> isNonEmpty (dora_summary_daily f)
          \<and> \<not> isNonEmpty (fact_incident f) \<and> \<not> isNonEmpty (dora_events f)
          \<and> \<not> isNonEmpty (fact_pr f) \<longrightarrow>
          deploymentFrequency m = 0 \<and> deploymentFrequencyTrend m = 0
          \<and> leadTime m = 0 \<and> leadTimeTrend m = 0
          \<and> DoraMetrics.cfr m = 0 \<and> cfrTrend m = 0
          \<and> mttr m = 0 \<and> mttrTrend m = 0
          \<and> maxMTTR m = 0 \<and> minMTTR m = 0 \<and> lastIncidentMTTR m = 0
          \<and> totalIncidents m = 0 \<and> totalPRs m = 0)"
proof -
  from calculateDoraMetrics_result [of f od t now]
  obtain m avg where m: "calculateDoraMetrics f od t now = Inr m"
    and avg: "(if isNonEmpty (dora_summary_daily f)
          then Inr (summaryAverages (orEmpty (dora_summary_daily f)))
          else rawAverages f now) = Inr avg"
    and av: "deploymentFrequency m = avgDeploymentFreq avg" "leadTime m = avgLeadTime avg"
      "DoraMetrics.cfr m = avgCFR avg" "mttr m = avgMTTR avg"
    and tr: "deploymentFrequencyTrend m = getTrend
           (map deploys (recentPeriod (dora_summary_daily f)))
           (map deploys (previousPeriod (dora_summary_daily f)))"
      "leadTimeTrend m = getTrend
           (map avg_lt_hours (recentPeriod (dora_summary_daily f)))
           (map avg_lt_hours (previousPeriod (dora_summary_daily f)))"
      "cfrTrend m = getTrend
           (map DailyRollup.cfr (recentPeriod (dora_summary_daily f)))
           (map DailyRollup.cfr (previousPeriod (dora_summary_daily f)))"
      "mttrTrend m = getTrend
           (map (\<lambda>d. mttr_min d / 60) (recentPeriod (dora_summary_daily f)))
           (map (\<lambda>d. mttr_min d / 60) (previousPeriod (dora_summary_daily f)))"
    and fx: "deploymentFrequencyTrendText m = calculateDeploymentTrendText f od now"
      "deploymentsYesterday m = yesterday (calculateDeploymentCounts od now)"
      "deploymentsLastWeek m = lastWeek (calculateDeploymentCounts od now)"
      "deploymentsLastMonth m = lastMonth (calculateDeploymentCounts od now)"
    and lt: "maxLeadTime m =
           (case filter (\<lambda>time. time > 0) (map leadTimeHours (fact_deployment f)) of
              [] \<Rightarrow> 0 | t # ts \<Rightarrow> foldl max t ts)"
      "minLeadTime m =
           (case filter (\<lambda>time. time > 0) (map leadTimeHours (fact_deployment f)) of
              [] \<Rightarrow> 0 | t # ts \<Rightarrow> foldl min t ts)"
      "lastDeploymentLeadTime m =
           (case jsSort (\<lambda>a b. created_at_utc b - created_at_utc a) (fact_deployment f) of
              [] \<Rightarrow> 0 | d # _ \<Rightarrow> leadTimeHours d)"
    and ins: "(maxMTTR m, minMTTR m, lastIncidentMTTR m) =
           (case map (\<lambda>i. duration_minutes i / 60) (orEmpty (fact_incident f)) of
              [] \<Rightarrow> (0, 0, 0)
            | t # ts \<Rightarrow> (foldl max t ts, foldl min t ts,
                (case jsSort (\<lambda>a b. created_utc b - created_utc a) (orEmpty (fact_incident f)) of
                   [] \<Rightarrow> 0 | i # _ \<Rightarrow> duration_minutes i / 60)))"
    and st: "cfrTrendStatus m = calculateCFRTrendStatus f od t now"
    and cnt: "totalDeployments m = length (fact_deployment f)"
      "successfulDeployments m = length (filter isSuccessful (fact_deployment f))"
      "failedDeployments m = length (filter isFailed (fact_deployment f))"
      "successRate m =
           (if length (fact_deployment f) > 0
            then (of_nat (length (filter isSuccessful (fact_deployment f)))
                    / of_nat (length (fact_deployment f))) * 100
            else 0)"
    and tot: "totalIncidents m =
           orNum (map_option length (fact_incident f))
             (orNum (map_option
                (\<lambda>events. length (filter (\<lambda>event. event_type event = ''incident'') events))
                (dora_events f)) 0)"
      "totalPRs m = orNum (map_option length (fact_pr f)) 0"
    by blast
  have view: "totalDeployments m = 0 \<and> successfulDeployments m = 0 \<and> failedDeployments m = 0
          \<and> successRate m = 0 \<and> minLeadTime m = 0 \<and> maxLeadTime m = 0
          \<and> lastDeploymentLeadTime m = 0" if "fact_deployment f = []"
    using that by (simp add: cnt lt jsSort_def)
  have store: "deploymentsYesterday m = 0 \<and> deploymentsLastWeek m = 0 \<and> deploymentsLastMonth m = 0
          \<and> deploymentFrequencyTrendText m = ''0 deployments in last week''"
    if "fact_deployment od = []"
    using that by (simp add: fx calculateDeploymentCounts_def calculateDeploymentTrendText_def)
  have status: "cfrTrendStatus m = good" if "fact_deployment f = []" "fact_deployment od = []"
    using that by (cases t) (simp_all add: st calculateCFRTrendStatus_def)
  have rest: "deploymentFrequency m = 0 \<and> deploymentFrequencyTrend m = 0
          \<and> leadTime m = 0 \<and> leadTimeTrend m = 0
          \<and> DoraMetrics.cfr m = 0 \<and> cfrTrend m = 0
          \<and> mttr m = 0 \<and> mttrTrend m = 0
          \<and> maxMTTR m = 0 \<and> minMTTR m = 0 \<and> lastIncidentMTTR m = 0
          \<and> totalIncidents m = 0 \<and> totalPRs m = 0"
    if e: "fact_deployment f = []" "\<not> isNonEmpty (dora_summary_daily f)"
      "\<not> isNonEmpty (fact_incident f)" "\<not> isNonEmpty (dora_events f)"
      "\<not> isNonEmpty (fact_pr f)"
  proof -
    have a: "avg = \<lparr> avgDeploymentFreq = 0, avgLeadTime = 0, avgCFR = 0, avgMTTR = 0 \<rparr>"
      using avg e by (simp add: rawAverages_empty)
    have i: "orEmpty (fact_incident f) = []"
      using e(3) by (cases "fact_incident f") (simp_all add: isNonEmpty_def orEmpty_def)
    have "maxMTTR m = 0 \<and> minMTTR m = 0 \<and> lastIncidentMTTR m = 0"
      using ins by (simp add: i)
    then show ?thesis
      using e by (simp add: av a tr periods_empty getTrend_Nil tot orNum_length_empty
          orNum_count_empty)
  qed
  show ?thesis
    using m view store status rest by blast
qed

lemma emptyStore_fields:
  "fact_deployment emptyStore = []" "\<not> isNonEmpty (dora_summary_daily emptyStore)"
  "\<not> isNonEmpty (fact_incident emptyStore)" "\<not> isNonEmpty (dora_events emptyStore)"
  "\<not> isNonEmpty (fact_pr emptyStore)"
  by (simp_all add: emptyStore_def isNonEmpty_def)

lemma emptyView_fields:
  "fact_deployment (filterDataByDays emptyStore w now) = []"
  "\<not> isNonEmpty (dora_summary_daily (filterDataByDays emptyStore w now))"
  "\<not> isNonEmpty (fact_incident (filterDataByDays emptyStore w now))"
  "\<not> isNonEmpty (dora_events (filterDataByDays emptyStore w now))"
  "\<not> isNonEmpty (fact_pr (filterDataByDays emptyStore w now))"
  by (cases w; simp add: filterDataByDays_None filterDataByDays_Some emptyStore_def isNonEmpty_def
      orEmpty_simps)+

lemma typed_untyped [simp]: "typed (untyped d) = d"
  by (simp add: typed_def untyped_def orEmpty_simps)

lemma typed_fields:
  "fact_deployment (typed j) = orEmpty (json_fact_deployment j)"
  "fact_pr (typed j) = json_fact_pr j"
  "fact_incident (typed j) = json_fact_incident j"
  "dora_events (typed j) = json_dora_events j"
  "dora_summary_daily (typed j) = json_dora_summary_daily j"
  by (simp_all add: typed_def)

lemma calculateDoraMetrics_js_typed:
  assumes "json_fact_deployment jf = Some ds" "json_fact_deployment jo = Some os"
    "length (filter (\<lambda>time. 0 < time) (map leadTimeHours ds)) \<le> argLimit"
    "length (orEmpty (json_fact_incident jf)) \<le> argLimit"
  shows "calculateDoraMetrics_js argLimit jf jo t now = calculateDoraMetrics (typed jf) (typed jo) t now"
  using assms by (simp add: calculateDoraMetrics_js_def not_less [symmetric])

text \<open>What raises: a missing \<open>fact_deployment\<close>, in the store or in the view, and an
  array of positive lead times or of incidents beyond the argument limit.\<close>

lemma calculateDoraMetrics_js_raises:
  "json_fact_deployment jo = None \<Longrightarrow> calculateDoraMetrics_js argLimit jf jo t now = Inl TypeError"
  "json_fact_deployment jf = None \<Longrightarrow> calculateDoraMetrics_js argLimit jf jo t now = Inl TypeError"
  "json_fact_deployment jf = Some ds \<Longrightarrow> json_fact_deployment jo = Some os \<Longrightarrow>
     argLimit < length (filter (\<lambda>time. 0 < time) (map leadTimeHours ds))
       \<or> argLimit < length (orEmpty (json_fact_incident jf)) \<Longrightarrow>
     calculateDoraMetrics_js argLimit jf jo t now = Inl RangeError"
  by (auto simp: calculateDoraMetrics_js_def split: option.splits)

text \<open>
  Claim C4, as the code has it. When \<open>fact_deployment\<close> is present in the view and in the
  store (the other four collections present, empty or absent) and neither the positive
  lead times nor the incidents of the view exceed the argument limit of the engine,
  \<open>calculateDoraMetrics\<close> returns a snapshot and raises nothing. With no deployment in the
  view the counts, the success rate and the lead-time values are 0; with no deployment
  in the store the three look-back counts are 0 and the text is
  \<open>0 deployments in last week\<close>; with neither the status is \<open>good\<close>. The other values are
  derived from the rollups, incidents, events and pull requests of the view and are 0
  when those are empty or absent as well.
\<close>

theorem calculateDoraMetrics_js_total:
  "json_fact_deployment jf = Some ds \<and> json_fact_deployment jo = Some os
   \<and> length (filter (\<lambda>time. 0 < time) (map leadTimeHours ds)) \<le> argLimit
   \<and> length (orEmpty (json_fact_incident jf)) \<le> argLimit \<longrightarrow>
   (\<exists>m. calculateDoraMetrics_js argLimit jf jo t now = Inr m
     \<and> (ds = [] \<longrightarrow>
          totalDeployments m = 0 \<and> successfulDeployments m = 0 \<and> failedDeployments m = 0
          \<and> successRate m = 0 \<and> minLeadTime m = 0 \<and> maxLeadTime m = 0
          \<and> lastDeploymentLeadTime m = 0)
     \<and> (os = [] \<longrightarrow>
          deploymentsYesterday m = 0 \<and> deploymentsLastWeek m = 0 \<and> deploymentsLastMonth m = 0
          \<and> deploymentFrequencyTrendText m = ''0 deployments in last week'')
     \<and> (ds = [] \<and> os = [] \<longrightarrow> cfrTrendStatus m = good)
     \<and> (ds = [] \<and> \<not> isNonEmpty (json_dora_summary_daily jf)
          \<and> \<not> isNonEmpty (json_fact_incident jf) \<and> \<not> isNonEmpty (json_dora_events jf)
          \<and> \<not> isNonEmpty (json_fact_pr jf) \<longrightarrow>
          deploymentFrequency m = 0 \<and> deploymentFrequencyTrend m = 0
          \<and> leadTime m = 0 \<and> leadTimeTrend m = 0
          \<and> DoraMetrics.cfr m = 0 \<and> cfrTrend m = 0
          \<and> mttr m = 0 \<and> mttrTrend m = 0
          \<and> maxMTTR m = 0 \<and> minMTTR m = 0 \<and> lastIncidentMTTR m = 0
          \<and> totalIncidents m = 0 \<and> totalPRs m = 0))"
proof (intro impI, elim conjE)
  assume p: "json_fact_deployment jf = Some ds" "json_fact_deployment jo = Some os"
    "length (filter (\<lambda>time. 0 < time) (map leadTimeHours ds)) \<le> argLimit"
    "length (orEmpty (json_fact_incident jf)) \<le> argLimit"
  have js: "calculateDoraMetrics_js argLimit jf jo t now
      = calculateDoraMetrics (typed jf) (typed jo) t now"
    by (rule calculateDoraMetrics_js_typed [OF p])
  have f: "orEmpty (json_fact_deployment jf) = ds" "orEmpty (json_fact_deployment jo) = os"
    by (simp_all add: p orEmpty_simps)
  from calculateDoraMetrics_typed_total [of "typed jf" "typed jo" t now]
  show "\<exists>m. calculateDoraMetrics_js argLimit jf jo t now = Inr m
     \<and> (ds = [] \<longrightarrow>
          totalDeployments m = 0 \<and> successfulDeployments m = 0 \<and> failedDeployments m = 0
          \<and> successRate m = 0 \<and> minLeadTime m = 0 \<and> maxLeadTime m = 0
          \<and> lastDeploymentLeadTime m = 0)
     \<and> (os = [] \<longrightarrow>
          deploymentsYesterday m = 0 \<and> deploymentsLastWeek m = 0 \<and> deploymentsLastMonth m = 0
          \<and> deploymentFrequencyTrendText m = ''0 deployments in last week'')
     \<and> (ds = [] \<and> os = [] \<longrightarrow> cfrTrendStatus m = good)
     \<and> (ds = [] \<and> \<not> isNonEmpty (json_dora_summary_daily jf)
          \<and> \<not> isNonEmpty (json_fact_incident jf) \<and> \<not> isNonEmpty (json_dora_events jf)
          \<and> \<not> isNonEmpty (json_fact_pr jf) \<longrightarrow>
          deploymentFrequency m = 0 \<and> deploymentFrequencyTrend m = 0
          \<and> leadTime m = 0 \<and> leadTimeTrend m = 0
          \<and> DoraMetrics.cfr m = 0 \<and> cfrTrend m = 0
          \<and> mttr m = 0 \<and> mttrTrend m = 0
          \<and> maxMTTR m = 0 \<and> minMTTR m = 0 \<and> lastIncidentMTTR m = 0
          \<and> totalIncidents m = 0 \<and> totalPRs m = 0)"
    unfolding js typed_fields f .
qed

theorem calculateDoraMetrics_js_total_witness:
  "(\<exists>m. calculateDoraMetrics_js 125000 (untyped emptyStore) (untyped emptyStore) (Some 30) 0 = Inr m
      \<and> totalDeployments m = 0 \<and> successfulDeployments m = 0 \<and> failedDeployments m = 0
      \<and> successRate m = 0 \<and> minLeadTime m = 0 \<and> maxLeadTime m = 0
      \<and> lastDeploymentLeadTime m = 0
      \<and> deploymentsYesterday m = 0 \<and> deploymentsLastWeek m = 0 \<and> deploymentsLastMonth m = 0
      \<and> deploymentFrequencyTrendText m = ''0 deployments in last week''
      \<and> cfrTrendStatus m = good
      \<and> deploymentFrequency m = 0 \<and> leadTime m = 0 \<and> DoraMetrics.cfr m = 0 \<and> mttr m = 0
      \<and> totalIncidents m = 0 \<and> totalPRs m = 0)
   \<and> (\<exists>m. calculateDoraMetrics_js 125000 (untyped (filterDataByDays emptyStore None 0))
          (untyped emptyStore) None 0 = Inr m
      \<and> totalDeployments m = 0 \<and> successRate m = 0 \<and> cfrTrendStatus m = good
      \<and> deploymentFrequency m = 0 \<and> leadTime m = 0 \<and> DoraMetrics.cfr m = 0 \<and> mttr m = 0
      \<and> totalIncidents m = 0 \<and> totalPRs m = 0)"
proof -
  have e: "json_fact_deployment (untyped emptyStore) = Some []"
    "\<not> isNonEmpty (json_dora_summary_daily (untyped emptyStore))"
    "\<not> isNonEmpty (json_fact_incident (untyped emptyStore))"
    "\<not> isNonEmpty (json_dora_events (untyped emptyStore))"
    "\<not> isNonEmpty (json_fact_pr (untyped emptyStore))"
    "length (orEmpty (json_fact_incident (untyped emptyStore))) \<le> 125000"
    using emptyStore_fields by (simp_all add: untyped_def emptyStore_def orEmpty_simps)
  have v: "json_fact_deployment (untyped (filterDataByDays emptyStore None 0)) = Some []"
    "\<not> isNonEmpty (json_dora_summary_daily (untyped (filterDataByDays emptyStore None 0)))"
    "\<not> isNonEmpty (json_fact_incident (untyped (filterDataByDays emptyStore None 0)))"
    "\<not> isNonEmpty (json_dora_events (untyped (filterDataByDays emptyStore None 0)))"
    "\<not> isNonEmpty (json_fact_pr (untyped (filterDataByDays emptyStore None 0)))"
    "length (orEmpty (json_fact_incident (untyped (filterDataByDays emptyStore None 0)))) \<le> 125000"
    using emptyView_fields [of None 0]
    by (simp_all add: untyped_def filterDataByDays_None emptyStore_def orEmpty_simps)
  have l: "length (filter (\<lambda>time. 0 < time) (map leadTimeHours [])) \<le> (125000 :: nat)" by simp
  have A: "\<exists>m. calculateDoraMetrics_js 125000 (untyped emptyStore) (untyped emptyStore) (Some 30) 0 = Inr m
      \<and> totalDeployments m = 0 \<and> successfulDeployments m = 0 \<and> failedDeployments m = 0
      \<and> successRate m = 0 \<and> minLeadTime m = 0 \<and> maxLeadTime m = 0
      \<and> lastDeploymentLeadTime m = 0
      \<and> deploymentsYesterday m = 0 \<and> deploymentsLastWeek m = 0 \<and> deploymentsLastMonth m = 0
      \<and> deploymentFrequencyTrendText m = ''0 deployments in last week''
      \<and> cfrTrendStatus m = good
      \<and> deploymentFrequency m = 0 \<and> leadTime m = 0 \<and> DoraMetrics.cfr m = 0 \<and> mttr m = 0
      \<and> totalIncidents m = 0 \<and> totalPRs m = 0"
    using calculateDoraMetrics_js_total [where jf = "untyped emptyStore" and jo = "untyped emptyStore"
        and ds = "[]" and os = "[]" and argLimit = 125000 and t = "Some 30" and now = 0] e l
    by (elim impE exE conjE) auto
  have B: "\<exists>m. calculateDoraMetrics_js 125000 (untyped (filterDataByDays emptyStore None 0))
          (untyped emptyStore) None 0 = Inr m
      \<and> totalDeployments m = 0 \<and> successRate m = 0 \<and> cfrTrendStatus m = good
      \<and> deploymentFrequency m = 0 \<and> leadTime m = 0 \<and> DoraMetrics.cfr m = 0 \<and> mttr m = 0
      \<and> totalIncidents m = 0 \<and> totalPRs m = 0"
    using calculateDoraMetrics_js_total [where jf = "untyped (filterDataByDays emptyStore None 0)"
        and jo = "untyped emptyStore" and ds = "[]" and os = "[]" and argLimit = 125000
        and t = None and now = 0] e(1) v l
    by (elim impE exE conjE) auto
  show ?thesis using A B by blast
qed

text \<open>
  The claim as stated fails three ways. A store without deployments but with one
  incident of 120 minutes and one merged pull request has a recovery time of 2 hours,
  one incident and one pull request in its snapshot. A store in which every collection
  is absent raises \<open>TypeError\<close>. A store of 200000 deployments with a positive lead time
  raises \<open>RangeError\<close> on an engine that accepts 125000 arguments.
\<close>

theorem calculateDoraMetrics_total_counterexample:
  "json_fact_deployment (untyped incidentOnlyStore) = Some []
   \<and> json_fact_deployment (untyped (filterDataByDays incidentOnlyStore None 0)) = Some []
   \<and> map_sum id mttr
        (calculateDoraMetrics_js 125000 (untyped (filterDataByDays incidentOnlyStore None 0))
           (untyped incidentOnlyStore) None 0)
       = Inr 2
   \<and> map_sum id maxMTTR
        (calculateDoraMetrics_js 125000 (untyped (filterDataByDays incidentOnlyStore None 0))
           (untyped incidentOnlyStore) None 0)
       = Inr 2
   \<and> map_sum id totalIncidents
        (calculateDoraMetrics_js 125000 (untyped (filterDataByDays incidentOnlyStore None 0))
           (untyped incidentOnlyStore) None 0)
       = Inr 1
   \<and> map_sum id totalPRs
        (calculateDoraMetrics_js 125000 (untyped (filterDataByDays incidentOnlyStore None 0))
           (untyped incidentOnlyStore) None 0)
       = Inr 1
   \<and> calculateDoraMetrics_js 125000 absentData absentData None 0 = Inl TypeError
   \<and> calculateDoraMetrics_js 125000 (untyped (filterDataByDays incidentOnlyStore None 0))
        absentData None 0 = Inl TypeError
   \<and> calculateDoraMetrics_js 125000 (untyped (filterDataByDays bigStore None 0))
        (untyped bigStore) None 0 = Inl RangeError"
proof -
  define V where "V = filterDataByDays incidentOnlyStore None 0"
  have V: "fact_deployment V = []" "fact_pr V = Some [prAt 0]"
    "fact_incident V = Some [incidentAt 0 120]" "dora_events V = Some []"
    "dora_summary_daily V = Some []"
    by (simp_all add: V_def filterDataByDays_None incidentOnlyStore_def emptyStore_def orEmpty_simps)
  have 0: "fact_deployment incidentOnlyStore = []"
    by (simp add: incidentOnlyStore_def emptyStore_def)
  have "calculateDoraMetrics_js 125000 (untyped V) (untyped incidentOnlyStore) None 0
      = calculateDoraMetrics (typed (untyped V)) (typed (untyped incidentOnlyStore)) None 0"
    by (rule calculateDoraMetrics_js_typed [where ds = "[]" and os = "[]"])
       (simp_all add: untyped_def V 0 orEmpty_simps)
  then have js: "calculateDoraMetrics_js 125000 (untyped V) (untyped incidentOnlyStore) None 0
      = calculateDoraMetrics V incidentOnlyStore None 0"
    by simp
  from calculateDoraMetrics_result [of V incidentOnlyStore None 0]
  obtain m avg where m: "calculateDoraMetrics V incidentOnlyStore None 0 = Inr m"
    and avg: "(if isNonEmpty (dora_summary_daily V)
          then Inr (summaryAverages (orEmpty (dora_summary_daily V)))
          else rawAverages V 0) = Inr avg"
    and mt: "mttr m = avgMTTR avg"
    and ins: "(maxMTTR m, minMTTR m, lastIncidentMTTR m) =
           (case map (\<lambda>i. duration_minutes i / 60) (orEmpty (fact_incident V)) of
              [] \<Rightarrow> (0, 0, 0)
            | t # ts \<Rightarrow> (foldl max t ts, foldl min t ts,
                (case jsSort (\<lambda>a b. created_utc b - created_utc a) (orEmpty (fact_incident V)) of
                   [] \<Rightarrow> 0 | i # _ \<Rightarrow> duration_minutes i / 60)))"
    and tot: "totalIncidents m =
           orNum (map_option length (fact_incident V))
             (orNum (map_option
                (\<lambda>events. length (filter (\<lambda>event. event_type event = ''incident'') events))
                (dora_events V)) 0)"
      "totalPRs m = orNum (map_option length (fact_pr V)) 0"
    by blast
  have "avgMTTR avg = 2"
    using avg by (auto simp: V isNonEmpty_def rawAverages_def Let_def bindE_def orEmpty_simps
        incidentAt_def)
  then have 1: "mttr m = 2" by (simp add: mt)
  have 2: "maxMTTR m = 2"
    using ins by (simp add: V orEmpty_simps incidentAt_def)
  have 3: "totalIncidents m = 1" "totalPRs m = 1"
    by (simp_all add: tot V orNum_def)
  have 4: "calculateDoraMetrics_js 125000 absentData absentData None 0 = Inl TypeError"
    "calculateDoraMetrics_js 125000 (untyped V) absentData None 0 = Inl TypeError"
    by (simp_all add: calculateDoraMetrics_js_def absentData_def)
  have pos: "0 < leadTimeHours (deploymentAt 0 (1 * msPerHour) ''success'')"
    by (simp add: leadTimeHours_def deploymentAt_def msPerHour_def)
  have 5: "calculateDoraMetrics_js 125000 (untyped (filterDataByDays bigStore None 0))
        (untyped bigStore) None 0 = Inl RangeError"
    using pos
    by (simp add: calculateDoraMetrics_js_def untyped_def filterDataByDays_None bigStore_def
        emptyStore_def)
  have d: "json_fact_deployment (untyped incidentOnlyStore) = Some []"
    "json_fact_deployment (untyped V) = Some []"
    by (simp_all add: untyped_def 0 V)
  show ?thesis
    using d 1 2 3 4 5 by (simp add: js [unfolded V_def] m [unfolded V_def] V_def)
qed

section \<open>Trends over the two halves of the rollup sequence\<close>

lemma periods_take_drop:
  "recentPeriod s = take (length (orEmpty s) div 2) (orEmpty s)"
  "previousPeriod s = drop (length (orEmpty s) div 2) (orEmpty s)"
  by (cases s; simp add: recentPeriod_def previousPeriod_def midPoint_def orNum_def orEmpty_def)+

lemma getTrend_formula:
  "getTrend cur prev =
     (if cur = [] \<or> prev = [] \<or> sum_list prev / of_nat (length prev) = 0 then 0
      else (sum_list cur / of_nat (length cur) - sum_list prev / of_nat (length prev))
             / (sum_list prev / of_nat (length prev)) * 100)"
  using foldl_add_sum_list [of "\<lambda>d. d" 0]
  by (simp add: getTrend_def Let_def)

lemma sorted_take_le_drop:
  assumes "sorted (map g xs)"
  shows "\<forall>r\<in>set (take k xs). \<forall>p\<in>set (drop k xs). g r \<le> g p"
proof -
  have "sorted (map g (take k xs) @ map g (drop k xs))"
    using assms by (simp flip: map_append)
  then show ?thesis
    by (auto simp: sorted_append)
qed

lemma sorted_rev_take_ge_drop:
  assumes "sorted (rev (map g xs))"
  shows "\<forall>r\<in>set (take k xs). \<forall>p\<in>set (drop k xs). g p \<le> g r"
proof -
  have "rev (map g xs) = rev (map g (drop k xs)) @ rev (map g (take k xs))"
    by (simp flip: rev_append map_append)
  with assms have "sorted (rev (map g (drop k xs)) @ rev (map g (take k xs)))"
    by simp
  then show ?thesis
    by (auto simp: sorted_append)
qed

text \<open>
  The split and the formula: the four trends are \<open>getTrend\<close> of the first \<open>length div 2\<close>
  rows of the view's rollup sequence (\<open>recentPeriod\<close>) against the remaining rows
  (\<open>previousPeriod\<close>), and \<open>getTrend\<close> is (mean of the first - mean of the second) / mean
  of the second * 100, and 0 when either list is empty or the second mean is 0.
\<close>

lemma trend_split_and_formula:
  "\<exists>m. calculateDoraMetrics f od t now = Inr m
     \<and> recentPeriod (dora_summary_daily f)
         = take (length (orEmpty (dora_summary_daily f)) div 2) (orEmpty (dora_summary_daily f))
     \<and> previousPeriod (dora_summary_daily f)
         = drop (length (orEmpty (dora_summary_daily f)) div 2) (orEmpty (dora_summary_daily f))
     \<and> deploymentFrequencyTrend m = getTrend
           (map deploys (recentPeriod (dora_summary_daily f)))
           (map deploys (previousPeriod (dora_summary_daily f)))
     \<and> leadTimeTrend m = getTrend
           (map avg_lt_hours (recentPeriod (dora_summary_daily f)))
           (map avg_lt_hours (previousPeriod (dora_summary_daily f)))
     \<and> cfrTrend m = getTrend
           (map DailyRollup.cfr (recentPeriod (dora_summary_daily f)))
           (map DailyRollup.cfr (previousPeriod (dora_summary_daily f)))
     \<and> mttrTrend m = getTrend
           (map (\<lambda>d. mttr_min d / 60) (recentPeriod (dora_summary_daily f)))
           (map (\<lambda>d. mttr_min d / 60) (previousPeriod (dora_summary_daily f)))
     \<and> getTrend cur prev =
           (if cur = [] \<or> prev = [] \<or> sum_list prev / of_nat (length prev) = 0 then 0
            else (sum_list cur / of_nat (length cur) - sum_list prev / of_nat (length prev))
                   / (sum_list prev / of_nat (length prev)) * 100)"
proof -
  from calculateDoraMetrics_result [of f od t now]
  obtain m where m: "calculateDoraMetrics f od t now = Inr m"
    and tr: "deploymentFrequencyTrend m = getTrend
           (map deploys (recentPeriod (dora_summary_daily f)))
           (map deploys (previousPeriod (dora_summary_daily f)))"
      "leadTimeTrend m = getTrend
           (map avg_lt_hours (recentPeriod (dora_summary_daily f)))
           (map avg_lt_hours (previousPeriod (dora_summary_daily f)))"
      "cfrTrend m = getTrend
           (map DailyRollup.cfr (recentPeriod (dora_summary_daily f)))
           (map DailyRollup.cfr (previousPeriod (dora_summary_daily f)))"
      "mttrTrend m = getTrend
           (map (\<lambda>d. mttr_min d / 60) (recentPeriod (dora_summary_daily f)))
           (map (\<lambda>d. mttr_min d / 60) (previousPeriod (dora_summary_daily f)))"
    by blast
  show ?thesis
    apply (rule exI [of _ m])
    apply (intro conjI m tr periods_take_drop getTrend_formula)
    done
qed

text \<open>
  Which rows each half holds follows from the order of the store, since the view is the
  store's sequence filtered and reversed.
\<close>

lemma recent_rows_newest_first_store:
  assumes "sorted (rev (map date (orEmpty (dora_summary_daily store))))"
  shows "\<forall>r\<in>set (recentPeriod (dora_summary_daily (filterDataByDays store w clock))).
         \<forall>p\<in>set (previousPeriod (dora_summary_daily (filterDataByDays store w clock))).
           date r \<le> date p"
  unfolding periods_take_drop
  by (rule sorted_take_le_drop) (rule view_rollups_newest_first [OF assms])

lemma recent_rows_oldest_first_store:
  assumes "sorted (map date (orEmpty (dora_summary_daily store)))"
  shows "\<forall>r\<in>set (recentPeriod (dora_summary_daily (filterDataByDays store w clock))).
         \<forall>p\<in>set (previousPeriod (dora_summary_daily (filterDataByDays store w clock))).
           date p \<le> date r"
  unfolding periods_take_drop
  by (rule sorted_rev_take_ge_drop) (rule view_rollups_oldest_first [OF assms])

text \<open>
  Claim C6. The claim takes the first half of the filtered sequence to be the half closer
  to now, and the code agrees in its names and its comment (\<open>recentPeriod\<close>, passed as
  \<open>current\<close>; \<open>compare current period to previous\<close>). On a store that lists its rollups
  newest first, the order the filter is documented to reverse, the code computes
  otherwise: of the stored days 4, 3, 2, 1 with 5, 3, 3 and 1 deploys, \<open>recentPeriod\<close> is
  days 1 and 2 and \<open>previousPeriod\<close> is days 3 and 4, so a deploy count that rose from a
  mean of 2 to a mean of 4 is reported with trend -50.
\<close>

theorem recent_period_is_older_half:
  "map date (orEmpty (dora_summary_daily trendStore))
     = [4 * msPerDay, 3 * msPerDay, 2 * msPerDay, 1 * msPerDay]
   \<and> recentPeriod (dora_summary_daily (filterDataByDays trendStore None (5 * msPerDay)))
     = [rollupRow (1 * msPerDay) 1 0 1 0, rollupRow (2 * msPerDay) 3 0 1 0]
   \<and> previousPeriod (dora_summary_daily (filterDataByDays trendStore None (5 * msPerDay)))
     = [rollupRow (3 * msPerDay) 3 0 1 0, rollupRow (4 * msPerDay) 5 0 1 0]
   \<and> map_sum id deploymentFrequencyTrend
        (calculateDoraMetrics (filterDataByDays trendStore None (5 * msPerDay)) trendStore None
           (5 * msPerDay))
     = Inr (- 50)"
proof -
  define V where "V = filterDataByDays trendStore None (5 * msPerDay)"
  have stored: "map date (orEmpty (dora_summary_daily trendStore))
     = [4 * msPerDay, 3 * msPerDay, 2 * msPerDay, 1 * msPerDay]"
    by (simp add: trendStore_def emptyStore_def orEmpty_simps rollupRow_def)
  have rows: "orEmpty (dora_summary_daily V)
      = [rollupRow (1 * msPerDay) 1 0 1 0, rollupRow (2 * msPerDay) 3 0 1 0,
         rollupRow (3 * msPerDay) 3 0 1 0, rollupRow (4 * msPerDay) 5 0 1 0]"
    by (simp add: V_def filterDataByDays_None trendStore_def emptyStore_def orEmpty_simps)
  have rec: "recentPeriod (dora_summary_daily V)
      = [rollupRow (1 * msPerDay) 1 0 1 0, rollupRow (2 * msPerDay) 3 0 1 0]"
    and prev: "previousPeriod (dora_summary_daily V)
      = [rollupRow (3 * msPerDay) 3 0 1 0, rollupRow (4 * msPerDay) 5 0 1 0]"
    by (simp_all add: periods_take_drop rows)
  from calculateDoraMetrics_result [of V trendStore None "5 * msPerDay"]
  obtain m where m: "calculateDoraMetrics V trendStore None (5 * msPerDay) = Inr m"
    and tr: "deploymentFrequencyTrend m = getTrend
           (map deploys (recentPeriod (dora_summary_daily V)))
           (map deploys (previousPeriod (dora_summary_daily V)))"
    by blast
  have "deploymentFrequencyTrend m = - 50"
    by (simp add: tr rec prev rollupRow_def getTrend_def)
  then show ?thesis
    using stored rec prev m by (simp add: V_def)
qed

text \<open>
  The same days stored oldest first reach the engine newest first, and there the first
  half is the one closer to now: the trend is 100.
\<close>

lemma oldest_first_store_trend:
  "map_sum id deploymentFrequencyTrend
        (calculateDoraMetrics (filterDataByDays chronoStore None (5 * msPerDay)) chronoStore None
           (5 * msPerDay))
     = Inr 100"
proof -
  define V where "V = filterDataByDays chronoStore None (5 * msPerDay)"
  have rows: "orEmpty (dora_summary_daily V)
      = [rollupRow (4 * msPerDay) 5 0 1 0, rollupRow (3 * msPerDay) 3 0 1 0,
         rollupRow (2 * msPerDay) 3 0 1 0, rollupRow (1 * msPerDay) 1 0 1 0]"
    by (simp add: V_def filterDataByDays_None chronoStore_def emptyStore_def orEmpty_simps)
  have rec: "recentPeriod (dora_summary_daily V)
      = [rollupRow (4 * msPerDay) 5 0 1 0, rollupRow (3 * msPerDay) 3 0 1 0]"
    and prev: "previousPeriod (dora_summary_daily V)
      = [rollupRow (2 * msPerDay) 3 0 1 0, rollupRow (1 * msPerDay) 1 0 1 0]"
    by (simp_all add: periods_take_drop rows)
  from calculateDoraMetrics_result [of V chronoStore None "5 * msPerDay"]
  obtain m where m: "calculateDoraMetrics V chronoStore None (5 * msPerDay) = Inr m"
    and tr: "deploymentFrequencyTrend m = getTrend
           (map deploys (recentPeriod (dora_summary_daily V)))
           (map deploys (previousPeriod (dora_summary_daily V)))"
    by blast
  have "deploymentFrequencyTrend m = 100"
    by (simp add: tr rec prev rollupRow_def getTrend_def)
  then show ?thesis
    using m by (simp add: V_def)
qed

section \<open>Parsing the repository-summary feed\<close>

lemma split_not_Nil: "split sep s \<noteq> []"
  by (induction s) (auto split: list.splits)

lemma length_parseCSV: "length (parseCSV csvText) = length (split (CHR 0x0A) (trim csvText)) - 1"
  by (cases "split (CHR 0x0A) (trim csvText)")
     (auto simp: parseCSV_def Let_def split_not_Nil)

lemma foldl_setCell_other:
  "k \<notin> (\<lambda>hi. trim (fst hi)) ` set ps \<Longrightarrow> foldl (setCell vs) row ps k = row k"
  by (induction ps arbitrary: row) (auto simp: setCell_def)

lemma foldl_setCell_filter:
  "k \<in> R \<Longrightarrow> row k = row' k \<Longrightarrow>
   foldl (setCell vs) row (filter (\<lambda>hi. trim (fst hi) \<in> R) ps) k = foldl (setCell vs) row' ps k"
proof (induction ps arbitrary: row row')
  case Nil
  then show ?case by simp
next
  case (Cons p ps)
  show ?case
  proof (cases "trim (fst p) \<in> R")
    case True
    have "setCell vs row p k = setCell vs row' p k"
      using Cons.prems(2) by (simp add: setCell_def)
    then show ?thesis
      using True Cons.IH [OF Cons.prems(1)] by simp
  next
    case False
    then have "trim (fst p) \<noteq> k" using Cons.prems(1) by auto
    then have "row k = setCell vs row' p k"
      using Cons.prems(2) by (simp add: setCell_def)
    then show ?thesis
      using False Cons.IH [OF Cons.prems(1)] by simp
  qed
qed

lemma foldl_setCell_lookup:
  "distinct (map (\<lambda>hi. trim (fst hi)) ps) \<Longrightarrow> (h, i) \<in> set ps \<Longrightarrow>
   foldl (setCell vs) row ps (trim h) = Some (orStr (map_option trim (elemAt vs (int i))) [])"
proof (induction ps arbitrary: row)
  case Nil
  then show ?case by simp
next
  case (Cons p ps)
  show ?case
  proof (cases "p = (h, i)")
    case True
    have "trim h \<notin> (\<lambda>hi. trim (fst hi)) ` set ps"
      using Cons.prems(1) True by auto
    then show ?thesis
      using True by (simp add: foldl_setCell_other) (simp add: setCell_def)
  next
    case False
    then have "(h, i) \<in> set ps" using Cons.prems(2) by auto
    moreover have "distinct (map (\<lambda>hi. trim (fst hi)) ps)" using Cons.prems(1) by simp
    ultimately show ?thesis using Cons.IH by simp
  qed
qed

lemma buildRow_absent:
  "k \<notin> set (map trim hs) \<Longrightarrow> buildRow hs vs k = None"
proof -
  assume k: "k \<notin> set (map trim hs)"
  have "(\<lambda>hi. trim (fst hi)) ` set (zip hs [0..<length hs]) \<subseteq> set (map trim hs)"
    by (auto dest: set_zip_leftD)
  with k have "k \<notin> (\<lambda>hi. trim (fst hi)) ` set (zip hs [0..<length hs])" by blast
  then show ?thesis
    by (simp add: buildRow_def foldl_setCell_other)
qed

lemma buildRow_lookup:
  assumes "distinct (map trim hs)" "i < length hs"
  shows "buildRow hs vs (trim (hs ! i)) = Some (orStr (map_option trim (elemAt vs (int i))) [])"
proof -
  have "map (\<lambda>hi. trim (fst hi)) (zip hs [0..<length hs]) = map trim hs"
    by (rule nth_equalityI) simp_all
  then have d: "distinct (map (\<lambda>hi. trim (fst hi)) (zip hs [0..<length hs]))"
    using assms(1) by simp
  have "(hs ! i, i) \<in> set (zip hs [0..<length hs])"
    using assms(2) by (auto simp: set_zip intro!: exI [of _ i])
  from foldl_setCell_lookup [OF d this] show ?thesis
    by (simp add: buildRow_def)
qed

lemma orStr_orStr: "orStr (Some (orStr x [])) d = orStr x d"
  by (simp add: orStr_def split: option.splits)

lemma parseInt_zero: "parseInt ''0'' = Some 0"
  by (simp add: parseInt_def isWhiteSpace_def isDigit_def)

lemma numericFields_cases:
  assumes "(key, sel) \<in> set numericFields"
  shows "sel (rowMetrics row) = parseInt (orStr (row key) ''0'')"
  using assms by (auto simp: numericFields_def rowMetrics_def)

lemma digit_not_space_sign:
  "isDigit c \<Longrightarrow> \<not> isWhiteSpace c \<and> c \<noteq> CHR ''-'' \<and> c \<noteq> CHR ''+''"
  by (auto simp: isDigit_def isWhiteSpace_def)

lemma sign_not_space_digit:
  "\<not> isWhiteSpace (CHR ''-'')" "\<not> isWhiteSpace (CHR ''+'')"
  "\<not> isDigit (CHR ''-'')" "\<not> isDigit (CHR ''+'')"
  by (simp_all add: isDigit_def isWhiteSpace_def)

lemma dropWhile_space:
  assumes "list_all isWhiteSpace ws" "t = [] \<or> \<not> isWhiteSpace (hd t)"
  shows "dropWhile isWhiteSpace (ws @ t) = t"
proof -
  have "dropWhile isWhiteSpace (ws @ t) = dropWhile isWhiteSpace t"
    using assms(1) by (simp add: list_all_iff dropWhile_append2)
  also have "\<dots> = t" using assms(2) by (cases t) auto
  finally show ?thesis .
qed

lemma takeWhile_digits:
  assumes "list_all isDigit ds" "rest = [] \<or> \<not> isDigit (hd rest)"
  shows "takeWhile isDigit (ds @ rest) = ds"
proof (cases rest)
  case Nil
  then show ?thesis using assms(1) by (simp add: list_all_iff)
next
  case (Cons r rs)
  then have "\<not> isDigit r" using assms(2) by simp
  then show ?thesis using assms(1) Cons by (simp add: list_all_iff takeWhile_append2)
qed

lemma parseInt_number:
  assumes ws: "list_all isWhiteSpace ws"
    and sg: "sg = [] \<or> sg = ''-'' \<or> sg = ''+''"
    and ds: "ds \<noteq> []" "list_all isDigit ds"
    and rest: "rest = [] \<or> \<not> isDigit (hd rest)"
  shows "parseInt (ws @ sg @ ds @ rest)
           = Some ((if sg = ''-'' then - 1 else 1)
                * int (foldl (\<lambda>n c. 10 * n + (of_char c - 48)) 0 ds))"
proof -
  obtain d ds' where dsc: "ds = d # ds'" using ds(1) by (cases ds) auto
  have d: "isDigit d" using ds(2) dsc by simp
  note nd = digit_not_space_sign [OF d]
  have hd: "sg @ ds @ rest = [] \<or> \<not> isWhiteSpace (hd (sg @ ds @ rest))"
    using sg nd by (auto simp: dsc sign_not_space_digit)
  have dw: "dropWhile isWhiteSpace (ws @ sg @ ds @ rest) = sg @ ds @ rest"
    by (rule dropWhile_space [OF ws hd])
  have tw: "takeWhile isDigit (ds @ rest) = ds" by (rule takeWhile_digits [OF ds(2) rest])
  from sg show ?thesis
  proof (elim disjE)
    assume "sg = []"
    then show ?thesis using dw tw ds(1) nd
      by (simp add: parseInt_def Let_def dsc)
  next
    assume "sg = ''-''"
    then show ?thesis using dw tw ds(1)
      by (simp add: parseInt_def Let_def)
  next
    assume "sg = ''+''"
    then show ?thesis using dw tw ds(1)
      by (simp add: parseInt_def Let_def)
  qed
qed

lemma parseInt_NaN:
  assumes ws: "list_all isWhiteSpace ws"
    and sg: "sg = [] \<or> sg = ''-'' \<or> sg = ''+''"
    and rest: "rest = [] \<or> \<not> isDigit (hd rest)
         \<and> (sg = [] \<longrightarrow> \<not> isWhiteSpace (hd rest) \<and> hd rest \<noteq> CHR ''-'' \<and> hd rest \<noteq> CHR ''+'')"
  shows "parseInt (ws @ sg @ rest) = None"
proof -
  have hd: "sg @ rest = [] \<or> \<not> isWhiteSpace (hd (sg @ rest))"
    using sg rest by (auto simp: sign_not_space_digit)
  have dw: "dropWhile isWhiteSpace (ws @ sg @ rest) = sg @ rest"
    by (rule dropWhile_space [OF ws hd])
  have tw: "takeWhile isDigit rest = []"
    using rest by (cases rest) auto
  show ?thesis
    unfolding parseInt_def Let_def dw
    using sg rest tw by (cases rest) auto
qed

lemma of_char_digit: "k < 10 \<Longrightarrow> (of_char (char_of (48 + k :: nat)) :: nat) = 48 + k"
  by (simp add: of_char_of)

lemma showNat_digits: "showNat n \<noteq> [] \<and> list_all isDigit (showNat n)
    \<and> foldl (\<lambda>n c. 10 * n + (of_char c - 48)) 0 (showNat n) = n"
proof (induction n rule: showNat.induct)
  case (1 n)
  show ?case
  proof (cases "n < 10")
    case True
    then show ?thesis
      by (simp add: showNat.simps [of n] isDigit_def of_char_digit)
  next
    case False
    have m: "n mod 10 < 10" by simp
    from 1 [OF False] show ?thesis
      using False by (simp add: showNat.simps [of n] isDigit_def of_char_digit [OF m])
  qed
qed

lemma parseInt_showNat:
  assumes "list_all isWhiteSpace ws" "sg = [] \<or> sg = ''-'' \<or> sg = ''+''"
    "rest = [] \<or> \<not> isDigit (hd rest)"
  shows "parseInt (ws @ sg @ showNat n @ rest) = Some (if sg = ''-'' then - int n else int n)"
  using parseInt_number [OF assms(1,2) _ _ assms(3), of "showNat n"] showNat_digits [of n]
  by simp

lemma totals_snoc:
  "prsOpened (totals (ms @ [r])) = addNum (prsOpened (totals ms)) (prsOpened r)"
  "prsMerged (totals (ms @ [r])) = addNum (prsMerged (totals ms)) (prsMerged r)"
  "issuesReadyForQA (totals (ms @ [r])) = addNum (issuesReadyForQA (totals ms)) (issuesReadyForQA r)"
  "issuesQACompleted (totals (ms @ [r])) = addNum (issuesQACompleted (totals ms)) (issuesQACompleted r)"
  by (simp_all add: totals_def)

lemma totals_Nil:
  "totals [] = \<lparr> prsOpened = Some 0, prsMerged = Some 0, issuesReadyForQA = Some 0,
         issuesQACompleted = Some 0 \<rparr>"
  by (simp add: totals_def)

lemma rowMetrics_cong:
  assumes "\<forall>k\<in>recognised. row k = row' k"
  shows "rowMetrics row = rowMetrics row'" "rowMetricsRelease row = rowMetricsRelease row'"
proof -
  have eq: "row ''repo_name'' = row' ''repo_name''" "row ''display_name'' = row' ''display_name''"
    "row ''prs_opened'' = row' ''prs_opened''" "row ''prs_merged'' = row' ''prs_merged''"
    "row ''issues_ready_for_qa'' = row' ''issues_ready_for_qa''"
    "row ''issues_qa_completed'' = row' ''issues_qa_completed''"
    "row ''days_since_last_release'' = row' ''days_since_last_release''"
    "row ''fetched_at'' = row' ''fetched_at''"
    using assms by (simp_all add: recognised_def)
  show "rowMetrics row = rowMetrics row'"
    by (simp only: rowMetrics_def eq)
  then show "rowMetricsRelease row = rowMetricsRelease row'"
    by (simp only: rowMetricsRelease_def eq)
qed

lemma truncate_rowMetricsRelease: "RepoMetrics.truncate (rowMetricsRelease row) = rowMetrics row"
  by (simp add: rowMetricsRelease_def RepoMetrics.truncate_def RepoMetrics.extend_def rowMetrics_def)

lemma truncate_parseCSVRelease: "map RepoMetrics.truncate (parseCSVRelease csvText) = parseCSV csvText"
  by (simp add: parseCSVRelease_def parseCSV_def Let_def truncate_rowMetricsRelease comp_def
      split: list.splits)

lemma parseCSV_rows:
  assumes "2 \<le> length (split (CHR 0x0A) (trim csvText))"
  shows "parseCSV csvText
     = map (\<lambda>line. rowMetrics (buildRow
              (split (CHR '','') (hd (split (CHR 0x0A) (trim csvText)))) (split (CHR '','') line)))
         (tl (split (CHR 0x0A) (trim csvText)))"
  using assms by (cases "split (CHR 0x0A) (trim csvText)") (simp_all add: parseCSV_def Let_def)

text \<open>
  Claim C8, as the code has it. Every line after the header yields one parsed row, and
  the dashboard's parser yields the same rows with one more field. A column whose
  trimmed header is not a recognised name changes no field. A numeric field whose column
  is absent from the header is 0; otherwise it is \<open>parseInt\<close> of the trimmed cell, with
  the string \<open>0\<close> in place of a missing or empty cell, which therefore gives 0.
  \<open>parseInt\<close> reads optional white
  space, an optional sign and the longest run of digits: with at least one digit the
  result is the number the digits denote (the decimal numeral of \<open>n\<close> is read back as
  \<open>n\<close>), negated after a minus sign, whatever follows the digits; with no digit at that
  place the result is \<open>NaN\<close>. Each row adds its four numbers to the totals.
\<close>

theorem parseCSV_defaults:
  "length (parseCSV csvText) = length (split (CHR 0x0A) (trim csvText)) - 1
   \<and> map RepoMetrics.truncate (parseCSVRelease csvText) = parseCSV csvText
   \<and> (2 \<le> length (split (CHR 0x0A) (trim csvText)) \<longrightarrow>
        parseCSV csvText
          = map (\<lambda>line. rowMetrics (buildRow
                   (split (CHR '','') (hd (split (CHR 0x0A) (trim csvText))))
                   (split (CHR '','') line)))
              (tl (split (CHR 0x0A) (trim csvText))))
   \<and> (k \<in> recognised \<longrightarrow>
        buildRow hs vs k
          = foldl (setCell vs) Map.empty
              (filter (\<lambda>hi. trim (fst hi) \<in> recognised) (zip hs [0..<length hs])) k)
   \<and> ((\<forall>k\<in>recognised. row k = row' k) \<longrightarrow>
        rowMetrics row = rowMetrics row' \<and> rowMetricsRelease row = rowMetricsRelease row')
   \<and> ((key, sel) \<in> set numericFields \<and> key \<notin> set (map trim hs) \<longrightarrow>
        sel (rowMetrics (buildRow hs vs)) = Some 0)
   \<and> ((key, sel) \<in> set numericFields \<and> distinct (map trim hs) \<and> i < length hs
        \<and> trim (hs ! i) = key \<longrightarrow>
        sel (rowMetrics (buildRow hs vs))
          = parseInt (orStr (map_option trim (elemAt vs (int i))) ''0''))
   \<and> ((key, sel) \<in> set numericFields \<and> distinct (map trim hs) \<and> i < length hs
        \<and> trim (hs ! i) = key \<and> (length vs \<le> i \<or> trim (vs ! i) = []) \<longrightarrow>
        sel (rowMetrics (buildRow hs vs)) = Some 0)
   \<and> parseInt ''0'' = Some 0
   \<and> (list_all isWhiteSpace ws \<and> (sg = [] \<or> sg = ''-'' \<or> sg = ''+'')
        \<and> ds \<noteq> [] \<and> list_all isDigit ds \<and> (rest = [] \<or> \<not> isDigit (hd rest)) \<longrightarrow>
        parseInt (ws @ sg @ ds @ rest)
          = Some ((if sg = ''-'' then - 1 else 1)
               * int (foldl (\<lambda>n c. 10 * n + (of_char c - 48)) 0 ds)))
   \<and> (list_all isWhiteSpace ws \<and> (sg = [] \<or> sg = ''-'' \<or> sg = ''+'')
        \<and> (rest = [] \<or> \<not> isDigit (hd rest)) \<longrightarrow>
        parseInt (ws @ sg @ showNat n @ rest) = Some (if sg = ''-'' then - int n else int n))
   \<and> (list_all isWhiteSpace ws \<and> (sg = [] \<or> sg = ''-'' \<or> sg = ''+'')
        \<and> (junk = [] \<or> \<not> isDigit (hd junk)
             \<and> (sg = [] \<longrightarrow> \<not> isWhiteSpace (hd junk) \<and> hd junk \<noteq> CHR ''-''
                    \<and> hd junk \<noteq> CHR ''+'')) \<longrightarrow>
        parseInt (ws @ sg @ junk) = None)
   \<and> prsOpened (totals ([] :: RepoMetrics list)) = Some 0
   \<and> prsOpened (totals (ms @ [r])) = addNum (prsOpened (totals ms)) (prsOpened r)
   \<and> prsMerged (totals (ms @ [r])) = addNum (prsMerged (totals ms)) (prsMerged r)
   \<and> issuesReadyForQA (totals (ms @ [r]))
       = addNum (issuesReadyForQA (totals ms)) (issuesReadyForQA r)
   \<and> issuesQACompleted (totals (ms @ [r]))
       = addNum (issuesQACompleted (totals ms)) (issuesQACompleted r)"
proof -
  have unknown: "buildRow hs vs k
          = foldl (setCell vs) Map.empty
              (filter (\<lambda>hi. trim (fst hi) \<in> recognised) (zip hs [0..<length hs])) k"
    if "k \<in> recognised"
    unfolding buildRow_def by (rule foldl_setCell_filter [OF that refl, symmetric])
  have absent: "sel (rowMetrics (buildRow hs vs)) = Some 0"
    if "(key, sel) \<in> set numericFields" "key \<notin> set (map trim hs)"
    using that by (simp add: numericFields_cases buildRow_absent orStr_def parseInt_zero)
  have present: "sel (rowMetrics (buildRow hs vs))
          = parseInt (orStr (map_option trim (elemAt vs (int i))) ''0'')"
    if "(key, sel) \<in> set numericFields" "distinct (map trim hs)" "i < length hs"
      "trim (hs ! i) = key"
    using that buildRow_lookup [of hs i vs]
    by (simp add: numericFields_cases orStr_orStr)
  have blank: "sel (rowMetrics (buildRow hs vs)) = Some 0"
    if "(key, sel) \<in> set numericFields" "distinct (map trim hs)" "i < length hs"
      "trim (hs ! i) = key" "length vs \<le> i \<or> trim (vs ! i) = []"
  proof -
    have "orStr (map_option trim (elemAt vs (int i))) ''0'' = ''0''"
      using that(5) by (auto simp: elemAt_def orStr_def)
    then show ?thesis
      using present [OF that(1-4)] by (simp add: parseInt_zero)
  qed
  show ?thesis
    apply (intro conjI impI length_parseCSV truncate_parseCSVRelease parseInt_zero totals_snoc)
           apply (erule parseCSV_rows)
          apply (erule unknown)
         apply (erule rowMetrics_cong)
        apply (erule rowMetrics_cong)
       apply (erule conjE, erule (1) absent)
       apply (elim conjE, erule (3) present)
      apply (elim conjE, erule (4) blank)
      apply (elim conjE, erule (4) parseInt_number)
     apply (elim conjE, erule (2) parseInt_showNat)
    apply (elim conjE, erule (2) parseInt_NaN)
    apply (simp add: totals_Nil)
    done
qed

theorem parseCSV_defaults_witness:
  "prsOpened (rowMetrics (buildRow feedHeaders [''r1'', ''Repo One'', ''5'', ''99''])) = Some 0
   \<and> prsMerged (rowMetrics (buildRow feedHeaders [''r1'', ''Repo One'', ''5'', ''99''])) = Some 5
   \<and> prsMerged (rowMetrics (buildRow feedHeaders [''r2'', ''Repo Two''])) = Some 0
   \<and> parseInt '' -12abc'' = Some (- 12)
   \<and> parseInt ('' -'' @ showNat 12 @ ''abc'') = Some (- 12)
   \<and> parseInt '' -x7'' = None
   \<and> length (parseCSV feedMalformed) = 2"
proof -
  have absent: "''prs_opened'' \<notin> set (map trim feedHeaders)" by code_simp
  have dist: "distinct (map trim feedHeaders)" by code_simp
  have key: "trim (feedHeaders ! 2) = ''prs_merged''" by code_simp
  have fields: "(''prs_opened'', prsOpened) \<in> set numericFields"
    "(''prs_merged'', prsMerged) \<in> set numericFields"
    by (simp_all add: numericFields_def)
  have len: "(2 :: nat) < length feedHeaders" by (simp add: feedHeaders_def)
  have space: "list_all isWhiteSpace '' ''" by code_simp
  have minus: "''-'' = [] \<or> ''-'' = ''-'' \<or> ''-'' = ''+''" by simp
  have digits: "''12'' \<noteq> []" "list_all isDigit ''12''" by code_simp+
  have letters: "''abc'' = [] \<or> \<not> isDigit (hd ''abc'')" by code_simp
  have junk: "''x7'' = [] \<or> \<not> isDigit (hd ''x7'')
      \<and> (''-'' = [] \<longrightarrow> \<not> isWhiteSpace (hd ''x7'') \<and> hd ''x7'' \<noteq> CHR ''-''
            \<and> hd ''x7'' \<noteq> CHR ''+'')" by code_simp
  have value12: "(if ''-'' = ''-'' then - 1 else 1)
      * int (foldl (\<lambda>n c. 10 * n + (of_char c - 48)) 0 ''12'') = - 12" by code_simp
  have cell5: "parseInt (orStr (map_option trim (elemAt [''r1'', ''Repo One'', ''5'', ''99''] (int 2))) ''0'')
      = Some 5" by code_simp
  have lines: "length (split (CHR 0x0A) (trim feedMalformed)) - 1 = 2" by code_simp
  note A = parseCSV_defaults [where csvText = feedMalformed and k = "''prs_opened''"
      and key = "''prs_opened''" and sel = prsOpened and hs = feedHeaders
      and vs = "[''r1'', ''Repo One'', ''5'', ''99'']" and i = 2 and row = Map.empty
      and row' = Map.empty and ws = "'' ''" and sg = "''-''" and ds = "''12''"
      and rest = "''abc''" and n = 12 and junk = "''x7''"
      and ms = "[]" and r = "rowMetrics Map.empty"]
  note B = parseCSV_defaults [where csvText = feedMalformed and k = "''prs_opened''"
      and key = "''prs_merged''" and sel = prsMerged and hs = feedHeaders
      and vs = "[''r1'', ''Repo One'', ''5'', ''99'']" and i = 2 and row = Map.empty
      and row' = Map.empty and ws = "'' ''" and sg = "''-''" and ds = "''12''"
      and rest = "''abc''" and n = 12 and junk = "''x7''"
      and ms = "[]" and r = "rowMetrics Map.empty"]
  note C = parseCSV_defaults [where csvText = feedMalformed and k = "''prs_opened''"
      and key = "''prs_merged''" and sel = prsMerged and hs = feedHeaders
      and vs = "[''r2'', ''Repo Two'']" and i = 2 and row = Map.empty
      and row' = Map.empty and ws = "'' ''" and sg = "''-''" and ds = "''12''"
      and rest = "''abc''" and n = 12 and junk = "''x7''"
      and ms = "[]" and r = "rowMetrics Map.empty"]
  have 1: "prsOpened (rowMetrics (buildRow feedHeaders [''r1'', ''Repo One'', ''5'', ''99''])) = Some 0"
    using A fields(1) absent by blast
  have "prsMerged (rowMetrics (buildRow feedHeaders [''r1'', ''Repo One'', ''5'', ''99'']))
      = parseInt (orStr (map_option trim (elemAt [''r1'', ''Repo One'', ''5'', ''99''] (int 2))) ''0'')"
    using B fields(2) dist len key by blast
  then have 2: "prsMerged (rowMetrics (buildRow feedHeaders [''r1'', ''Repo One'', ''5'', ''99'']))
      = Some 5"
    by (simp only: cell5)
  have short: "length [''r2'', ''Repo Two''] \<le> 2" by simp
  have 3: "prsMerged (rowMetrics (buildRow feedHeaders [''r2'', ''Repo Two''])) = Some 0"
    using C fields(2) dist len key short by blast
  have "parseInt ('' '' @ ''-'' @ ''12'' @ ''abc'')
      = Some ((if ''-'' = ''-'' then - 1 else 1)
           * int (foldl (\<lambda>n c. 10 * n + (of_char c - 48)) 0 ''12''))"
    using A space minus digits letters by blast
  then have 4: "parseInt '' -12abc'' = Some (- 12)"
    by (simp only: value12 append.simps)
  have "parseInt ('' '' @ ''-'' @ showNat 12 @ ''abc'')
      = Some (if ''-'' = ''-'' then - int 12 else int 12)"
    using A space minus letters by blast
  then have 5: "parseInt ('' -'' @ showNat 12 @ ''abc'') = Some (- 12)"
    by simp
  have "parseInt ('' '' @ ''-'' @ ''x7'') = None"
    using A space minus junk by blast
  then have 6: "parseInt '' -x7'' = None"
    by (simp only: append.simps)
  have "length (parseCSV feedMalformed) = length (split (CHR 0x0A) (trim feedMalformed)) - 1"
    using A by blast
  then have 7: "length (parseCSV feedMalformed) = 2"
    by (simp only: lines)
  show ?thesis using 1 2 3 4 5 6 7 by blast
qed

text \<open>
  The claim as stated fails on a malformed cell: \<open>prs_opened = abc\<close> parses to \<open>NaN\<close>,
  not 0, and the total of the column is \<open>NaN\<close> with it.
\<close>

theorem parseCSV_malformed_counterexample:
  "map prsOpened (parseCSV feedMalformed) = [None, Some 4]
   \<and> prsOpened (totals (parseCSV feedMalformed)) = None
   \<and> map prsOpened (parseCSVRelease feedMalformed) = [None, Some 4]
   \<and> prsOpened (totals (parseCSVRelease feedMalformed)) = None"
  by code_simp

section \<open>The store under the in-place sorts\<close>

text \<open>
  The object-level functions compute what the value-level ones do, and
  \<open>filterDataByDays\<close> itself leaves every array of the store as it was. With a window
  of \<open>N\<close> days the view's arrays are new, so the sorts of \<open>calculateDoraMetrics\<close> do not
  reach the store.
\<close>

lemma arrayAt_append: "a < length arrays \<Longrightarrow> arrayAt (arrays @ [xs]) a = arrayAt arrays a"
  by (simp add: arrayAt_def nth_append)

lemma arrayAt_new: "arrayAt (arrays @ [xs]) (length arrays) = xs"
  by (simp add: arrayAt_def)

lemma arrayAt_update:
  "arrayAt (arrays[a := ys]) b = (if b = a \<and> a < length arrays then ys else arrayAt arrays b)"
  by (auto simp: arrayAt_def)

lemma length_filter_jsSort:
  "length (filter P (jsSort (\<lambda>a b. f b - f a) xs)) = length (filter P xs)"
  by (simp add: jsSort_sort_key filter_sort)

lemma filterDataByDays_heap_value:
  assumes "validRef h s"
  shows "load (snd (filterDataByDays_heap h s w now)) (fst (filterDataByDays_heap h s w now))
     = filterDataByDays (load h s) w now"
  using assms
  by (cases w)
     (auto simp: filterDataByDays_heap_def filterDataByDays_def load_def validRef_def Let_def
        fresh_def orFresh_def filterFresh_def arrayAt_append arrayAt_new orEmpty_def
        split: option.splits prod.splits)

lemma filterDataByDays_heap_frame:
  assumes "validRef h s"
  shows "load (snd (filterDataByDays_heap h s w now)) s = load h s"
  using assms
  by (cases w)
     (auto simp: filterDataByDays_heap_def load_def validRef_def Let_def
        fresh_def orFresh_def filterFresh_def arrayAt_append
        split: option.splits prod.splits)

lemma snd_calculateDoraMetrics_heap:
  "snd (calculateDoraMetrics_heap h f od t now) = afterSorts h f"
  by (simp add: calculateDoraMetrics_heap_def afterSorts_def Let_def)

lemma afterSorts_arrays:
  "arrayAt (deploymentArrays (afterSorts h f)) b
     = (if b = fact_deployment_ref f \<and> b < length (deploymentArrays h)
        then jsSort (\<lambda>a b. created_at_utc b - created_at_utc a) (arrayAt (deploymentArrays h) b)
        else arrayAt (deploymentArrays h) b)"
  "arrayAt (incidentArrays (afterSorts h f)) c
     = (if fact_incident_ref f = Some c \<and> c < length (incidentArrays h)
        then jsSort (\<lambda>a b. created_utc b - created_utc a) (arrayAt (incidentArrays h) c)
        else arrayAt (incidentArrays h) c)"
  "prArrays (afterSorts h f) = prArrays h"
  "eventArrays (afterSorts h f) = eventArrays h"
  "rollupArrays (afterSorts h f) = rollupArrays h"
  by (auto simp: afterSorts_def calculateDoraMetrics_heap_def Let_def arrayAt_update jsSort_def
      split: option.splits)

lemma afterSorts_counts:
  "length (filter P (fact_deployment (load (afterSorts h f) r)))
     = length (filter P (fact_deployment (load h r)))"
  "map_option length (fact_incident (load (afterSorts h f) r))
     = map_option length (fact_incident (load h r))"
  "fact_pr (load (afterSorts h f) r) = fact_pr (load h r)"
  "dora_events (load (afterSorts h f) r) = dora_events (load h r)"
  "dora_summary_daily (load (afterSorts h f) r) = dora_summary_daily (load h r)"
  by (cases "fact_incident_ref r";
      simp add: load_def afterSorts_arrays length_filter_jsSort length_jsSort)+

lemma calculateDeploymentTrendText_counts:
  assumes "\<And>P. length (filter P (fact_deployment od')) = length (filter P (fact_deployment od))"
  shows "calculateDeploymentTrendText f' od' now = calculateDeploymentTrendText f od now"
  by (simp only: calculateDeploymentTrendText_def Let_def filter_filter assms)

lemma calculateCFRTrendStatus_counts:
  assumes "\<And>P. length (filter P (fact_deployment od')) = length (filter P (fact_deployment od))"
    and "\<And>P. length (filter P (fact_deployment f')) = length (filter P (fact_deployment f))"
  shows "calculateCFRTrendStatus f' od' t now = calculateCFRTrendStatus f od t now"
proof -
  have "length (fact_deployment od') = length (fact_deployment od)"
    using assms(1) [of "\<lambda>_. True"] by simp
  then show ?thesis
    by (cases t) (simp_all add: calculateCFRTrendStatus_def Let_def assms)
qed

lemma calculateDoraMetrics_heap_value:
  "fst (calculateDoraMetrics_heap h f od t now) = calculateDoraMetrics (load h f) (load h od) t now"
proof -
  from calculateDoraMetrics_result [of "load h f" "load h od" t now]
  obtain m where m: "calculateDoraMetrics (load h f) (load h od) t now = Inr m"
    and x: "deploymentFrequencyTrendText m = calculateDeploymentTrendText (load h f) (load h od) now"
    and st: "cfrTrendStatus m = calculateCFRTrendStatus (load h f) (load h od) t now"
    and ti: "totalIncidents m =
           orNum (map_option length (fact_incident (load h f)))
             (orNum (map_option
                (\<lambda>events. length (filter (\<lambda>event. event_type event = ''incident'') events))
                (dora_events (load h f))) 0)"
    and tp: "totalPRs m = orNum (map_option length (fact_pr (load h f))) 0"
    by blast
  have h2: "snd (calculateDoraMetrics_heap h f od t now) = afterSorts h f"
    by (rule snd_calculateDoraMetrics_heap)
  have x': "calculateDeploymentTrendText (load (afterSorts h f) f) (load (afterSorts h f) od) now
      = deploymentFrequencyTrendText m"
    unfolding x by (rule calculateDeploymentTrendText_counts) (rule afterSorts_counts)
  have st': "calculateCFRTrendStatus (load (afterSorts h f) f) (load (afterSorts h f) od) t now
      = cfrTrendStatus m"
    unfolding st by (rule calculateCFRTrendStatus_counts) (rule afterSorts_counts)+
  have "fst (calculateDoraMetrics_heap h f od t now)
      = Inr (m \<lparr> deploymentFrequencyTrendText :=
                    calculateDeploymentTrendText (load (afterSorts h f) f) (load (afterSorts h f) od) now,
                  cfrTrendStatus :=
                    calculateCFRTrendStatus (load (afterSorts h f) f) (load (afterSorts h f) od) t now,
                  totalIncidents :=
                    orNum (map_option length (fact_incident (load (afterSorts h f) f)))
                      (orNum (map_option
                         (\<lambda>events. length
                            (filter (\<lambda>event. event_type event = ''incident'') events))
                         (dora_events (load (afterSorts h f) f))) 0),
                  totalPRs := orNum (map_option length (fact_pr (load (afterSorts h f) f))) 0 \<rparr>)"
    using h2 by (simp add: calculateDoraMetrics_heap_def Let_def m bindE_def afterSorts_def)
  also have "\<dots> = Inr m"
    unfolding x' st' afterSorts_counts by (simp add: ti [symmetric] tp [symmetric])
  finally show ?thesis by (simp add: m)
qed

lemma window_view_is_fresh:
  "fact_deployment_ref (fst (filterDataByDays_heap h s (Some n) now)) = length (deploymentArrays h)"
  "fact_incident_ref (fst (filterDataByDays_heap h s (Some n) now)) = Some (length (incidentArrays h))"
  by (simp_all add: filterDataByDays_heap_def Let_def fresh_def filterFresh_def
      split: option.splits prod.splits)

lemma window_store_unchanged:
  assumes "validRef h s"
  shows "load (snd (calculateDoraMetrics_heap (snd (filterDataByDays_heap h s (Some n) now))
                 (fst (filterDataByDays_heap h s (Some n) now)) s (Some n) now)) s
     = load h s"
proof -
  define v where "v = fst (filterDataByDays_heap h s (Some n) now)"
  define h1 where "h1 = snd (filterDataByDays_heap h s (Some n) now)"
  have refs: "fact_deployment_ref v = length (deploymentArrays h)"
    "fact_incident_ref v = Some (length (incidentArrays h))"
    unfolding v_def by (rule window_view_is_fresh)+
  have valid: "fact_deployment_ref s < length (deploymentArrays h)"
    "case fact_incident_ref s of None \<Rightarrow> True | Some a \<Rightarrow> a < length (incidentArrays h)"
    using assms by (simp_all add: validRef_def)
  have frame: "load h1 s = load h s"
    unfolding h1_def by (rule filterDataByDays_heap_frame [OF assms])
  have "load (afterSorts h1 v) s = load h1 s"
    using valid refs
    by (auto simp: load_def afterSorts_arrays split: option.splits)
  then show ?thesis
    by (simp add: snd_calculateDoraMetrics_heap frame flip: v_def h1_def)
qed

text \<open>
  Claim C2 does not hold for the unbounded window. There the view's \<open>fact_deployment\<close>
  and, when present, \<open>fact_incident\<close> are the store's own arrays (only the rollups are
  copied, by \<open>slice()\<close>, before they are reversed), and \<open>calculateDoraMetrics\<close> sorts
  both in place: a store holding deployments created at 1 and 2 and incidents created
  at 1 and 2, in this order, holds them in the opposite order after the two calls.
\<close>

theorem null_window_sort_reorders_store:
  "fact_deployment_ref (fst (filterDataByDays_heap sharedHeap sharedStore None 0))
     = fact_deployment_ref sharedStore
   \<and> fact_incident_ref (fst (filterDataByDays_heap sharedHeap sharedStore None 0))
     = fact_incident_ref sharedStore
   \<and> fact_deployment (load sharedHeap sharedStore)
     = [deploymentAt 1 1 ''success'', deploymentAt 2 2 ''success'']
   \<and> fact_incident (load sharedHeap sharedStore) = Some [incidentAt 1 10, incidentAt 2 20]
   \<and> fact_deployment (load
        (snd (calculateDoraMetrics_heap (snd (filterDataByDays_heap sharedHeap sharedStore None 0))
               (fst (filterDataByDays_heap sharedHeap sharedStore None 0)) sharedStore None 0))
        sharedStore)
     = [deploymentAt 2 2 ''success'', deploymentAt 1 1 ''success'']
   \<and> fact_incident (load
        (snd (calculateDoraMetrics_heap (snd (filterDataByDays_heap sharedHeap sharedStore None 0))
               (fst (filterDataByDays_heap sharedHeap sharedStore None 0)) sharedStore None 0))
        sharedStore)
     = Some [incidentAt 2 20, incidentAt 1 10]"
proof -
  have view: "fst (filterDataByDays_heap sharedHeap sharedStore None 0)
      = \<lparr> fact_deployment_ref = 0, fact_pr_ref = Some 0, fact_incident_ref = Some 0,
          dora_events_ref = Some 0, dora_summary_daily_ref = Some 0 \<rparr>"
    by (simp add: filterDataByDays_heap_def sharedHeap_def sharedStore_def fresh_def orFresh_def)
  have heap1: "deploymentArrays (snd (filterDataByDays_heap sharedHeap sharedStore None 0))
      = [[deploymentAt 1 1 ''success'', deploymentAt 2 2 ''success'']]"
    "incidentArrays (snd (filterDataByDays_heap sharedHeap sharedStore None 0))
      = [[incidentAt 1 10, incidentAt 2 20]]"
    by (simp_all add: filterDataByDays_heap_def sharedHeap_def sharedStore_def fresh_def
        orFresh_def)
  have before: "fact_deployment (load sharedHeap sharedStore)
      = [deploymentAt 1 1 ''success'', deploymentAt 2 2 ''success'']"
    "fact_incident (load sharedHeap sharedStore) = Some [incidentAt 1 10, incidentAt 2 20]"
    by (simp_all add: load_def sharedHeap_def sharedStore_def arrayAt_def)
  have len1: "length (deploymentArrays (snd (filterDataByDays_heap sharedHeap sharedStore None 0))) = 1"
    "length (incidentArrays (snd (filterDataByDays_heap sharedHeap sharedStore None 0))) = 1"
    by (simp_all add: heap1)
  have refs: "fact_deployment_ref sharedStore = 0" "fact_incident_ref sharedStore = Some 0"
    by (simp_all add: sharedStore_def)
  have at1: "arrayAt (deploymentArrays (snd (filterDataByDays_heap sharedHeap sharedStore None 0))) 0
      = [deploymentAt 1 1 ''success'', deploymentAt 2 2 ''success'']"
    "arrayAt (incidentArrays (snd (filterDataByDays_heap sharedHeap sharedStore None 0))) 0
      = [incidentAt 1 10, incidentAt 2 20]"
    by (simp_all add: heap1 arrayAt_def)
  have sorted_d: "jsSort (\<lambda>a b. created_at_utc b - created_at_utc a)
        [deploymentAt 1 1 ''success'', deploymentAt 2 2 ''success'']
      = [deploymentAt 2 2 ''success'', deploymentAt 1 1 ''success'']"
    by (simp add: jsSort_def deploymentAt_def)
  have sorted_i: "jsSort (\<lambda>a b. created_utc b - created_utc a) [incidentAt 1 10, incidentAt 2 20]
      = [incidentAt 2 20, incidentAt 1 10]"
    by (simp add: jsSort_def incidentAt_def)
  have after: "fact_deployment (load
        (afterSorts (snd (filterDataByDays_heap sharedHeap sharedStore None 0))
           (fst (filterDataByDays_heap sharedHeap sharedStore None 0))) sharedStore)
      = [deploymentAt 2 2 ''success'', deploymentAt 1 1 ''success'']"
    "fact_incident (load
        (afterSorts (snd (filterDataByDays_heap sharedHeap sharedStore None 0))
           (fst (filterDataByDays_heap sharedHeap sharedStore None 0))) sharedStore)
      = Some [incidentAt 2 20, incidentAt 1 10]"
    by (simp_all add: load_def afterSorts_arrays view refs at1 len1 sorted_d sorted_i)
  show ?thesis
    using before after by (simp add: snd_calculateDoraMetrics_heap view refs)
qed

end
